theory Spec2Isabelle
  imports Complex_Main "HOL-Library.Signed_Division"
begin

section \<open>The document model seen by the OGR import\<close>

text \<open>
  Doubles are modelled by rationals: sums, quotients and roundings are the exact ones.
  Pointers to colors and symbols are indices into the stores below; a null pointer is
  \<open>None\<close>.
\<close>

type_synonym color_ref = nat
type_synonym symbol_ref = nat
type_synonym coord = "rat \<times> rat"

text \<open>
  Conditions which stop the import: the exception thrown by the spatial reference
  resolver, a failed \<^verbatim>\<open>FILEFORMAT_ASSERT\<close>, and a switch default marked
  \<^verbatim>\<open>Q_UNREACHABLE\<close>.
\<close>

datatype import_error = FileFormatException | AssertionFailed | Unreachable

datatype color_spec =
    Cmyk rat rat rat rat
  | SpotComposition color_ref rat
  | Rgb int int int

record map_color =
  col_name :: string
  col_priority :: nat
  col_spot_name :: string
  col_spec :: color_spec
  col_opacity :: "rat option"

datatype symbol_type =
  NoSymbol | SymbolPoint | SymbolLine | SymbolArea | SymbolText | SymbolCombined | AllSymbols

datatype cap_style = FlatCap | RoundCap | SquareCap

datatype join_style = BevelJoin | MiterJoin | RoundJoin

text \<open>
  One record for the four symbol classes the import creates. \<open>sym_color\<close> is the inner
  color of a point symbol and the color of the others; the line fields are meaningful for
  line symbols, \<open>inner_radius\<close> for point symbols and \<open>font_size\<close> for text symbols.
\<close>

record symbol =
  sym_type :: symbol_type
  sym_name :: string
  sym_number :: nat
  sym_hidden :: bool
  sym_description :: string
  sym_color :: "color_ref option"
  line_width :: rat
  cap :: cap_style
  join :: join_style
  dashed :: bool
  dash_length :: int
  break_length :: int
  inner_radius :: int
  font_size :: rat

section \<open>Geometries, features and spatial references of the driver\<close>

datatype wkb_type =
    wkbUnknown | wkbPoint | wkbLineString | wkbPolygon | wkbMultiPoint | wkbMultiLineString
  | wkbMultiPolygon | wkbGeometryCollection | wkbOther

text \<open>
  A geometry of the driver: the flattened type, whether the type has no dimension
  modifier (then \<^verbatim>\<open>OGR_G_GetGeometryType\<close> is the flattened type itself), the points and
  the sub-geometries.
\<close>

datatype geometry =
  Geometry (g_type: wkb_type) (g_flat: bool) (g_points: "coord list") (g_parts: "geometry list")

definition OGR_G_GetPoint :: "geometry \<Rightarrow> nat \<Rightarrow> coord" where
  "OGR_G_GetPoint geometry i =
     (if i < length (g_points geometry) then g_points geometry ! i else (0, 0))"

text \<open>
  Spatial references: those of the data source, known by their handle, and the ones the
  import constructs itself: the orthographic projection at the origin used as a probe, the
  geographic WGS84 reference, a local coordinate system, and a projected reference
  imported from a PROJ.4 specification.
\<close>

datatype srs = LayerSrs nat | OrthographicSrs | GeographicSrs | LocalSrs | ProjectedSrs string

text \<open>
  A feature: its geometry (possibly null) with the spatial reference attached to it, its
  style string (empty for a null string), its fields as strings, by index, and the
  driver's search for a field by name (negative when there is none).
\<close>

record feature =
  f_geometry :: "geometry option"
  f_srs :: "nat option"
  f_style :: string
  f_fields :: "string option list"
  f_field_index :: "string \<Rightarrow> int"

text \<open>
  A layer: its name, the handle of its spatial reference, its features, the field names
  of its feature definition, and its extent when the layer can tell it fast.
\<close>

record layer =
  l_name :: string
  l_srs :: "nat option"
  l_features :: "feature list"
  l_field_names :: "string list option"
  l_fast_extent :: bool
  l_extent :: "(rat \<times> rat \<times> rat \<times> rat) option"

text \<open>A data source: its layers; \<^verbatim>\<open>OGR_DS_GetLayer\<close> may return a null layer.\<close>

type_synonym data_source = "layer option list"

text \<open>
  Modelled from the spec: \<^verbatim>\<open>Georeferencing\<close> of \<^verbatim>\<open>core/georeferencing.h\<close> is not among the
  sources. It has a "state in {Local, Geospatial}, projected CRS spec string, reference
  point, scale denominator, combined scale factor, grivation/declination"; the setters
  used by the import store their argument.
\<close>

datatype georef_state = Local | Geospatial

record georeferencing =
  geo_state :: georef_state
  projected_crs_id :: string
  projected_crs_spec :: string
  projected_ref_point :: coord
  scale_denominator :: int
  declination :: rat
  combined_scale_factor :: rat

definition OGR_F_GetFieldAsString :: "feature \<Rightarrow> int \<Rightarrow> string option" where
  "OGR_F_GetFieldAsString feature i =
     (if 0 \<le> i \<and> nat i < length (f_fields feature) then f_fields feature ! nat i else Some [])"

section \<open>The style tools of the driver\<close>

datatype tool_class = OGRSTCNone | OGRSTCPen | OGRSTCBrush | OGRSTCSymbol | OGRSTCLabel | OGRSTCVector

datatype tool_unit = OGRSTUGround | OGRSTUPixel | OGRSTUPoints | OGRSTUMM | OGRSTUCM | OGRSTUInches

datatype tool_param =
    OGRSTPenColor | OGRSTPenWidth | OGRSTPenPattern | OGRSTPenCap | OGRSTPenJoin
  | OGRSTBrushFColor
  | OGRSTSymbolColor | OGRSTSymbolAngle
  | OGRSTLabelTextString | OGRSTLabelFColor | OGRSTLabelSize | OGRSTLabelAnchor | OGRSTLabelAngle

text \<open>
  A style tool is what the driver answers about it: its class, its unit, its own style
  string (\<^verbatim>\<open>OGR_ST_GetStyleString\<close>) and its parameters read as string, double or
  integer, where \<open>None\<close> is the driver's \<^verbatim>\<open>is_null\<close>.
\<close>

record style_tool =
  st_type :: tool_class
  st_unit :: tool_unit
  st_style_string :: string
  st_param_str :: "tool_param \<Rightarrow> string option"
  st_param_dbl :: "tool_param \<Rightarrow> rat option"
  st_param_num :: "tool_param \<Rightarrow> int option"

text \<open>
  The functions of the driver and of Qt which the import calls and whose code is not part
  of the repository:
  \<^item> \<open>style_parts\<close>: \<^verbatim>\<open>OGR_SM_InitStyleString\<close> (\<open>None\<close> when it fails) followed by
    \<^verbatim>\<open>OGR_SM_GetPart\<close> for every part (\<open>None\<close> for a null tool);
  \<^item> \<open>rgb_from_string\<close>: \<^verbatim>\<open>OGR_ST_GetRGBFromString\<close> on a possibly null string,
    \<open>None\<close> when it reports failure, else red, green, blue and alpha;
  \<^item> \<open>dash_pattern\<close>: the two lengths which the regular expression of
    \<^verbatim>\<open>applyPenPattern\<close> captures and \<^verbatim>\<open>toDouble\<close> converts, \<open>None\<close> when either fails;
  \<^item> \<open>number_f2\<close>, \<open>number_g1\<close>: \<^verbatim>\<open>QString::number\<close> of a double in format
    \<^verbatim>\<open>'f'\<close> with precision 2 and \<^verbatim>\<open>'g'\<close> with precision 1; \<open>number_dbl\<close>: the default format;
  \<^item> \<open>to_double\<close>: \<^verbatim>\<open>QString::toDouble\<close>, \<open>None\<close> when the conversion fails;
  \<^item> \<open>georef_to_map_coord\<close>: \<^verbatim>\<open>Georeferencing::toMapCoordF\<close> followed by
    \<^verbatim>\<open>MapCoord::load\<close>;
  \<^item> \<open>srs_is_local\<close>, \<open>srs_is_projected\<close>, \<open>srs_export_to_proj4\<close>: \<^verbatim>\<open>OSRIsLocal\<close>,
    \<^verbatim>\<open>OSRIsProjected\<close> and \<^verbatim>\<open>OSRExportToProj4\<close> (\<open>None\<close> for an error) on a reference of the
    data source;
  \<^item> \<open>import_from_proj4\<close>: whether \<^verbatim>\<open>OSRImportFromProj4\<close> succeeds;
  \<^item> \<open>new_transformation\<close>: \<^verbatim>\<open>OCTNewCoordinateTransformation\<close>, \<open>None\<close> for a null
    transformation; a transformation is what \<^verbatim>\<open>OGR_G_Transform\<close> does with it to a
    geometry, \<open>None\<close> for an error;
  \<^item> \<open>is_empty\<close>: \<^verbatim>\<open>OGR_G_IsEmpty\<close>; \<open>force_to_line_string\<close>:
    \<^verbatim>\<open>OGR_G_ForceToLineString\<close> of a clone;
  \<^item> \<open>new_georeferencing\<close>: a default-constructed \<^verbatim>\<open>Georeferencing\<close>;
  \<^item> \<open>number_f6\<close>: a double as \<^verbatim>\<open>QString::arg\<close> formats it with format \<^verbatim>\<open>'f'\<close>;
  \<^item> \<open>kml_icon_exists\<close>: whether the icon file named by a KML overlay exists;
  \<^item> \<open>double_add\<close>, \<open>double_mul\<close>, \<open>double_div\<close>: the sum, the product and the quotient
    of two doubles as the platform rounds them, where the code adds up or scales
    coordinates.
\<close>

record ogr_env =
  style_parts :: "string \<Rightarrow> style_tool option list option"
  rgb_from_string :: "string option \<Rightarrow> (int \<times> int \<times> int \<times> int) option"
  dash_pattern :: "string \<Rightarrow> (rat \<times> rat) option"
  number_f2 :: "rat \<Rightarrow> string"
  number_g1 :: "rat \<Rightarrow> string"
  number_dbl :: "rat \<Rightarrow> string"
  to_double :: "string \<Rightarrow> rat option"
  georef_to_map_coord :: "georeferencing \<Rightarrow> coord \<Rightarrow> coord"
  srs_is_local :: "nat \<Rightarrow> bool"
  srs_is_projected :: "nat \<Rightarrow> bool"
  srs_export_to_proj4 :: "nat \<Rightarrow> string option"
  import_from_proj4 :: "string \<Rightarrow> bool"
  new_transformation :: "srs \<Rightarrow> srs \<Rightarrow> (geometry \<Rightarrow> geometry option) option"
  is_empty :: "geometry \<Rightarrow> bool"
  force_to_line_string :: "geometry \<Rightarrow> geometry"
  new_georeferencing :: georeferencing
  number_f6 :: "rat \<Rightarrow> string"
  kml_icon_exists :: "string \<Rightarrow> bool"
  double_add :: "rat \<Rightarrow> rat \<Rightarrow> rat"
  double_mul :: "rat \<Rightarrow> rat \<Rightarrow> rat"
  double_div :: "rat \<Rightarrow> rat \<Rightarrow> rat"

definition OGR_ST_SetUnit :: "style_tool \<Rightarrow> tool_unit \<Rightarrow> style_tool" where
  "OGR_ST_SetUnit tool unit = tool\<lparr>st_unit := unit\<rparr>"

section \<open>Map objects\<close>

datatype vertical_alignment = AlignBaseline | AlignVCenter | AlignTop | AlignBottom

datatype horizontal_alignment = AlignLeft | AlignHCenter | AlignRight

datatype object_type = ObjectPoint | ObjectPath | ObjectText

type_synonym tags = "(string \<times> string) list"

record path_part =
  part_coords :: "coord list"
  part_closed :: bool

text \<open>
  Modelled from the spec: the object classes of \<^verbatim>\<open>core/objects\<close> are not among the
  sources. An object has a symbol, tags and coordinates in parts; a point or text object
  has one coordinate. Alignments and rotation are \<open>None\<close> until the import sets them; the
  rotation is kept in degrees, as it is before \<^verbatim>\<open>qDegreesToRadians\<close>. A path is built
  by \<^verbatim>\<open>addCoordinate\<close>, which continues the last part unless a new part is started
  ("subsequent rings are holes, each starting a new path part"), and \<^verbatim>\<open>closeAllParts\<close>
  closes every part ("close all parts").
\<close>

record map_object =
  obj_type :: object_type
  obj_symbol :: symbol_ref
  obj_parts :: "path_part list"
  obj_text :: string
  obj_v_align :: "vertical_alignment option"
  obj_h_align :: "horizontal_alignment option"
  obj_rotation :: "rat option"
  obj_tags :: tags

definition new_object :: "object_type \<Rightarrow> symbol_ref \<Rightarrow> map_object" where
  "new_object t symbol =
     \<lparr>obj_type = t, obj_symbol = symbol, obj_parts = [], obj_text = [], obj_v_align = None,
      obj_h_align = None, obj_rotation = None, obj_tags = []\<rparr>"

definition addCoordinate :: "coord \<Rightarrow> bool \<Rightarrow> map_object \<Rightarrow> map_object" where
  "addCoordinate c start_new_part object =
     (if obj_parts object = [] \<or> start_new_part
      then object\<lparr>obj_parts := obj_parts object @ [\<lparr>part_coords = [c], part_closed = False\<rparr>]\<rparr>
      else object\<lparr>obj_parts := butlast (obj_parts object) @
             [(last (obj_parts object))\<lparr>part_coords := part_coords (last (obj_parts object)) @ [c]\<rparr>]\<rparr>)"

definition closeAllParts :: "map_object \<Rightarrow> map_object" where
  "closeAllParts object = object\<lparr>obj_parts := map (\<lambda>p. p\<lparr>part_closed := True\<rparr>) (obj_parts object)\<rparr>"

definition setPosition :: "coord \<Rightarrow> map_object \<Rightarrow> map_object" where
  "setPosition c object = object\<lparr>obj_parts := [\<lparr>part_coords = [c], part_closed = False\<rparr>]\<rparr>"

text \<open>
  Modelled from the spec: \<^verbatim>\<open>KeyValueContainer\<close> of \<^verbatim>\<open>util/key_value_container.h\<close> is not
  among the sources. It is "an ordered mapping from field name to string value"; its two
  operations have the names and the contract of the standard ordered map: \<^verbatim>\<open>insert\<close>
  adds a pair unless the key is present, \<^verbatim>\<open>insert_or_assign\<close> adds a pair or replaces
  the value of a present key.
\<close>

definition tags_contains :: "tags \<Rightarrow> string \<Rightarrow> bool" where
  "tags_contains tgs key = (key \<in> fst ` set tgs)"

definition tags_insert :: "string \<times> string \<Rightarrow> tags \<Rightarrow> tags" where
  "tags_insert tag tgs = (if tags_contains tgs (fst tag) then tgs else tgs @ [tag])"

definition tags_insert_or_assign :: "string \<Rightarrow> string \<Rightarrow> tags \<Rightarrow> tags" where
  "tags_insert_or_assign key val tgs =
     (if tags_contains tgs key then map (\<lambda>(k, v). if k = key then (k, val) else (k, v)) tgs
      else tgs @ [(key, val)])"

definition setTag :: "string \<Rightarrow> string \<Rightarrow> map_object \<Rightarrow> map_object" where
  "setTag key val object = object\<lparr>obj_tags := tags_insert_or_assign key val (obj_tags object)\<rparr>"

section \<open>Label anchors\<close>

text \<open>
  \<^verbatim>\<open>applyLabelAnchor\<close>: the division and the remainder are those of C++ on \<^verbatim>\<open>int\<close>
  (truncating towards zero, remainder with the sign of the dividend).
\<close>

definition applyLabelAnchor :: "int \<Rightarrow> map_object \<Rightarrow> import_error + map_object" where
  "applyLabelAnchor anchor text_object =
     (let v_align = (anchor - 1) sdiv 3 in
      case (if v_align = 0 then Inr (text_object\<lparr>obj_v_align := Some AlignBaseline\<rparr>)
            else if v_align = 1 then Inr (text_object\<lparr>obj_v_align := Some AlignVCenter\<rparr>)
            else if v_align = 2 then Inr (text_object\<lparr>obj_v_align := Some AlignTop\<rparr>)
            else if v_align = 3 then Inr (text_object\<lparr>obj_v_align := Some AlignBottom\<rparr>)
            else Inl Unreachable) of
        Inl e \<Rightarrow> Inl e
      | Inr text_object1 \<Rightarrow>
          (let h_align = (anchor - 1) smod 3 in
           if h_align = 0 then Inr (text_object1\<lparr>obj_h_align := Some AlignLeft\<rparr>)
           else if h_align = 1 then Inr (text_object1\<lparr>obj_h_align := Some AlignHCenter\<rparr>)
           else if h_align = 2 then Inr (text_object1\<lparr>obj_h_align := Some AlignRight\<rparr>)
           else Inl Unreachable))"

section \<open>The importer\<close>

datatype coord_conversion = FromProjected | FromDrawing

datatype unit_type = UnitOnGround | UnitOnPaper

datatype warning =
    CannotUseSpatialReference nat
  | UnableToSetupSrs string
  | UnableToLoadLayer nat
  | UnableToLoadObjects nat string

text \<open>
  The state of one \<^verbatim>\<open>OgrFileImport\<close> together with the colors and symbols of its map.
  \<open>color_store\<close> and \<open>symbols\<close> hold the objects a pointer refers to; \<open>map_colors\<close>
  and \<open>map_symbols\<close> are the map's lists in their order. The four symbol caches and the
  color cache are hashes from byte strings to pointers; the color cache can hold a null
  pointer. \<open>georef\<close> is the georeferencing of the map, \<open>map_objects\<close> are the objects added
  to the map, each with the index of its map part, \<open>templates\<close> the templates added to the
  map, each with its icon and pass points.
\<close>

record importer =
  color_store :: "map_color list"
  symbols :: "symbol list"
  map_colors :: "color_ref list"
  map_symbols :: "symbol_ref list"
  colors :: "string \<rightharpoonup> color_ref option"
  point_symbols :: "string \<rightharpoonup> symbol_ref"
  line_symbols :: "string \<rightharpoonup> symbol_ref"
  area_symbols :: "string \<rightharpoonup> symbol_ref"
  text_symbols :: "string \<rightharpoonup> symbol_ref"
  default_pen_color :: color_ref
  default_point_symbol :: symbol_ref
  default_line_symbol :: symbol_ref
  default_area_symbol :: symbol_ref
  default_text_symbol :: symbol_ref
  to_map_coord :: coord_conversion
  unit_type :: unit_type
  driver_name :: string
  map_srs :: "srs option"
  data_srs :: "nat option"
  data_transform :: "(geometry \<Rightarrow> geometry option) option"
  georef :: georeferencing
  map_objects :: "(nat \<times> map_object) list"
  templates :: "(string \<times> coord list) list"
  warnings :: "warning list"
  empty_geometries :: nat
  no_transformation :: nat
  failed_transformation :: nat
  unsupported_geometry_type :: nat
  too_few_coordinates :: nat

text \<open>\<^verbatim>\<open>Map::addColor\<close> and \<^verbatim>\<open>Map::addSymbol\<close> insert a pointer at a position.\<close>

definition insert_at :: "nat \<Rightarrow> 'a \<Rightarrow> 'a list \<Rightarrow> 'a list" where
  "insert_at pos x xs = take pos xs @ x # drop pos xs"

definition addColor :: "color_ref \<Rightarrow> nat \<Rightarrow> importer \<Rightarrow> importer" where
  "addColor color pos s = s\<lparr>map_colors := insert_at pos color (map_colors s)\<rparr>"

definition addSymbol :: "symbol_ref \<Rightarrow> nat \<Rightarrow> importer \<Rightarrow> importer" where
  "addSymbol symbol pos s = s\<lparr>map_symbols := insert_at pos symbol (map_symbols s)\<rparr>"

text \<open>\<^verbatim>\<open>QHash::value\<close> of a hash of pointers: a null pointer for a missing key.\<close>

definition hash_value :: "('k \<rightharpoonup> 'v option) \<Rightarrow> 'k \<Rightarrow> 'v option" where
  "hash_value h k = (case h k of None \<Rightarrow> None | Some v \<Rightarrow> v)"

text \<open>
  The constructor of \<^verbatim>\<open>OgrFileImport\<close> on a map which has the colors \<open>cs\<close> and the symbols
  \<open>ss\<close>: two default colors and four default symbols are created and inserted at the
  front of the map's lists. \<open>fresh t\<close> is the symbol which the constructor of the symbol
  class of type \<open>t\<close> returns, \<open>g\<close> the georeferencing of the map.
\<close>

definition OgrFileImport :: "map_color list \<Rightarrow> symbol list \<Rightarrow> georeferencing \<Rightarrow> (symbol_type \<Rightarrow> symbol) \<Rightarrow> unit_type \<Rightarrow> importer" where
  "OgrFileImport cs ss g fresh unit =
     (let pen = length cs; brush = Suc pen; n = length ss in
      \<lparr>color_store = cs @
         [\<lparr>col_name = ''Purple'', col_priority = 0, col_spot_name = ''PURPLE'',
           col_spec = Cmyk (35 / 100) (85 / 100) 0 0, col_opacity = None\<rparr>,
          \<lparr>col_name = ''Purple 40%'', col_priority = 0, col_spot_name = [],
           col_spec = SpotComposition pen (8 / 10), col_opacity = Some (1 / 2)\<rparr>],
       symbols = ss @
         [(fresh SymbolPoint)
            \<lparr>sym_type := SymbolPoint, sym_name := ''Point'', sym_number := 1,
             sym_color := Some pen, inner_radius := 200\<rparr>,
          (fresh SymbolLine)
            \<lparr>sym_type := SymbolLine, sym_name := ''Line'', sym_number := 2,
             sym_color := Some pen, line_width := 1 / 10, cap := FlatCap, join := MiterJoin\<rparr>,
          (fresh SymbolArea)
            \<lparr>sym_type := SymbolArea, sym_name := ''Area'', sym_number := 3,
             sym_color := Some brush\<rparr>,
          (fresh SymbolText)
            \<lparr>sym_type := SymbolText, sym_name := ''Text'', sym_number := 4,
             sym_color := Some pen\<rparr>],
       map_colors = insert_at 1 brush (insert_at 0 pen [0..<length cs]),
       map_symbols =
         insert_at 3 (n + 3) (insert_at 2 (n + 2) (insert_at 1 (n + 1) (insert_at 0 n [0..<n]))),
       colors = Map.empty, point_symbols = Map.empty, line_symbols = Map.empty,
       area_symbols = Map.empty, text_symbols = Map.empty,
       default_pen_color = pen, default_point_symbol = n, default_line_symbol = n + 1,
       default_area_symbol = n + 2, default_text_symbol = n + 3,
       to_map_coord = FromProjected, unit_type = unit, driver_name = [], map_srs = None,
       data_srs = None, data_transform = None, georef = g, map_objects = [], templates = [],
       warnings = [],
       empty_geometries = 0, no_transformation = 0, failed_transformation = 0,
       unsupported_geometry_type = 0, too_few_coordinates = 0\<rparr>)"

section \<open>Colors and symbols from style tools\<close>

text \<open>
  \<^verbatim>\<open>OgrFileImport::makeColor\<close>. The key is the color string (empty for a null string).
  A cached non-null color is returned. Otherwise the string is decoded: on failure the
  default pen color is taken, on success with a positive alpha a new color is created and
  appended to the map, and on success with alpha zero the result stays null. The result
  is stored in the cache in all three cases.
\<close>

definition makeColor :: "ogr_env \<Rightarrow> string option \<Rightarrow> importer \<Rightarrow> color_ref option \<times> importer" where
  "makeColor env color_string s =
     (let key = (case color_string of None \<Rightarrow> [] | Some c \<Rightarrow> c) in
      case hash_value (colors s) key of
        Some color \<Rightarrow> (Some color, s)
      | None \<Rightarrow>
          (case rgb_from_string env color_string of
             None \<Rightarrow>
               (Some (default_pen_color s),
                s\<lparr>colors := (colors s)(key \<mapsto> Some (default_pen_color s))\<rparr>)
           | Some (r, g, b, a) \<Rightarrow>
               if a > 0 then
                 (let color = length (color_store s);
                      s1 = s\<lparr>color_store := color_store s @
                             [\<lparr>col_name = key, col_priority = length (map_colors s),
                               col_spot_name = [], col_spec = Rgb r g b, col_opacity = None\<rparr>]\<rparr>;
                      s2 = addColor color (length (map_colors s1)) s1
                  in (Some color, s2\<lparr>colors := (colors s2)(key \<mapsto> Some color)\<rparr>))
               else (None, s\<lparr>colors := (colors s)(key \<mapsto> None)\<rparr>)))"

definition applyPenColor :: "ogr_env \<Rightarrow> style_tool \<Rightarrow> symbol \<Rightarrow> importer \<Rightarrow> symbol \<times> importer" where
  "applyPenColor env tool line_symbol s =
     (case st_param_str tool OGRSTPenColor of
        None \<Rightarrow> (line_symbol, s)
      | Some color_string \<Rightarrow>
          (case makeColor env (Some color_string) s of
             (Some color, s1) \<Rightarrow> (line_symbol\<lparr>sym_color := Some color\<rparr>, s1)
           | (None, s1) \<Rightarrow> (line_symbol\<lparr>sym_hidden := True\<rparr>, s1)))"

definition applyBrushColor :: "ogr_env \<Rightarrow> style_tool \<Rightarrow> symbol \<Rightarrow> importer \<Rightarrow> symbol \<times> importer" where
  "applyBrushColor env tool area_symbol s =
     (case st_param_str tool OGRSTBrushFColor of
        None \<Rightarrow> (area_symbol, s)
      | Some color_string \<Rightarrow>
          (case makeColor env (Some color_string) s of
             (Some color, s1) \<Rightarrow> (area_symbol\<lparr>sym_color := Some color\<rparr>, s1)
           | (None, s1) \<Rightarrow> (area_symbol\<lparr>sym_hidden := True\<rparr>, s1)))"

definition applyPenWidth :: "style_tool \<Rightarrow> symbol \<Rightarrow> import_error + symbol" where
  "applyPenWidth tool line_symbol =
     (case st_param_dbl tool OGRSTPenWidth of
        None \<Rightarrow> Inr line_symbol
      | Some pen_width \<Rightarrow>
          if st_unit tool \<noteq> OGRSTUMM then Inl AssertionFailed
          else Inr (line_symbol\<lparr>line_width := (if pen_width \<le> 1 / 100 then 1 / 10 else pen_width)\<rparr>))"

definition applyPenCap :: "style_tool \<Rightarrow> symbol \<Rightarrow> symbol" where
  "applyPenCap tool line_symbol =
     (case st_param_str tool OGRSTPenCap of
        None \<Rightarrow> line_symbol
      | Some pen_cap \<Rightarrow>
          (case pen_cap of
             c # _ \<Rightarrow>
               if c = CHR ''p'' then line_symbol\<lparr>cap := SquareCap\<rparr>
               else if c = CHR ''r'' then line_symbol\<lparr>cap := RoundCap\<rparr>
               else line_symbol
           | [] \<Rightarrow> line_symbol))"

definition applyPenJoin :: "style_tool \<Rightarrow> symbol \<Rightarrow> symbol" where
  "applyPenJoin tool line_symbol =
     (case st_param_str tool OGRSTPenJoin of
        None \<Rightarrow> line_symbol
      | Some pen_join \<Rightarrow>
          (case pen_join of
             c # _ \<Rightarrow>
               if c = CHR ''b'' then line_symbol\<lparr>join := BevelJoin\<rparr>
               else if c = CHR ''r'' then line_symbol\<lparr>join := RoundJoin\<rparr>
               else line_symbol
           | [] \<Rightarrow> line_symbol))"

text \<open>
  \<^verbatim>\<open>qRound\<close> of a double (half-way cases upwards), which returns a 32-bit integer. The
  conversion of a double outside the range of a 32-bit integer is undefined in C++; the
  model takes the result of the conversion instruction of x86 processors, which is the
  smallest 32-bit integer.
\<close>

definition qRound :: "rat \<Rightarrow> int" where
  "qRound d =
     (let r = \<lfloor>d + 1 / 2\<rfloor>
      in if - 2147483648 \<le> r \<and> r \<le> 2147483647 then r else - 2147483648)"

definition applyPenPattern :: "ogr_env \<Rightarrow> style_tool \<Rightarrow> symbol \<Rightarrow> symbol" where
  "applyPenPattern env tool line_symbol =
     (case st_param_str tool OGRSTPenPattern of
        None \<Rightarrow> line_symbol
      | Some raw_pattern \<Rightarrow>
          (case dash_pattern env raw_pattern of
             Some (length_0, length_1) \<Rightarrow>
               line_symbol\<lparr>dashed := True,
                            dash_length := max 100 (qRound (length_0 * 1000)),
                            break_length := max 100 (qRound (length_1 * 1000))\<rparr>
           | None \<Rightarrow> line_symbol))"

text \<open>A symbol cache is asked for a key and the symbol found is checked for its type.\<close>

definition cached_of_type :: "(string \<rightharpoonup> symbol_ref) \<Rightarrow> string \<Rightarrow> symbol_type \<Rightarrow> importer \<Rightarrow> symbol_ref option" where
  "cached_of_type cache key t s =
     (case cache key of
        None \<Rightarrow> None
      | Some symbol \<Rightarrow> if sym_type (symbols s ! symbol) = t then Some symbol else None)"

definition getSymbolForPen :: "ogr_env \<Rightarrow> style_tool \<Rightarrow> string \<Rightarrow> importer \<Rightarrow> import_error + (symbol_ref \<times> importer)" where
  "getSymbolForPen env tool style_string s =
     (if st_type tool \<noteq> OGRSTCPen then Inl AssertionFailed
      else
        let tool_key = st_style_string tool in
        case cached_of_type (line_symbols s) tool_key SymbolLine s of
          Some symbol \<Rightarrow> Inr (symbol, s)
        | None \<Rightarrow>
            (case applyPenColor env tool (symbols s ! default_line_symbol s) s of
               (line_symbol1, s1) \<Rightarrow>
                 (case applyPenWidth tool line_symbol1 of
                    Inl e \<Rightarrow> Inl e
                  | Inr line_symbol2 \<Rightarrow>
                      (let line_symbol = applyPenPattern env tool
                             (applyPenJoin tool (applyPenCap tool line_symbol2));
                           ret = length (symbols s1);
                           s2 = s1\<lparr>symbols := symbols s1 @ [line_symbol]\<rparr>;
                           key = style_string;
                           s3 = s2\<lparr>line_symbols := (line_symbols s2)(key \<mapsto> ret)\<rparr>;
                           s4 = (if key \<noteq> tool_key
                                 then s3\<lparr>line_symbols := (line_symbols s3)(tool_key \<mapsto> ret)\<rparr>
                                 else s3)
                       in Inr (ret, addSymbol ret (length (map_symbols s4)) s4)))))"

definition getSymbolForBrush :: "ogr_env \<Rightarrow> style_tool \<Rightarrow> string \<Rightarrow> importer \<Rightarrow> import_error + (symbol_ref \<times> importer)" where
  "getSymbolForBrush env tool style_string s =
     (if st_type tool \<noteq> OGRSTCBrush then Inl AssertionFailed
      else
        let tool_key = st_style_string tool in
        case cached_of_type (area_symbols s) tool_key SymbolArea s of
          Some symbol \<Rightarrow> Inr (symbol, s)
        | None \<Rightarrow>
            (case applyBrushColor env tool (symbols s ! default_area_symbol s) s of
               (area_symbol, s1) \<Rightarrow>
                 (let ret = length (symbols s1);
                      s2 = s1\<lparr>symbols := symbols s1 @ [area_symbol]\<rparr>;
                      key = style_string;
                      s3 = s2\<lparr>area_symbols := (area_symbols s2)(key \<mapsto> ret)\<rparr>;
                      s4 = (if key \<noteq> tool_key
                            then s3\<lparr>area_symbols := (area_symbols s3)(tool_key \<mapsto> ret)\<rparr>
                            else s3)
                  in Inr (ret, addSymbol ret (length (map_symbols s4)) s4))))"

text \<open>
  \<^verbatim>\<open>getSymbolForOgrSymbol\<close>: a point symbol from a brush, pen or symbol tool. A null result
  (another tool class, or a tool without color parameter) is \<open>None\<close>. The rotation angle of
  a symbol tool is written into the description after the symbol has been registered.
\<close>

definition getSymbolForOgrSymbol :: "ogr_env \<Rightarrow> style_tool \<Rightarrow> string \<Rightarrow> importer \<Rightarrow> symbol_ref option \<times> importer" where
  "getSymbolForOgrSymbol env tool style_string s =
     (let tool_key = st_style_string tool in
      case cached_of_type (point_symbols s) tool_key SymbolPoint s of
        Some symbol \<Rightarrow> (Some symbol, s)
      | None \<Rightarrow>
          (case (case st_type tool of
                   OGRSTCBrush \<Rightarrow> Some OGRSTBrushFColor
                 | OGRSTCPen \<Rightarrow> Some OGRSTPenColor
                 | OGRSTCSymbol \<Rightarrow> Some OGRSTSymbolColor
                 | _ \<Rightarrow> None) of
             None \<Rightarrow> (None, s)
           | Some color_key \<Rightarrow>
               (case st_param_str tool color_key of
                  None \<Rightarrow> (None, s)
                | Some color_string \<Rightarrow>
                    (case makeColor env (Some color_string) s of
                       (color, s1) \<Rightarrow>
                         (let copy = symbols s ! default_point_symbol s;
                              point_symbol = (case color of
                                  Some c \<Rightarrow> copy\<lparr>sym_color := Some c\<rparr>
                                | None \<Rightarrow> copy\<lparr>sym_hidden := True\<rparr>);
                              ret = length (symbols s1);
                              s2 = s1\<lparr>symbols := symbols s1 @ [point_symbol]\<rparr>;
                              key = style_string;
                              s3 = s2\<lparr>point_symbols := (point_symbols s2)(key \<mapsto> ret)\<rparr>;
                              s4 = (if key \<noteq> tool_key
                                    then s3\<lparr>point_symbols := (point_symbols s3)(tool_key \<mapsto> ret)\<rparr>
                                    else s3);
                              s5 = addSymbol ret (length (map_symbols s4)) s4;
                              s6 = (if st_type tool = OGRSTCSymbol then
                                      (case st_param_dbl tool OGRSTSymbolAngle of
                                         Some angle \<Rightarrow>
                                           s5\<lparr>symbols := (symbols s5)
                                                [ret := (symbols s5 ! ret)\<lparr>sym_description := number_f2 env angle\<rparr>]\<rparr>
                                       | None \<Rightarrow> s5)
                                    else s5)
                          in (Some ret, s6))))))"

section \<open>Numbers in strings\<close>

text \<open>
  \<^verbatim>\<open>QString::number\<close> of an integer: the decimal digits, with a minus sign before a
  negative number.
\<close>

definition digit_char :: "nat \<Rightarrow> char" where
  "digit_char d = ''0123456789'' ! d"

fun number_nat :: "nat \<Rightarrow> string" where
  "number_nat n = (if n < 10 then [digit_char n] else number_nat (n div 10) @ [digit_char (n mod 10)])"

declare number_nat.simps [simp del]

definition number_int :: "int \<Rightarrow> string" where
  "number_int i = (if i < 0 then CHR ''-'' # number_nat (nat (- i)) else number_nat (nat i))"

text \<open>
  \<^verbatim>\<open>toInt\<close> of a string reference: an optional sign and decimal digits, between optional
  spaces; \<open>None\<close> when the conversion fails. The range check of a 32-bit integer is part of
  the conversion.
\<close>

definition is_digit :: "char \<Rightarrow> bool" where
  "is_digit c = ((48::nat) \<le> of_char c \<and> of_char c \<le> (57::nat))"

definition digit_value :: "char \<Rightarrow> nat" where
  "digit_value c = of_char c - 48"

definition digits_value :: "string \<Rightarrow> nat" where
  "digits_value ds = foldl (\<lambda>acc c. 10 * acc + digit_value c) 0 ds"

definition trim_spaces :: "string \<Rightarrow> string" where
  "trim_spaces str = rev (dropWhile (\<lambda>c. c = CHR '' '') (rev (dropWhile (\<lambda>c. c = CHR '' '') str)))"

definition toInt :: "string \<Rightarrow> int option" where
  "toInt str =
     (let t = trim_spaces str;
          negative = (t \<noteq> [] \<and> hd t = CHR ''-'');
          ds = (if t \<noteq> [] \<and> (hd t = CHR ''-'' \<or> hd t = CHR ''+'') then tl t else t);
          v = (if negative then - int (digits_value ds) else int (digits_value ds))
      in if ds \<noteq> [] \<and> list_all is_digit ds \<and> - 2147483648 \<le> v \<and> v \<le> 2147483647
         then Some v else None)"

text \<open>\<^verbatim>\<open>QStringRef(&str, position, n)\<close> and \<^verbatim>\<open>QString::right\<close>.\<close>

definition string_ref :: "string \<Rightarrow> nat \<Rightarrow> nat \<Rightarrow> string" where
  "string_ref str position n = take n (drop position str)"

definition right :: "string \<Rightarrow> int \<Rightarrow> string" where
  "right str n = (if n < 0 \<or> int (length str) \<le> n then str else drop (length str - nat n) str)"

definition qBound :: "int \<Rightarrow> int \<Rightarrow> int \<Rightarrow> int" where
  "qBound lo val hi = max lo (min hi val)"

section \<open>Text symbols from label tools\<close>

text \<open>
  Modelled from the spec: \<^verbatim>\<open>TextSymbol::scale\<close> is not among the sources; the font size
  is "used as a relative scale factor against a default font size", so scaling multiplies
  the font size by the factor.
\<close>

definition scale :: "rat \<Rightarrow> symbol \<Rightarrow> symbol" where
  "scale factor text_symbol = text_symbol\<lparr>font_size := font_size text_symbol * factor\<rparr>"

definition c_str :: "string option \<Rightarrow> string" where
  "c_str str = (case str of None \<Rightarrow> [] | Some c \<Rightarrow> c)"

text \<open>
  \<^verbatim>\<open>getSymbolForLabel\<close>. The key of the text symbol is the color string followed by the
  font size string. The description is written into the symbol on every call, also when
  the symbol comes from the cache.
\<close>

definition label_description :: "ogr_env \<Rightarrow> style_tool \<Rightarrow> string \<Rightarrow> string" where
  "label_description env tool label_string =
     (let anchor = (case st_param_num tool OGRSTLabelAnchor of
                      None \<Rightarrow> 1
                    | Some n \<Rightarrow> qBound 1 n 12);
          angle = (case st_param_dbl tool OGRSTLabelAngle of None \<Rightarrow> 0 | Some a \<Rightarrow> a)
      in number_int (100 + anchor) @ number_g1 env angle @ [CHR '' ''] @ label_string)"

definition getSymbolForLabel :: "ogr_env \<Rightarrow> style_tool \<Rightarrow> string \<Rightarrow> importer \<Rightarrow> import_error + (symbol_ref option \<times> importer)" where
  "getSymbolForLabel env tool style_string s =
     (if st_type tool \<noteq> OGRSTCLabel then Inl AssertionFailed
      else
        case st_param_str tool OGRSTLabelTextString of
          None \<Rightarrow> Inr (None, s)
        | Some label_string \<Rightarrow>
            (let color_string = st_param_str tool OGRSTLabelFColor;
                 font_size_string = st_param_str tool OGRSTLabelSize;
                 key = c_str color_string @ c_str font_size_string
             in case (case text_symbols s key of
                        Some text_symbol \<Rightarrow> (text_symbol, s)
                      | None \<Rightarrow>
                          (let copy = symbols s ! default_text_symbol s
                           in case makeColor env color_string s of
                                (color, s1) \<Rightarrow>
                                  (let text_symbol1 = (case color of
                                           Some c \<Rightarrow> copy\<lparr>sym_color := Some c\<rparr>
                                         | None \<Rightarrow> copy\<lparr>sym_hidden := True\<rparr>);
                                       text_symbol2 = (case st_param_dbl tool OGRSTLabelSize of
                                           Some label_size \<Rightarrow>
                                             if label_size > 0
                                             then scale (label_size / font_size text_symbol1) text_symbol1
                                             else text_symbol1
                                         | None \<Rightarrow> text_symbol1);
                                       text_symbol = length (symbols s1);
                                       s2 = s1\<lparr>symbols := symbols s1 @ [text_symbol2]\<rparr>;
                                       s3 = s2\<lparr>text_symbols := (text_symbols s2)(key \<mapsto> text_symbol)\<rparr>
                                   in (text_symbol, addSymbol text_symbol (length (map_symbols s3)) s3)))) of
                  (text_symbol, s4) \<Rightarrow>
                    Inr (Some text_symbol,
                         s4\<lparr>symbols := (symbols s4)
                              [text_symbol := (symbols s4 ! text_symbol)
                                 \<lparr>sym_description := label_description env tool label_string\<rparr>]\<rparr>)))"

section \<open>Symbols from style strings\<close>

text \<open>
  The loops of \<^verbatim>\<open>getSymbolForPointGeometry\<close>, \<^verbatim>\<open>getLineSymbol\<close> and \<^verbatim>\<open>getAreaSymbol\<close> over
  the parts of a style string: null tools are skipped, the unit of a tool is set to
  millimetres, and the loop ends with the first symbol.
\<close>

fun point_symbol_of_parts :: "ogr_env \<Rightarrow> string \<Rightarrow> style_tool option list \<Rightarrow> importer \<Rightarrow> import_error + (symbol_ref option \<times> importer)" where
  "point_symbol_of_parts env style_string [] s = Inr (None, s)"
| "point_symbol_of_parts env style_string (None # parts) s =
     point_symbol_of_parts env style_string parts s"
| "point_symbol_of_parts env style_string (Some part # parts) s =
     (let tool = OGR_ST_SetUnit part OGRSTUMM in
      if st_type tool = OGRSTCBrush \<or> st_type tool = OGRSTCPen \<or> st_type tool = OGRSTCSymbol then
        (case getSymbolForOgrSymbol env tool style_string s of
           (Some symbol, s1) \<Rightarrow> Inr (Some symbol, s1)
         | (None, s1) \<Rightarrow> point_symbol_of_parts env style_string parts s1)
      else if st_type tool = OGRSTCLabel then
        (case getSymbolForLabel env tool style_string s of
           Inl e \<Rightarrow> Inl e
         | Inr (Some symbol, s1) \<Rightarrow> Inr (Some symbol, s1)
         | Inr (None, s1) \<Rightarrow> point_symbol_of_parts env style_string parts s1)
      else point_symbol_of_parts env style_string parts s)"

fun line_symbol_of_parts :: "ogr_env \<Rightarrow> string \<Rightarrow> style_tool option list \<Rightarrow> importer \<Rightarrow> import_error + (symbol_ref option \<times> importer)" where
  "line_symbol_of_parts env style_string [] s = Inr (None, s)"
| "line_symbol_of_parts env style_string (None # parts) s =
     line_symbol_of_parts env style_string parts s"
| "line_symbol_of_parts env style_string (Some part # parts) s =
     (let tool = OGR_ST_SetUnit part OGRSTUMM in
      if st_type tool = OGRSTCPen then
        (case getSymbolForPen env tool style_string s of
           Inl e \<Rightarrow> Inl e
         | Inr (symbol, s1) \<Rightarrow> Inr (Some symbol, s1))
      else line_symbol_of_parts env style_string parts s)"

fun area_symbol_of_parts :: "ogr_env \<Rightarrow> string \<Rightarrow> style_tool option list \<Rightarrow> importer \<Rightarrow> import_error + (symbol_ref option \<times> importer)" where
  "area_symbol_of_parts env style_string [] s = Inr (None, s)"
| "area_symbol_of_parts env style_string (None # parts) s =
     area_symbol_of_parts env style_string parts s"
| "area_symbol_of_parts env style_string (Some part # parts) s =
     (let tool = OGR_ST_SetUnit part OGRSTUMM in
      if st_type tool = OGRSTCBrush then
        (case getSymbolForBrush env tool style_string s of
           Inl e \<Rightarrow> Inl e
         | Inr (symbol, s1) \<Rightarrow> Inr (Some symbol, s1))
      else area_symbol_of_parts env style_string parts s)"

text \<open>
  The common head of the three functions: no symbol for an empty style string, for a
  style string which the style manager rejects, and for one without parts.
\<close>

definition parts_of_style :: "ogr_env \<Rightarrow> string \<Rightarrow> style_tool option list" where
  "parts_of_style env style_string =
     (if style_string = [] then []
      else case style_parts env style_string of None \<Rightarrow> [] | Some parts \<Rightarrow> parts)"

definition getSymbolForPointGeometry :: "ogr_env \<Rightarrow> string \<Rightarrow> importer \<Rightarrow> import_error + (symbol_ref option \<times> importer)" where
  "getSymbolForPointGeometry env style_string s =
     point_symbol_of_parts env style_string (parts_of_style env style_string) s"

definition getLineSymbol :: "ogr_env \<Rightarrow> string \<Rightarrow> importer \<Rightarrow> import_error + (symbol_ref option \<times> importer)" where
  "getLineSymbol env style_string s =
     line_symbol_of_parts env style_string (parts_of_style env style_string) s"

definition getAreaSymbol :: "ogr_env \<Rightarrow> string \<Rightarrow> importer \<Rightarrow> import_error + (symbol_ref option \<times> importer)" where
  "getAreaSymbol env style_string s =
     area_symbol_of_parts env style_string (parts_of_style env style_string) s"

text \<open>
  \<^verbatim>\<open>OgrFileImport::getSymbol\<close>: the cache of the requested kind is asked for the whole
  style string first; a style string which gives no symbol gets the default symbol.
\<close>

definition or_default :: "symbol_ref \<Rightarrow> import_error + (symbol_ref option \<times> importer) \<Rightarrow> import_error + (symbol_ref \<times> importer)" where
  "or_default dflt r =
     (case r of
        Inl e \<Rightarrow> Inl e
      | Inr (Some symbol, s1) \<Rightarrow> Inr (symbol, s1)
      | Inr (None, s1) \<Rightarrow> Inr (dflt, s1))"

definition getSymbol :: "ogr_env \<Rightarrow> symbol_type \<Rightarrow> string \<Rightarrow> importer \<Rightarrow> import_error + (symbol_ref \<times> importer)" where
  "getSymbol env type style_string s =
     (if type = SymbolPoint \<or> type = SymbolText then
        (case point_symbols s style_string of
           Some symbol \<Rightarrow> Inr (symbol, s)
         | None \<Rightarrow> or_default (default_point_symbol s) (getSymbolForPointGeometry env style_string s))
      else if type = SymbolCombined \<or> type = SymbolLine then
        (case line_symbols s style_string of
           Some symbol \<Rightarrow> Inr (symbol, s)
         | None \<Rightarrow> or_default (default_line_symbol s) (getLineSymbol env style_string s))
      else if type = SymbolArea then
        (case area_symbols s style_string of
           Some symbol \<Rightarrow> Inr (symbol, s)
         | None \<Rightarrow> or_default (default_area_symbol s) (getAreaSymbol env style_string s))
      else Inl Unreachable)"

section \<open>Strings of labels\<close>

text \<open>
  \<^verbatim>\<open>replace(before, after)\<close> of Qt's strings and byte arrays: every occurrence, from
  left to right, without overlap.
\<close>

fun replace_from :: "nat \<Rightarrow> string \<Rightarrow> string \<Rightarrow> string \<Rightarrow> string" where
  "replace_from skip before after [] = []"
| "replace_from skip before after (c # cs) =
     (if 0 < skip then replace_from (skip - 1) before after cs
      else if take (length before) (c # cs) = before
      then after @ replace_from (length before - 1) before after cs
      else c # replace_from 0 before after cs)"

definition replace :: "string \<Rightarrow> string \<Rightarrow> string \<Rightarrow> string" where
  "replace before after str =
     (if before = [] then concat (map (\<lambda>c. after @ [c]) str) @ after
      else replace_from 0 before after str)"

text \<open>
  The replacement of the regular expression \<^verbatim>\<open>(\\[^;]*;)*\<close> by the empty string: a
  backslash is removed together with everything up to the next semicolon; a backslash
  which no semicolon follows stays.
\<close>

function strip_format :: "string \<Rightarrow> string" where
  "strip_format [] = []"
| "strip_format (c # cs) =
     (if c = CHR 0x5C \<and> CHR '';'' \<in> set cs
      then strip_format (tl (dropWhile (\<lambda>x. x \<noteq> CHR '';'') cs))
      else c # strip_format cs)"
  by pat_completeness auto
termination
proof (relation "measure length")
  show "wf (measure (length :: string \<Rightarrow> nat))" by simp
next
  fix c :: char and cs :: string
  have "length (dropWhile (\<lambda>x. x \<noteq> CHR '';'') cs) \<le> length cs"
    by (rule length_dropWhile_le)
  then show "(tl (dropWhile (\<lambda>x. x \<noteq> CHR '';'') cs), c # cs) \<in> measure length"
    by simp
next
  fix c :: char and cs :: string
  show "(cs, c # cs) \<in> measure length" by simp
qed

definition indexOf :: "string \<Rightarrow> char \<Rightarrow> int" where
  "indexOf str c = (if c \<in> set str then int (length (takeWhile (\<lambda>x. x \<noteq> c) str)) else - 1)"

section \<open>Importing geometries\<close>

text \<open>
  \<^verbatim>\<open>toMapCoord\<close> calls the conversion chosen by \<^verbatim>\<open>setSRS\<close>: \<^verbatim>\<open>fromProjected\<close> uses the
  georeferencing of the map, \<^verbatim>\<open>fromDrawing\<close> flips the y axis.
\<close>

definition toMapCoord :: "ogr_env \<Rightarrow> importer \<Rightarrow> coord \<Rightarrow> coord" where
  "toMapCoord env s xy =
     (case to_map_coord s of
        FromProjected \<Rightarrow> georef_to_map_coord env (georef s) xy
      | FromDrawing \<Rightarrow> (fst xy, - snd xy))"

text \<open>
  The label of a text object is the description of its symbol after the first space. A
  label in braces names a field of the feature, whose value is taken if the feature has
  such a field.
\<close>

definition label_of_description :: "feature \<Rightarrow> string \<Rightarrow> int \<Rightarrow> string" where
  "label_of_description feature description split =
     (let label = right description (int (length description) - split - 1) in
      if label \<noteq> [] \<and> hd label = CHR ''{'' \<and> last label = CHR ''}'' then
        (let name = butlast (tl label);
             index = f_field_index feature name
         in if index \<ge> 0 then c_str (OGR_F_GetFieldAsString feature index) else name)
      else label)"

text \<open>
  \<^verbatim>\<open>importPointGeometry\<close>: a point object for a point symbol, rotated by the angle found in
  the description of the symbol; a text object for a text symbol, if the label is not
  empty, with anchor and angle read from the description; no object otherwise.
\<close>

definition importPointGeometry :: "ogr_env \<Rightarrow> feature \<Rightarrow> geometry \<Rightarrow> importer \<Rightarrow> import_error + (map_object option \<times> importer)" where
  "importPointGeometry env feature geometry s =
     (case getSymbol env SymbolPoint (f_style feature) s of
        Inl e \<Rightarrow> Inl e
      | Inr (symbol, s1) \<Rightarrow>
          if sym_type (symbols s1 ! symbol) = SymbolPoint then
            (let object = setPosition (toMapCoord env s1 (OGR_G_GetPoint geometry 0))
                            (new_object ObjectPoint symbol);
                 description = sym_description (symbols s1 ! symbol)
             in case to_double env description of
                  Some angle \<Rightarrow>
                    Inr (Some (setTag ''Rotation'' (number_dbl env angle)
                                 (object\<lparr>obj_rotation := Some angle\<rparr>)), s1)
                | None \<Rightarrow> Inr (Some object, s1))
          else if sym_type (symbols s1 ! symbol) = SymbolText then
            (let description = sym_description (symbols s1 ! symbol);
                 split = indexOf description (CHR '' '')
             in if \<not> split > 0 \<or> \<not> split < int (length description) then Inl AssertionFailed
                else
                  (let label = label_of_description feature description split in
                   if label \<noteq> [] then
                     (let object = (setPosition (toMapCoord env s1 (OGR_G_GetPoint geometry 0))
                                      (new_object ObjectText symbol))
                                   \<lparr>obj_text := replace ''^I'' [CHR 0x09] (strip_format label)\<rparr>
                      in case (case toInt (string_ref description 1 2) of
                                 Some anchor \<Rightarrow> applyLabelAnchor anchor object
                               | None \<Rightarrow> Inr object) of
                           Inl e \<Rightarrow> Inl e
                         | Inr object1 \<Rightarrow>
                             (case to_double env (string_ref description 3 (nat split - 3)) of
                                Some angle \<Rightarrow> Inr (Some (object1\<lparr>obj_rotation := Some angle\<rparr>), s1)
                              | None \<Rightarrow> Inr (Some object1, s1)))
                   else Inr (None, s1)))
          else Inr (None, s1))"

text \<open>The coordinates of a ring or line are added one by one.\<close>

fun add_coordinates :: "ogr_env \<Rightarrow> importer \<Rightarrow> bool \<Rightarrow> coord list \<Rightarrow> map_object \<Rightarrow> map_object" where
  "add_coordinates env s start_new_part [] object = object"
| "add_coordinates env s start_new_part (p # ps) object =
     add_coordinates env s False ps (addCoordinate (toMapCoord env s p) start_new_part object)"

text \<open>
  \<^verbatim>\<open>importLineStringGeometry\<close>: a geometry whose type is not exactly a line string is
  forced to a line string first. Fewer than two points are counted and give no object.
\<close>

definition as_line_string :: "ogr_env \<Rightarrow> geometry \<Rightarrow> geometry" where
  "as_line_string env geometry =
     (if \<not> (g_type geometry = wkbLineString \<and> g_flat geometry)
      then force_to_line_string env geometry else geometry)"

definition importLineStringGeometry :: "ogr_env \<Rightarrow> feature \<Rightarrow> geometry \<Rightarrow> importer \<Rightarrow> import_error + (map_object option \<times> importer)" where
  "importLineStringGeometry env feature geometry0 s =
     (let geometry = as_line_string env geometry0;
          num_points = length (g_points geometry)
      in if num_points < 2 then Inr (None, s\<lparr>too_few_coordinates := too_few_coordinates s + 1\<rparr>)
         else
           (case getSymbol env SymbolLine (f_style feature) s of
              Inl e \<Rightarrow> Inl e
            | Inr (symbol, s1) \<Rightarrow>
                Inr (Some (add_coordinates env s1 False (g_points geometry)
                             (new_object ObjectPath symbol)), s1)))"

text \<open>
  \<^verbatim>\<open>importPolygonGeometry\<close>: the first ring is the outline and needs three points; every
  further ring starts a new part with its first point; all parts are closed at the end.
\<close>

fun add_holes :: "ogr_env \<Rightarrow> importer \<Rightarrow> geometry list \<Rightarrow> map_object \<Rightarrow> map_object" where
  "add_holes env s [] object = object"
| "add_holes env s (hole # holes) object =
     add_holes env s holes (add_coordinates env s True (g_points hole) object)"

definition importPolygonGeometry :: "ogr_env \<Rightarrow> feature \<Rightarrow> geometry \<Rightarrow> importer \<Rightarrow> import_error + (map_object option \<times> importer)" where
  "importPolygonGeometry env feature geometry s =
     (case g_parts geometry of
        [] \<Rightarrow> Inr (None, s\<lparr>too_few_coordinates := too_few_coordinates s + 1\<rparr>)
      | outline0 # holes \<Rightarrow>
          (let outline = as_line_string env outline0;
               num_points = length (g_points outline)
           in if num_points < 3
              then Inr (None, s\<lparr>too_few_coordinates := too_few_coordinates s + 1\<rparr>)
              else
                (case getSymbol env SymbolArea (f_style feature) s of
                   Inl e \<Rightarrow> Inl e
                 | Inr (symbol, s1) \<Rightarrow>
                     Inr (Some (closeAllParts
                                  (add_holes env s1 holes
                                     (add_coordinates env s1 False (g_points outline)
                                        (new_object ObjectPath symbol)))), s1))))"

text \<open>
  \<^verbatim>\<open>importGeometry\<close> and the loop of \<^verbatim>\<open>importGeometryCollection\<close> over the sub-geometries.
  An unknown geometry type is counted.
\<close>

definition object_list :: "import_error + (map_object option \<times> importer) \<Rightarrow> import_error + (map_object list \<times> importer)" where
  "object_list r =
     (case r of
        Inl e \<Rightarrow> Inl e
      | Inr (Some object, s1) \<Rightarrow> Inr ([object], s1)
      | Inr (None, s1) \<Rightarrow> Inr ([], s1))"

fun importGeometry :: "ogr_env \<Rightarrow> feature \<Rightarrow> geometry \<Rightarrow> importer \<Rightarrow> import_error + (map_object list \<times> importer)"
  and import_geometries :: "ogr_env \<Rightarrow> feature \<Rightarrow> geometry list \<Rightarrow> importer \<Rightarrow> import_error + (map_object list \<times> importer)" where
  "importGeometry env feature (Geometry t flat points parts) s =
     (if t = wkbPoint then object_list (importPointGeometry env feature (Geometry t flat points parts) s)
      else if t = wkbLineString
      then object_list (importLineStringGeometry env feature (Geometry t flat points parts) s)
      else if t = wkbPolygon
      then object_list (importPolygonGeometry env feature (Geometry t flat points parts) s)
      else if t = wkbGeometryCollection \<or> t = wkbMultiLineString \<or> t = wkbMultiPoint
              \<or> t = wkbMultiPolygon
      then import_geometries env feature parts s
      else Inr ([], s\<lparr>unsupported_geometry_type := unsupported_geometry_type s + 1\<rparr>))"
| "import_geometries env feature [] s = Inr ([], s)"
| "import_geometries env feature (g # gs) s =
     (case importGeometry env feature g s of
        Inl e \<Rightarrow> Inl e
      | Inr (tmp, s1) \<Rightarrow>
          (case import_geometries env feature gs s1 of
             Inl e \<Rightarrow> Inl e
           | Inr (result, s2) \<Rightarrow> Inr (tmp @ result, s2)))"

definition importGeometryCollection :: "ogr_env \<Rightarrow> feature \<Rightarrow> geometry \<Rightarrow> importer \<Rightarrow> import_error + (map_object list \<times> importer)" where
  "importGeometryCollection env feature geometry s = import_geometries env feature (g_parts geometry) s"

section \<open>Importing features\<close>

text \<open>\<^verbatim>\<open>importFields\<close>: one tag for every field whose value is not empty.\<close>

definition importFields :: "string list option \<Rightarrow> feature \<Rightarrow> tags" where
  "importFields feature_definition feature =
     (let num_fields = (case feature_definition of None \<Rightarrow> 0 | Some names \<Rightarrow> length names) in
      foldl (\<lambda>tgs i.
               case OGR_F_GetFieldAsString feature (int i) of
                 Some val \<Rightarrow>
                   if length val > 0
                   then tags_insert_or_assign (the feature_definition ! i) val tgs
                   else tgs
               | None \<Rightarrow> tgs)
            [] [0..<num_fields])"

text \<open>
  \<^verbatim>\<open>setSRS\<close>: a transformation is built when the reference differs from the current one;
  without a transformation the feature is counted and skipped. A feature without
  reference uses drawing coordinates when the unit is on paper.
\<close>

definition setSRS :: "ogr_env \<Rightarrow> nat option \<Rightarrow> importer \<Rightarrow> bool \<times> importer" where
  "setSRS env srs s0 =
     (let s = s0\<lparr>to_map_coord := FromProjected\<rparr> in
      case srs of
        Some n \<Rightarrow>
          if data_srs s \<noteq> Some n then
            (case (case map_srs s of
                     None \<Rightarrow> None
                   | Some m \<Rightarrow> new_transformation env (LayerSrs n) m) of
               None \<Rightarrow> (False, s\<lparr>no_transformation := no_transformation s + 1\<rparr>)
             | Some transformation \<Rightarrow>
                 (True, s\<lparr>data_srs := Some n, data_transform := Some transformation\<rparr>))
          else (True, s)
      | None \<Rightarrow>
          (True, if unit_type s = UnitOnPaper then s\<lparr>to_map_coord := FromDrawing\<rparr> else s))"

text \<open>
  \<^verbatim>\<open>handleKmlOverlayIcon\<close>: a single path object of five coordinates with an icon tag
  whose file exists becomes a template, and the object list is cleared.
\<close>

definition handleKmlOverlayIcon :: "ogr_env \<Rightarrow> map_object list \<Rightarrow> tags \<Rightarrow> importer \<Rightarrow> map_object list \<times> importer" where
  "handleKmlOverlayIcon env objects tgs s =
     (case objects of
        [object] \<Rightarrow>
          (case map_of tgs ''icon'' of
             None \<Rightarrow> (objects, s)
           | Some icon_field \<Rightarrow>
               if obj_type object \<noteq> ObjectPath
                  \<or> length (concat (map part_coords (obj_parts object))) \<noteq> 5
               then (objects, s)
               else if \<not> kml_icon_exists env icon_field then (objects, s)
               else ([], s\<lparr>templates := templates s @
                           [(icon_field, concat (map part_coords (obj_parts object)))]\<rparr>))
      | _ \<Rightarrow> (objects, s))"

text \<open>
  The last loop of \<^verbatim>\<open>importFeature\<close>: the tags an object already has are inserted into
  the tags of the feature, the result becomes the tags of the object, and the object is
  added to the map part. The tags are one variable for all objects of the feature.
\<close>

fun add_objects :: "nat \<Rightarrow> tags \<Rightarrow> map_object list \<Rightarrow> importer \<Rightarrow> importer" where
  "add_objects map_part tgs [] s = s"
| "add_objects map_part tgs (object # objects) s =
     (let tgs1 = (if length (obj_tags object) > 0
                  then foldl (\<lambda>acc tag. tags_insert tag acc) tgs (obj_tags object)
                  else tgs)
      in add_objects map_part tgs1 objects
           (s\<lparr>map_objects := map_objects s @ [(map_part, object\<lparr>obj_tags := tgs1\<rparr>)]\<rparr>))"

text \<open>
  \<^verbatim>\<open>importFeature\<close>. \<open>clipping\<close> is what the clipping of the layer does to a list of
  objects, if the layer is clipped.
\<close>

definition importFeature :: "ogr_env \<Rightarrow> nat \<Rightarrow> string list option \<Rightarrow> feature \<Rightarrow> geometry \<Rightarrow> (map_object list \<Rightarrow> map_object list) option \<Rightarrow> importer \<Rightarrow> import_error + importer" where
  "importFeature env map_part feature_definition feature geometry clipping s =
     (case setSRS env (f_srs feature) s of
        (False, s1) \<Rightarrow> Inr s1
      | (True, s1) \<Rightarrow>
          (case (case f_srs feature of
                   Some n \<Rightarrow>
                     (case data_transform s1 of
                        Some transformation \<Rightarrow> transformation geometry
                      | None \<Rightarrow> None)
                 | None \<Rightarrow> Some geometry) of
             None \<Rightarrow> Inr (s1\<lparr>failed_transformation := failed_transformation s1 + 1\<rparr>)
           | Some geometry1 \<Rightarrow>
               (case importGeometry env feature geometry1 s1 of
                  Inl e \<Rightarrow> Inl e
                | Inr (objects, s2) \<Rightarrow>
                    (let tgs = importFields feature_definition feature in
                     case (if driver_name s2 = ''LIBKML''
                           then handleKmlOverlayIcon env objects tgs s2
                           else (objects, s2)) of
                       (objects1, s3) \<Rightarrow>
                         (let objects2 = (case clipping of
                                            Some process \<Rightarrow> process objects1
                                          | None \<Rightarrow> objects1)
                          in Inr (add_objects map_part tgs objects2 s3))))))"

section \<open>The spatial reference of the map\<close>

text \<open>
  \<^verbatim>\<open>AverageCoords\<close>: the sums of the coordinates, added up as doubles, and the number of
  coordinates, a 32-bit unsigned counter. Points and line strings contribute their
  points, polygons and collections their sub-geometries, other types nothing.
\<close>

type_synonym average_coords = "rat \<times> rat \<times> nat"

fun handleGeometry :: "ogr_env \<Rightarrow> geometry \<Rightarrow> average_coords \<Rightarrow> average_coords"
  and handle_geometries :: "ogr_env \<Rightarrow> geometry list \<Rightarrow> average_coords \<Rightarrow> average_coords" where
  "handleGeometry env (Geometry t flat points parts) acc =
     (if t = wkbPoint \<or> t = wkbLineString then
        foldl (\<lambda>(x, y, num_coords) p.
                 (double_add env x (fst p), double_add env y (snd p), (num_coords + 1) mod 2 ^ 32))
          acc points
      else if t = wkbPolygon \<or> t = wkbMultiPoint \<or> t = wkbMultiLineString \<or> t = wkbMultiPolygon
              \<or> t = wkbGeometryCollection
      then handle_geometries env parts acc
      else acc)"
| "handle_geometries env [] acc = acc"
| "handle_geometries env (g # gs) acc = handle_geometries env gs (handleGeometry env g acc)"

text \<open>
  The constructor of \<^verbatim>\<open>AverageCoords\<close>: layers without reference or without
  transformation to the given reference are skipped, and so are features whose geometry
  is null or empty or cannot be transformed.
\<close>

definition average_feature :: "ogr_env \<Rightarrow> (geometry \<Rightarrow> geometry option) \<Rightarrow> average_coords \<Rightarrow> feature \<Rightarrow> average_coords" where
  "average_feature env transformation acc feature =
     (case f_geometry feature of
        None \<Rightarrow> acc
      | Some geometry \<Rightarrow>
          if is_empty env geometry then acc
          else (case transformation geometry of
                  None \<Rightarrow> acc
                | Some transformed \<Rightarrow> handleGeometry env transformed acc))"

definition average_layer :: "ogr_env \<Rightarrow> srs \<Rightarrow> average_coords \<Rightarrow> layer option \<Rightarrow> average_coords" where
  "average_layer env target acc lyr =
     (case lyr of
        None \<Rightarrow> acc
      | Some layer \<Rightarrow>
          (case l_srs layer of
             None \<Rightarrow> acc
           | Some spatial_reference \<Rightarrow>
               (case new_transformation env (LayerSrs spatial_reference) target of
                  None \<Rightarrow> acc
                | Some transformation \<Rightarrow>
                    foldl (average_feature env transformation) acc (l_features layer))))"

definition AverageCoords :: "ogr_env \<Rightarrow> data_source \<Rightarrow> srs \<Rightarrow> average_coords" where
  "AverageCoords env data_source target = foldl (average_layer env target) (0, 0, 0) data_source"

definition calcAverageCoords :: "ogr_env \<Rightarrow> data_source \<Rightarrow> srs \<Rightarrow> coord" where
  "calcAverageCoords env data_source target =
     (case AverageCoords env data_source target of
        (x, y, num_coords) \<Rightarrow>
          if num_coords \<noteq> 0
          then (double_div env x (of_nat num_coords), double_div env y (of_nat num_coords))
          else (0, 0))"

text \<open>\<^verbatim>\<open>calcAverageLatLon\<close>: latitude and longitude, from the geographic reference.\<close>

definition calcAverageLatLon :: "ogr_env \<Rightarrow> data_source \<Rightarrow> rat \<times> rat" where
  "calcAverageLatLon env data_source =
     (let average = calcAverageCoords env data_source GeographicSrs in (snd average, fst average))"

text \<open>\<^verbatim>\<open>std::round\<close>: to the nearest integer, half-way cases away from zero.\<close>

definition std_round :: "rat \<Rightarrow> rat" where
  "std_round x = (if 0 \<le> x then of_int \<lfloor>x + 1 / 2\<rfloor> else of_int \<lceil>x - 1 / 2\<rceil>)"

text \<open>
  Modelled from the spec: the setters of \<^verbatim>\<open>Georeferencing\<close>. Setting a projected CRS makes
  the georeferencing geospatial.
\<close>

definition setProjectedCRS :: "string \<Rightarrow> string \<Rightarrow> georeferencing \<Rightarrow> georeferencing" where
  "setProjectedCRS crs_id spec g =
     g\<lparr>projected_crs_id := crs_id, projected_crs_spec := spec, geo_state := Geospatial\<rparr>"

text \<open>
  \<^verbatim>\<open>srsFromMap\<close>: the projected reference of a geospatial map, if the driver can import
  its specification (a warning otherwise), else a local coordinate system.
\<close>

definition srsFromMap :: "ogr_env \<Rightarrow> importer \<Rightarrow> srs \<times> importer" where
  "srsFromMap env s =
     (if geo_state (georef s) = Geospatial then
        (let spec = projected_crs_spec (georef s) in
         if import_from_proj4 env spec then (ProjectedSrs spec, s)
         else (LocalSrs, s\<lparr>warnings := warnings s @ [UnableToSetupSrs spec]\<rparr>))
      else (LocalSrs, s))"

text \<open>
  The loop of \<^verbatim>\<open>importGeoreferencing\<close> over the layers. It records whether no layer has
  a reference, the first local reference, the first reference which can be transformed
  to the orthographic probe, and the specification of the first such reference which is
  projected and can be exported, where the loop ends.
\<close>

record srs_scan =
  no_srs :: bool
  local_srs :: "nat option"
  suitable_srs :: "nat option"
  projected_srs_spec :: "string option"
  scan_warnings :: "warning list"

fun scan_layers :: "ogr_env \<Rightarrow> data_source \<Rightarrow> srs_scan \<Rightarrow> srs_scan" where
  "scan_layers env [] st = st"
| "scan_layers env (None # layers) st = scan_layers env layers st"
| "scan_layers env (Some layer # layers) st =
     (case l_srs layer of
        None \<Rightarrow> scan_layers env layers st
      | Some spatial_reference \<Rightarrow>
          (let st1 = st\<lparr>no_srs := False\<rparr> in
           if srs_is_local env spatial_reference then
             scan_layers env layers
               (if local_srs st1 = None then st1\<lparr>local_srs := Some spatial_reference\<rparr> else st1)
           else
             (case new_transformation env (LayerSrs spatial_reference) OrthographicSrs of
                None \<Rightarrow>
                  scan_layers env layers
                    (st1\<lparr>scan_warnings := scan_warnings st1 @
                           [CannotUseSpatialReference spatial_reference]\<rparr>)
              | Some transformation \<Rightarrow>
                  (case (if srs_is_projected env spatial_reference
                         then srs_export_to_proj4 env spatial_reference else None) of
                     Some srs_spec \<Rightarrow>
                       st1\<lparr>projected_srs_spec := Some srs_spec,
                           suitable_srs := Some spatial_reference\<rparr>
                   | None \<Rightarrow>
                       scan_layers env layers
                         (if suitable_srs st1 = None
                          then st1\<lparr>suitable_srs := Some spatial_reference\<rparr> else st1)))))"

text \<open>
  \<^verbatim>\<open>importGeoreferencing\<close>: the reference of the map and the new georeferencing, or the
  exception when the data has references but none is usable.
\<close>

definition importGeoreferencing :: "ogr_env \<Rightarrow> data_source \<Rightarrow> importer \<Rightarrow> import_error + (srs \<times> importer)" where
  "importGeoreferencing env data_source s0 =
     (let st = scan_layers env data_source
                 \<lparr>no_srs = True, local_srs = None, suitable_srs = None,
                  projected_srs_spec = None, scan_warnings = []\<rparr>;
          s = s0\<lparr>warnings := warnings s0 @ scan_warnings st\<rparr>
      in case (projected_srs_spec st, suitable_srs st) of
           (Some spec, Some suitable) \<Rightarrow>
             (let center = calcAverageCoords env data_source (LayerSrs suitable);
                  g = (setProjectedCRS ''PROJ.4'' spec (georef s))
                        \<lparr>projected_ref_point := (std_round (fst center), std_round (snd center))\<rparr>
              in Inr (LayerSrs suitable, s\<lparr>georef := g\<rparr>))
         | (Some spec, None) \<Rightarrow> Inl Unreachable
         | (None, Some suitable) \<Rightarrow>
             (let center = calcAverageLatLon env data_source;
                  latitude = double_mul env (1 / 1000)
                               (of_int (qRound (double_mul env 1000 (fst center))));
                  longitude = double_mul env (1 / 1000)
                                (of_int (qRound (double_mul env 1000 (snd center))));
                  ortho_georef =
                    (setProjectedCRS []
                       (''+proj=ortho +datum=WGS84 +ellps=WGS84 +units=m +lat_0=''
                          @ number_f6 env latitude @ '' +lon_0='' @ number_f6 env longitude
                          @ '' +no_defs'')
                       ((new_georeferencing env)
                          \<lparr>scale_denominator := scale_denominator (georef s)\<rparr>))
                      \<lparr>projected_ref_point := (0, 0), combined_scale_factor := 1,
                       declination := declination (georef s)\<rparr>
              in Inr (srsFromMap env (s\<lparr>georef := ortho_georef\<rparr>)))
         | (None, None) \<Rightarrow>
             if local_srs st \<noteq> None \<or> no_srs st then
               (let g = (new_georeferencing env)
                          \<lparr>scale_denominator := scale_denominator (georef s),
                           declination := declination (georef s)\<rparr>;
                    s1 = s\<lparr>georef := g\<rparr>
                in case local_srs st of
                     Some l \<Rightarrow> Inr (LayerSrs l, s1)
                   | None \<Rightarrow> Inr (srsFromMap env s1))
             else Inl FileFormatException)"

section \<open>Exporting text objects\<close>

text \<open>
  The functions of Qt and of the driver used by the export of a text object: the two
  encodings of a string, the projected coordinates of a map coordinate, the
  transformation to WGS84, and whether the driver refuses to create a feature.
\<close>

record export_feature =
  ef_fields :: "(string \<times> string) list"
  ef_point :: "coord option"
  ef_style :: string

record export_env =
  toUtf8 :: "string \<Rightarrow> string"
  toLatin1 :: "string \<Rightarrow> string"
  toProjectedCoords :: "coord \<Rightarrow> coord"
  wgs84_transformation :: "coord \<Rightarrow> coord"
  create_feature_fails :: "export_feature \<Rightarrow> bool"

text \<open>
  The exporter: the name of the field for the symbol name, the name of the dedicated name
  field (\<open>None\<close> for a null field definition), the quirk for WGS84 coordinates, and the
  style table from symbol identifiers to style strings.
\<close>

record exporter =
  symbol_field :: string
  o_name_field :: "string option"
  needs_wgs84 :: bool
  table :: "string \<rightharpoonup> string"

record export_layer =
  el_field_names :: "string list"
  el_features :: "export_feature list"

text \<open>A text object of the map, with the name and the identifier of its symbol.\<close>

record text_export =
  te_symbol_name :: string
  te_symbol_id :: string
  te_text :: string
  te_anchor :: coord

text \<open>\<^verbatim>\<open>makeStyleString\<close> of a text symbol, from its color string, font family and size.\<close>

definition makeStyleString_text :: "string \<Rightarrow> string \<Rightarrow> string \<Rightarrow> string" where
  "makeStyleString_text rgb family font_size_str =
     ''LABEL(c:'' @ rgb @ '',f:'' @ [CHR 0x22] @ family @ [CHR 0x22] @ '',s:'' @ font_size_str
       @ ''mm'' @ '',t:'' @ [CHR 0x22] @ ''{Name}'' @ [CHR 0x22] @ '')''"

text \<open>
  A field of a feature is set by the index of its name in the layer; a name which the
  layer does not have sets nothing.
\<close>

definition OGR_F_SetFieldString :: "export_layer \<Rightarrow> string \<Rightarrow> string \<Rightarrow> export_feature \<Rightarrow> export_feature" where
  "OGR_F_SetFieldString layer name val feature =
     (if name \<in> set (el_field_names layer)
      then feature\<lparr>ef_fields := tags_insert_or_assign name val (ef_fields feature)\<rparr>
      else feature)"

text \<open>
  The replacement of the regular expression \<^verbatim>\<open>(["\\])\<close> by a backslash and the
  captured character.
\<close>

definition escape_text :: "string \<Rightarrow> string" where
  "escape_text txt =
     concat (map (\<lambda>c. if c = CHR 0x22 \<or> c = CHR 0x5C then [CHR 0x5C, c] else [c]) txt)"

text \<open>
  The feature which \<^verbatim>\<open>addTextToLayer\<close> creates for one text object, and the loop over the
  matching objects. A feature which the driver refuses ends the export with an exception.
\<close>

definition text_feature :: "export_env \<Rightarrow> exporter \<Rightarrow> export_layer \<Rightarrow> text_export \<Rightarrow> export_feature" where
  "text_feature xenv x layer object =
     (let po_feature0 = \<lparr>ef_fields = [], ef_point = None, ef_style = []\<rparr>;
          sym_name = take 32 (te_symbol_name object);
          po_feature1 = OGR_F_SetFieldString layer (symbol_field x) (toLatin1 xenv sym_name) po_feature0;
          txt = te_text object;
          po_feature2 = (case o_name_field x of
                           Some name \<Rightarrow>
                             OGR_F_SetFieldString layer name (toUtf8 xenv (take 32 txt)) po_feature1
                         | None \<Rightarrow> po_feature1);
          proj_cord = toProjectedCoords xenv (te_anchor object);
          pt = (if needs_wgs84 x then wgs84_transformation xenv proj_cord else proj_cord);
          po_feature3 = po_feature2\<lparr>ef_point := Some pt\<rparr>;
          style0 = c_str (table x (te_symbol_id object));
          style = (if o_name_field x = None \<or> length txt > 32
                   then replace ''{Name}'' (toUtf8 xenv (escape_text txt)) style0
                   else style0)
      in po_feature3\<lparr>ef_style := style\<rparr>)"

fun addTextToLayer :: "export_env \<Rightarrow> exporter \<Rightarrow> text_export list \<Rightarrow> export_layer \<Rightarrow> import_error + export_layer" where
  "addTextToLayer xenv x [] layer = Inr layer"
| "addTextToLayer xenv x (object # objects) layer =
     (let po_feature = text_feature xenv x layer object in
      if create_feature_fails xenv po_feature then Inl FileFormatException
      else addTextToLayer xenv x objects (layer\<lparr>el_features := el_features layer @ [po_feature]\<rparr>))"

section \<open>Invariants and frames\<close>

text \<open>
  The part of the importer which the decoding of styles leaves alone: the default
  pointers, the coordinate conversion and transformation, the georeferencing, the objects,
  templates and warnings of the map, and the counters.
\<close>

definition same_outside_styles :: "importer \<Rightarrow> importer \<Rightarrow> bool" where
  "same_outside_styles s s1 =
     (default_pen_color s1 = default_pen_color s \<and> default_point_symbol s1 = default_point_symbol s
      \<and> default_line_symbol s1 = default_line_symbol s \<and> default_area_symbol s1 = default_area_symbol s
      \<and> default_text_symbol s1 = default_text_symbol s \<and> to_map_coord s1 = to_map_coord s
      \<and> unit_type s1 = unit_type s \<and> driver_name s1 = driver_name s \<and> map_srs s1 = map_srs s
      \<and> data_srs s1 = data_srs s \<and> data_transform s1 = data_transform s \<and> georef s1 = georef s
      \<and> map_objects s1 = map_objects s \<and> templates s1 = templates s \<and> warnings s1 = warnings s
      \<and> empty_geometries s1 = empty_geometries s \<and> no_transformation s1 = no_transformation s
      \<and> failed_transformation s1 = failed_transformation s
      \<and> unsupported_geometry_type s1 = unsupported_geometry_type s
      \<and> too_few_coordinates s1 = too_few_coordinates s)"

text \<open>
  The pointers of a well-formed importer point to symbols of the right type: the four
  defaults and everything in the four symbol caches.
\<close>

definition points_to :: "importer \<Rightarrow> symbol_type \<Rightarrow> symbol_ref \<Rightarrow> bool" where
  "points_to s t p = (p < length (symbols s) \<and> sym_type (symbols s ! p) = t)"

definition valid_importer :: "importer \<Rightarrow> bool" where
  "valid_importer s =
     (points_to s SymbolPoint (default_point_symbol s)
      \<and> points_to s SymbolLine (default_line_symbol s)
      \<and> points_to s SymbolArea (default_area_symbol s)
      \<and> points_to s SymbolText (default_text_symbol s)
      \<and> (\<forall>p \<in> ran (point_symbols s). points_to s SymbolPoint p)
      \<and> (\<forall>p \<in> ran (line_symbols s). points_to s SymbolLine p)
      \<and> (\<forall>p \<in> ran (area_symbols s). points_to s SymbolArea p)
      \<and> (\<forall>p \<in> ran (text_symbols s). points_to s SymbolText p))"

text \<open>
  A symbol found for a point geometry is a point symbol, or a text symbol whose
  description has just been written by a label tool.
\<close>

definition point_or_label :: "ogr_env \<Rightarrow> importer \<Rightarrow> symbol_ref \<Rightarrow> bool" where
  "point_or_label env s p =
     (points_to s SymbolPoint p
      \<or> (points_to s SymbolText p
          \<and> (\<exists>tool label. sym_description (symbols s ! p) = label_description env tool label)))"

text \<open>
  A sequence of symbol lookups, as the features of an import request them one after the
  other; a lookup which stops with an error leaves the state as it is.
\<close>

fun lookups :: "ogr_env \<Rightarrow> (symbol_type \<times> string) list \<Rightarrow> importer \<Rightarrow> importer" where
  "lookups env [] s = s"
| "lookups env ((t, k) # requests) s =
     (case getSymbol env t k s of
        Inl e \<Rightarrow> lookups env requests s
      | Inr (symbol, s1) \<Rightarrow> lookups env requests s1)"

text \<open>The first pen tool of a style string, as the loop of \<^verbatim>\<open>getLineSymbol\<close> finds it.\<close>

fun first_pen :: "style_tool option list \<Rightarrow> style_tool option" where
  "first_pen [] = None"
| "first_pen (None # parts) = first_pen parts"
| "first_pen (Some part # parts) =
     (if st_type part = OGRSTCPen then Some (OGR_ST_SetUnit part OGRSTUMM) else first_pen parts)"

text \<open>
  The color strings which share a key of the color cache: the key itself, and for the
  empty key also the null string. The driver cannot decode a key when it can decode none
  of them; a key is transparent when all of them decode with an alpha which is not
  positive.
\<close>

definition color_strings :: "string \<Rightarrow> string option list" where
  "color_strings key = (if key = [] then [None, Some []] else [Some key])"

definition undecodable :: "ogr_env \<Rightarrow> string \<Rightarrow> bool" where
  "undecodable env key = list_all (\<lambda>c. rgb_from_string env c = None) (color_strings key)"

definition transparent :: "ogr_env \<Rightarrow> string \<Rightarrow> bool" where
  "transparent env key =
     list_all (\<lambda>c. case rgb_from_string env c of None \<Rightarrow> False | Some (r, g, b, a) \<Rightarrow> a \<le> 0)
       (color_strings key)"

text \<open>
  The color cache of an importer agrees with the driver: a color which is cached for a
  key is the default pen color for a color string which the driver cannot decode, or a
  color for a color string which decodes with a positive alpha.
\<close>

definition opaque :: "ogr_env \<Rightarrow> string option \<Rightarrow> bool" where
  "opaque env c = (case rgb_from_string env c of None \<Rightarrow> False | Some (r, g, b, a) \<Rightarrow> 0 < a)"

definition cached_colors_decoded :: "ogr_env \<Rightarrow> importer \<Rightarrow> bool" where
  "cached_colors_decoded env s =
     (\<forall>key color. colors s key = Some (Some color) \<longrightarrow>
        list_ex (\<lambda>c. rgb_from_string env c = None \<and> color = default_pen_color s \<or> opaque env c)
          (color_strings key))"

text \<open>
  The references of the layers of a data source, in the order of the layers. A reference is
  transformable when it is not local and the driver has a transformation from it to the
  orthographic probe; it is a usable projected reference when, moreover, it is projected
  and the driver can export it as a PROJ.4 specification.
\<close>

definition layer_references :: "data_source \<Rightarrow> nat list" where
  "layer_references data_source =
     List.map_filter (\<lambda>lyr. case lyr of None \<Rightarrow> None | Some layer \<Rightarrow> l_srs layer) data_source"

definition transformable :: "ogr_env \<Rightarrow> nat \<Rightarrow> bool" where
  "transformable env n =
     (\<not> srs_is_local env n \<and> new_transformation env (LayerSrs n) OrthographicSrs \<noteq> None)"

definition usable_projected :: "ogr_env \<Rightarrow> nat \<Rightarrow> bool" where
  "usable_projected env n =
     (transformable env n \<and> srs_is_projected env n \<and> srs_export_to_proj4 env n \<noteq> None)"

text \<open>
  The vertices which count for the centroid: the points of points and line strings, also
  inside polygons and collections, of the features of every layer whose reference has a
  transformation to the target, where the geometry is not empty and can be transformed.
\<close>

fun vertices :: "geometry \<Rightarrow> coord list"
  and vertices_of_all :: "geometry list \<Rightarrow> coord list" where
  "vertices (Geometry t flat points parts) =
     (if t = wkbPoint \<or> t = wkbLineString then points
      else if t = wkbPolygon \<or> t = wkbMultiPoint \<or> t = wkbMultiLineString \<or> t = wkbMultiPolygon
              \<or> t = wkbGeometryCollection
      then vertices_of_all parts
      else [])"
| "vertices_of_all [] = []"
| "vertices_of_all (g # gs) = vertices g @ vertices_of_all gs"

definition feature_vertices :: "ogr_env \<Rightarrow> (geometry \<Rightarrow> geometry option) \<Rightarrow> feature \<Rightarrow> coord list" where
  "feature_vertices env transformation feature =
     (case f_geometry feature of
        None \<Rightarrow> []
      | Some geometry \<Rightarrow>
          if is_empty env geometry then []
          else (case transformation geometry of
                  None \<Rightarrow> []
                | Some transformed \<Rightarrow> vertices transformed))"

definition layer_vertices :: "ogr_env \<Rightarrow> srs \<Rightarrow> layer option \<Rightarrow> coord list" where
  "layer_vertices env target lyr =
     (case lyr of
        None \<Rightarrow> []
      | Some layer \<Rightarrow>
          (case l_srs layer of
             None \<Rightarrow> []
           | Some spatial_reference \<Rightarrow>
               (case new_transformation env (LayerSrs spatial_reference) target of
                  None \<Rightarrow> []
                | Some transformation \<Rightarrow>
                    concat (map (feature_vertices env transformation) (l_features layer)))))"

definition transformable_vertices :: "ogr_env \<Rightarrow> data_source \<Rightarrow> srs \<Rightarrow> coord list" where
  "transformable_vertices env data_source target = concat (map (layer_vertices env target) data_source)"

text \<open>One step of the sums of \<^verbatim>\<open>AverageCoords\<close>.\<close>

definition add_vertex :: "ogr_env \<Rightarrow> average_coords \<Rightarrow> coord \<Rightarrow> average_coords" where
  "add_vertex env acc p =
     (case acc of (x, y, num_coords) \<Rightarrow>
        (double_add env x (fst p), double_add env y (snd p), (num_coords + 1) mod 2 ^ 32))"

section \<open>A small driver for concrete runs\<close>

text \<open>
  Concrete answers of the driver for a handful of style strings, used where a run of the
  import is evaluated: pen, brush, symbol and label tools with the parameters written in
  their style string, color strings of six or eight hexadecimal digits, and a fresh map
  without colors and symbols.
\<close>

definition demo_tool :: "tool_class \<Rightarrow> string \<Rightarrow> (tool_param \<times> string) list \<Rightarrow> (tool_param \<times> rat) list \<Rightarrow> (tool_param \<times> int) list \<Rightarrow> style_tool" where
  "demo_tool c str strs dbls nums =
     \<lparr>st_type = c, st_unit = OGRSTUGround, st_style_string = str, st_param_str = map_of strs,
      st_param_dbl = map_of dbls, st_param_num = map_of nums\<rparr>"

definition demo_style_parts :: "string \<Rightarrow> style_tool option list option" where
  "demo_style_parts = map_of
     [(''PEN(c:#FF0000)'',
         [Some (demo_tool OGRSTCPen ''PEN(c:#FF0000)'' [(OGRSTPenColor, ''#FF0000'')] [] [])]),
      (''PEN(c:#00FF00)'',
         [Some (demo_tool OGRSTCPen ''PEN(c:#00FF00)'' [(OGRSTPenColor, ''#00FF00'')] [] [])]),
      (''PEN(c:#FF0000);BRUSH(fc:#00FF00)'',
         [Some (demo_tool OGRSTCPen ''PEN(c:#FF0000)'' [(OGRSTPenColor, ''#FF0000'')] [] []),
          Some (demo_tool OGRSTCBrush ''BRUSH(fc:#00FF00)'' [(OGRSTBrushFColor, ''#00FF00'')] [] [])]),
      (''PEN(c:red)'',
         [Some (demo_tool OGRSTCPen ''PEN(c:red)'' [(OGRSTPenColor, ''red'')] [] [])]),
      (''PEN(c:#FF000000)'',
         [Some (demo_tool OGRSTCPen ''PEN(c:#FF000000)'' [(OGRSTPenColor, ''#FF000000'')] [] [])]),
      (''SYMBOL(c:#FF0000,a:45)'',
         [Some (demo_tool OGRSTCSymbol ''SYMBOL(c:#FF0000,a:45)''
                  [(OGRSTSymbolColor, ''#FF0000'')] [(OGRSTSymbolAngle, 45)] [])]),
      (''LABEL(c:#FF0000,t:A,p:5)'',
         [Some (demo_tool OGRSTCLabel ''LABEL(c:#FF0000,t:A,p:5)''
                  [(OGRSTLabelFColor, ''#FF0000''), (OGRSTLabelTextString, ''A'')] []
                  [(OGRSTLabelAnchor, 5)])]),
      (''LABEL(c:#FF0000,t:B,p:5)'',
         [Some (demo_tool OGRSTCLabel ''LABEL(c:#FF0000,t:B,p:5)''
                  [(OGRSTLabelFColor, ''#FF0000''), (OGRSTLabelTextString, ''B'')] []
                  [(OGRSTLabelAnchor, 5)])])]"

definition demo_rgb :: "string option \<Rightarrow> (int \<times> int \<times> int \<times> int) option" where
  "demo_rgb color_string =
     (if color_string = Some ''#FF0000'' then Some (255, 0, 0, 255)
      else if color_string = Some ''#00FF00'' then Some (0, 255, 0, 255)
      else if color_string = Some ''#FF000000'' then Some (255, 0, 0, 0)
      else None)"

definition demo_georef :: georeferencing where
  "demo_georef =
     \<lparr>geo_state = Local, projected_crs_id = [], projected_crs_spec = [],
      projected_ref_point = (0, 0), scale_denominator = 1000, declination = 0,
      combined_scale_factor = 1\<rparr>"

definition demo_env :: ogr_env where
  "demo_env =
     \<lparr>style_parts = demo_style_parts, rgb_from_string = demo_rgb, dash_pattern = (\<lambda>p. None),
      number_f2 = (\<lambda>d. if d = 45 then ''45.00'' else ''0.00''),
      number_g1 = (\<lambda>d. ''0''),
      number_dbl = (\<lambda>d. if d = 45 then ''45'' else ''0''),
      to_double = map_of [(''45.00'', 45), (''0.00'', 0), (''0'', 0)],
      georef_to_map_coord = (\<lambda>g xy. (fst xy - fst (projected_ref_point g),
                                         - (snd xy - snd (projected_ref_point g)))),
      srs_is_local = (\<lambda>n. n = 1), srs_is_projected = (\<lambda>n. n = 2 \<or> n = 4),
      srs_export_to_proj4 = map_of [(2, ''+proj=utm +zone=32 +datum=WGS84'')],
      import_from_proj4 = (\<lambda>spec. True),
      new_transformation = (\<lambda>source target.
         if source = LayerSrs 2 \<or> source = LayerSrs 4 then Some Some else None),
      is_empty = (\<lambda>g. g_points g = [] \<and> g_parts g = []),
      force_to_line_string = (\<lambda>g. g),
      new_georeferencing = demo_georef, number_f6 = (\<lambda>d. ''0.000000''),
      kml_icon_exists = (\<lambda>icon. False),
      double_add = (\<lambda>a b. a + b), double_mul = (\<lambda>a b. a * b), double_div = (\<lambda>a b. a / b)\<rparr>"

definition demo_fresh :: "symbol_type \<Rightarrow> symbol" where
  "demo_fresh t =
     \<lparr>sym_type = t, sym_name = [], sym_number = 0, sym_hidden = False, sym_description = [],
      sym_color = None, line_width = 0, cap = FlatCap, join = MiterJoin, dashed = False,
      dash_length = 0, break_length = 0, inner_radius = 0, font_size = 4\<rparr>"

definition demo_importer :: importer where
  "demo_importer = OgrFileImport [] [] demo_georef demo_fresh UnitOnGround"

definition demo_feature :: "string \<Rightarrow> feature" where
  "demo_feature style =
     \<lparr>f_geometry = None, f_srs = None, f_style = style, f_fields = [],
      f_field_index = (\<lambda>name. - 1)\<rparr>"

text \<open>The parts of the object, the object and the state which an import function returns.\<close>

definition result_object :: "import_error + (map_object option \<times> importer) \<Rightarrow> map_object option" where
  "result_object r = (case r of Inl e \<Rightarrow> None | Inr (object, s) \<Rightarrow> object)"

definition result_parts :: "import_error + (map_object option \<times> importer) \<Rightarrow> path_part list option" where
  "result_parts r = (case result_object r of None \<Rightarrow> None | Some object \<Rightarrow> Some (obj_parts object))"

definition result_symbol :: "import_error + (symbol_ref \<times> importer) \<Rightarrow> symbol_ref option" where
  "result_symbol r = (case r of Inl e \<Rightarrow> None | Inr (symbol, s) \<Rightarrow> Some symbol)"

definition result_state :: "import_error + ('a \<times> importer) \<Rightarrow> importer option" where
  "result_state r = (case r of Inl e \<Rightarrow> None | Inr (x, s) \<Rightarrow> Some s)"

definition result_hidden :: "import_error + (symbol_ref \<times> importer) \<Rightarrow> bool option" where
  "result_hidden r = (case r of Inl e \<Rightarrow> None | Inr (symbol, s) \<Rightarrow> Some (sym_hidden (symbols s ! symbol)))"

definition result_color :: "import_error + (symbol_ref \<times> importer) \<Rightarrow> color_ref option" where
  "result_color r = (case r of Inl e \<Rightarrow> None | Inr (symbol, s) \<Rightarrow> sym_color (symbols s ! symbol))"

text \<open>
  An export with a dedicated name field: identity encodings and coordinates, a style table
  with the style string of one text symbol, and a text object whose label has 40
  characters, two of them quotation marks.
\<close>

definition demo_export_env :: export_env where
  "demo_export_env =
     \<lparr>toUtf8 = (\<lambda>str. str), toLatin1 = (\<lambda>str. str), toProjectedCoords = (\<lambda>c. c),
      wgs84_transformation = (\<lambda>c. c), create_feature_fails = (\<lambda>f. False)\<rparr>"

definition demo_exporter :: exporter where
  "demo_exporter =
     \<lparr>symbol_field = ''Layer'', o_name_field = Some ''Name'', needs_wgs84 = False,
      table = map_of [(''1'', makeStyleString_text ''#FF0000'' ''Arial'' ''4'')]\<rparr>"

definition demo_layer :: export_layer where
  "demo_layer = \<lparr>el_field_names = [''Layer'', ''Name''], el_features = []\<rparr>"

definition demo_text :: text_export where
  "demo_text =
     \<lparr>te_symbol_name = ''Label'', te_symbol_id = ''1'',
      te_text = ''The oak '' @ [CHR 0x22] @ ''north'' @ [CHR 0x22] @ '' of the crossing is tall.'',
      te_anchor = (0, 0)\<rparr>"

text \<open>
  Data sources for concrete runs: layers without reference, with the local reference 1,
  with the projected reference 2 (two points and a line), with the reference 3 which has
  no transformation, and with the projected reference 4 which cannot be exported.
\<close>

definition demo_point_feature :: "rat \<Rightarrow> rat \<Rightarrow> feature" where
  "demo_point_feature x y = (demo_feature [])\<lparr>f_geometry := Some (Geometry wkbPoint True [(x, y)] [])\<rparr>"

definition demo_layer_of :: "nat option \<Rightarrow> feature list \<Rightarrow> layer option" where
  "demo_layer_of reference features =
     Some \<lparr>l_name = [], l_srs = reference, l_features = features, l_field_names = None,
           l_fast_extent = False, l_extent = None\<rparr>"

definition demo_projected_source :: data_source where
  "demo_projected_source =
     [demo_layer_of None [demo_point_feature 100 100],
      demo_layer_of (Some 1) [demo_point_feature 50 50],
      demo_layer_of (Some 2)
        [demo_point_feature 1 2,
         (demo_feature [])\<lparr>f_geometry := Some (Geometry wkbLineString True [(4, 6), (5, 5)] [])\<rparr>]]"

definition demo_local_source :: data_source where
  "demo_local_source =
     [demo_layer_of (Some 1) [demo_point_feature 50 50], demo_layer_of (Some 3) [demo_point_feature 1 2]]"

definition demo_unexported_source :: data_source where
  "demo_unexported_source =
     [demo_layer_of None [], demo_layer_of (Some 1) [], demo_layer_of (Some 4) [demo_point_feature 1 2]]"

definition demo_unreachable_source :: data_source where
  "demo_unreachable_source = [demo_layer_of None [], demo_layer_of (Some 3) [demo_point_feature 1 2]]"

definition result_reference :: "import_error + (srs \<times> importer) \<Rightarrow> srs option" where
  "result_reference r = (case r of Inl e \<Rightarrow> None | Inr (reference, s) \<Rightarrow> Some reference)"

definition result_ref_point :: "import_error + (srs \<times> importer) \<Rightarrow> coord option" where
  "result_ref_point r =
     (case r of Inl e \<Rightarrow> None | Inr (reference, s) \<Rightarrow> Some (projected_ref_point (georef s)))"

text \<open>
  A point feature whose style has a symbol tool with an angle, and whose only field is
  named like the tag which the import writes for the angle.
\<close>

text \<open>The tags of the objects of the map after the import of a feature.\<close>

definition imported_tags :: "import_error + importer \<Rightarrow> tags list option" where
  "imported_tags r =
     (case r of Inl e \<Rightarrow> None | Inr s \<Rightarrow> Some (map (\<lambda>(part, object). obj_tags object) (map_objects s)))"

definition rotation_feature :: feature where
  "rotation_feature = (demo_feature ''SYMBOL(c:#FF0000,a:45)'')\<lparr>f_fields := [Some ''north'']\<rparr>"

section \<open>Style decoding leaves the rest of the importer alone\<close>

lemma same_outside_styles_refl [simp]: "same_outside_styles s s"
  by (simp add: same_outside_styles_def)

lemma same_outside_styles_trans:
  "same_outside_styles s s1 \<Longrightarrow> same_outside_styles s1 s2 \<Longrightarrow> same_outside_styles s s2"
  by (simp add: same_outside_styles_def)

lemma makeColor_outside:
  "makeColor env c s = (r, s1) \<Longrightarrow>
   same_outside_styles s s1 \<and> symbols s1 = symbols s \<and> map_symbols s1 = map_symbols s
   \<and> point_symbols s1 = point_symbols s \<and> line_symbols s1 = line_symbols s
   \<and> area_symbols s1 = area_symbols s \<and> text_symbols s1 = text_symbols s"
  by (auto simp: makeColor_def Let_def same_outside_styles_def addColor_def
           split: option.splits if_splits prod.splits)

lemma applyPenColor_outside:
  "applyPenColor env tool ls0 s = (ls1, s1) \<Longrightarrow>
   same_outside_styles s s1 \<and> symbols s1 = symbols s \<and> map_symbols s1 = map_symbols s
   \<and> point_symbols s1 = point_symbols s \<and> line_symbols s1 = line_symbols s
   \<and> area_symbols s1 = area_symbols s \<and> text_symbols s1 = text_symbols s"
  unfolding applyPenColor_def
  by (auto split: option.splits prod.splits dest!: makeColor_outside)

lemma applyPenWidth_ok:
  "st_unit tool = OGRSTUMM \<Longrightarrow> \<exists>ls1. applyPenWidth tool ls0 = Inr ls1"
  by (auto simp: applyPenWidth_def split: option.splits)

lemma getSymbolForPen_ok:
  assumes "st_unit tool = OGRSTUMM" "st_type tool = OGRSTCPen"
  shows "\<exists>p s1. getSymbolForPen env tool k s = Inr (p, s1) \<and> same_outside_styles s s1"
proof (cases "cached_of_type (line_symbols s) (st_style_string tool) SymbolLine s")
  case (Some p)
  then show ?thesis using assms by (simp add: getSymbolForPen_def)
next
  case None
  obtain ls1 s1 where a: "applyPenColor env tool (symbols s ! default_line_symbol s) s = (ls1, s1)"
    by force
  obtain ls2 where b: "applyPenWidth tool ls1 = Inr ls2"
    using applyPenWidth_ok [OF assms(1)] by blast
  from a have "same_outside_styles s s1" by (simp add: applyPenColor_outside)
  then show ?thesis using assms None a b
    by (simp add: getSymbolForPen_def Let_def addSymbol_def same_outside_styles_def)
qed

lemma line_symbol_of_parts_ok:
  "\<exists>r s1. line_symbol_of_parts env k parts s = Inr (r, s1) \<and> same_outside_styles s s1"
proof (induction parts)
  case Nil
  then show ?case by simp
next
  case (Cons a parts)
  show ?case
  proof (cases a)
    case None
    then show ?thesis using Cons by simp
  next
    case (Some part)
    show ?thesis
    proof (cases "st_type part = OGRSTCPen")
      case True
      have "\<exists>p s1. getSymbolForPen env (OGR_ST_SetUnit part OGRSTUMM) k s = Inr (p, s1) \<and> same_outside_styles s s1"
        by (rule getSymbolForPen_ok) (simp_all add: OGR_ST_SetUnit_def True)
      then show ?thesis using Some True by (auto simp: Let_def OGR_ST_SetUnit_def)
    next
      case False
      then show ?thesis using Some Cons by (simp add: Let_def OGR_ST_SetUnit_def)
    qed
  qed
qed

lemma getSymbol_line_ok:
  "\<exists>p s1. getSymbol env SymbolLine k s = Inr (p, s1) \<and> same_outside_styles s s1"
proof (cases "line_symbols s k")
  case (Some p)
  then show ?thesis by (simp add: getSymbol_def)
next
  case None
  obtain r s1 where a: "line_symbol_of_parts env k (parts_of_style env k) s = Inr (r, s1)"
    and b: "same_outside_styles s s1"
    using line_symbol_of_parts_ok by blast
  then show ?thesis using None
    by (cases r) (simp_all add: getSymbol_def getLineSymbol_def or_default_def)
qed

lemma applyBrushColor_outside:
  "applyBrushColor env tool as0 s = (as1, s1) \<Longrightarrow>
   same_outside_styles s s1 \<and> symbols s1 = symbols s \<and> map_symbols s1 = map_symbols s
   \<and> point_symbols s1 = point_symbols s \<and> line_symbols s1 = line_symbols s
   \<and> area_symbols s1 = area_symbols s \<and> text_symbols s1 = text_symbols s"
  unfolding applyBrushColor_def
  by (auto split: option.splits prod.splits dest!: makeColor_outside)

lemma getSymbolForBrush_ok:
  assumes "st_type tool = OGRSTCBrush"
  shows "\<exists>p s1. getSymbolForBrush env tool k s = Inr (p, s1) \<and> same_outside_styles s s1"
proof (cases "cached_of_type (area_symbols s) (st_style_string tool) SymbolArea s")
  case (Some p)
  then show ?thesis using assms by (simp add: getSymbolForBrush_def)
next
  case None
  obtain as1 s1 where a: "applyBrushColor env tool (symbols s ! default_area_symbol s) s = (as1, s1)"
    by force
  from a have "same_outside_styles s s1" by (simp add: applyBrushColor_outside)
  then show ?thesis using assms None a
    by (simp add: getSymbolForBrush_def Let_def addSymbol_def same_outside_styles_def)
qed

lemma area_symbol_of_parts_ok:
  "\<exists>r s1. area_symbol_of_parts env k parts s = Inr (r, s1) \<and> same_outside_styles s s1"
proof (induction parts)
  case Nil
  then show ?case by simp
next
  case (Cons a parts)
  show ?case
  proof (cases a)
    case None
    then show ?thesis using Cons by simp
  next
    case (Some part)
    show ?thesis
    proof (cases "st_type part = OGRSTCBrush")
      case True
      have "\<exists>p s1. getSymbolForBrush env (OGR_ST_SetUnit part OGRSTUMM) k s = Inr (p, s1) \<and> same_outside_styles s s1"
        by (rule getSymbolForBrush_ok) (simp_all add: OGR_ST_SetUnit_def True)
      then show ?thesis using Some True by (auto simp: Let_def OGR_ST_SetUnit_def)
    next
      case False
      then show ?thesis using Some Cons by (simp add: Let_def OGR_ST_SetUnit_def)
    qed
  qed
qed

lemma getSymbol_area_ok:
  "\<exists>p s1. getSymbol env SymbolArea k s = Inr (p, s1) \<and> same_outside_styles s s1"
proof (cases "area_symbols s k")
  case (Some p)
  then show ?thesis by (simp add: getSymbol_def)
next
  case None
  obtain r s1 where a: "area_symbol_of_parts env k (parts_of_style env k) s = Inr (r, s1)"
    and b: "same_outside_styles s s1"
    using area_symbol_of_parts_ok by blast
  then show ?thesis using None
    by (cases r) (simp_all add: getSymbol_def getAreaSymbol_def or_default_def)
qed

lemma toMapCoord_outside:
  "same_outside_styles s s1 \<Longrightarrow> toMapCoord env s1 = toMapCoord env s"
  by (rule ext) (auto simp: toMapCoord_def same_outside_styles_def split: coord_conversion.splits)

lemma add_coordinates_outside:
  "same_outside_styles s s1 \<Longrightarrow> add_coordinates env s1 b cs object = add_coordinates env s b cs object"
  by (induction cs arbitrary: b object) (simp_all add: toMapCoord_outside)

lemma add_holes_outside:
  "same_outside_styles s s1 \<Longrightarrow> add_holes env s1 hs object = add_holes env s hs object"
  by (induction hs arbitrary: object) (simp_all add: add_coordinates_outside)

lemma add_coordinates_continue:
  "obj_parts object = ps @ [p] \<Longrightarrow>
   add_coordinates env s False cs object =
     object\<lparr>obj_parts := ps @ [p\<lparr>part_coords := part_coords p @ map (toMapCoord env s) cs\<rparr>]\<rparr>"
proof (induction cs arbitrary: object p)
  case Nil
  then show ?case by simp
next
  case (Cons c cs)
  have "obj_parts (addCoordinate (toMapCoord env s c) False object)
        = ps @ [p\<lparr>part_coords := part_coords p @ [toMapCoord env s c]\<rparr>]"
    using Cons.prems by (simp add: addCoordinate_def)
  from Cons.IH [OF this] show ?case
    using Cons.prems by (simp add: addCoordinate_def)
qed

lemma add_coordinates_start:
  "start \<or> obj_parts object = [] \<Longrightarrow>
   add_coordinates env s start cs object =
     (if cs = [] then object
      else object\<lparr>obj_parts := obj_parts object @
             [\<lparr>part_coords = map (toMapCoord env s) cs, part_closed = False\<rparr>]\<rparr>)"
proof (cases cs)
  case Nil
  then show ?thesis by simp
next
  case (Cons c cs')
  assume a: "start \<or> obj_parts object = []"
  have "obj_parts (addCoordinate (toMapCoord env s c) start object)
        = obj_parts object @ [\<lparr>part_coords = [toMapCoord env s c], part_closed = False\<rparr>]"
    using a by (auto simp: addCoordinate_def)
  from add_coordinates_continue [OF this, of env s cs'] show ?thesis
    using Cons a by (auto simp: addCoordinate_def)
qed

lemma add_holes_parts:
  "add_holes env s holes object =
     object\<lparr>obj_parts := obj_parts object @
       map (\<lambda>hole. \<lparr>part_coords = map (toMapCoord env s) (g_points hole), part_closed = False\<rparr>)
         (filter (\<lambda>hole. g_points hole \<noteq> []) holes)\<rparr>"
proof (induction holes arbitrary: object)
  case Nil
  then show ?case by simp
next
  case (Cons h hs)
  show ?case by (simp add: Cons.IH add_coordinates_start)
qed

section \<open>What the decoding of a tool does to the importer\<close>

text \<open>What a color request does to the colors.\<close>

lemma makeColor_cases:
  "makeColor env c s = (r, s1) \<Longrightarrow>
   (hash_value (colors s) (c_str c) \<noteq> None \<and> s1 = s \<and> r = hash_value (colors s) (c_str c))
   \<or> (hash_value (colors s) (c_str c) = None \<and> rgb_from_string env c = None
        \<and> r = Some (default_pen_color s)
        \<and> s1 = s\<lparr>colors := (colors s)(c_str c \<mapsto> Some (default_pen_color s))\<rparr>)
   \<or> (hash_value (colors s) (c_str c) = None
        \<and> (\<exists>red green blue alpha. rgb_from_string env c = Some (red, green, blue, alpha) \<and> alpha \<le> 0)
        \<and> r = None \<and> s1 = s\<lparr>colors := (colors s)(c_str c \<mapsto> None)\<rparr>)
   \<or> (hash_value (colors s) (c_str c) = None
        \<and> (\<exists>red green blue alpha. rgb_from_string env c = Some (red, green, blue, alpha) \<and> 0 < alpha
              \<and> s1 = s\<lparr>color_store := color_store s @
                          [\<lparr>col_name = c_str c, col_priority = length (map_colors s),
                            col_spot_name = [], col_spec = Rgb red green blue, col_opacity = None\<rparr>],
                        map_colors := map_colors s @ [length (color_store s)],
                        colors := (colors s)(c_str c \<mapsto> Some (length (color_store s)))\<rparr>)
        \<and> r = Some (length (color_store s)))"
  by (auto simp: makeColor_def Let_def c_str_def addColor_def insert_at_def
           split: option.splits if_splits prod.splits)

lemma getSymbolForPen_cases:
  assumes "st_type tool = OGRSTCPen" "st_unit tool = OGRSTUMM"
  shows "(\<exists>p. cached_of_type (line_symbols s) (st_style_string tool) SymbolLine s = Some p
            \<and> getSymbolForPen env tool k s = Inr (p, s))
       \<or> (cached_of_type (line_symbols s) (st_style_string tool) SymbolLine s = None
          \<and> (\<exists>ls c r sm.
                ((r, sm) = (None, s) \<or> makeColor env c s = (r, sm))
              \<and> sym_type ls = sym_type (symbols s ! default_line_symbol s)
              \<and> getSymbolForPen env tool k s =
                  Inr (length (symbols s),
                       sm\<lparr>symbols := symbols s @ [ls],
                          line_symbols := (line_symbols s)
                             (k \<mapsto> length (symbols s), st_style_string tool \<mapsto> length (symbols s)),
                          map_symbols := map_symbols s @ [length (symbols s)]\<rparr>)))"
proof (cases "cached_of_type (line_symbols s) (st_style_string tool) SymbolLine s")
  case (Some p)
  then show ?thesis using assms by (simp add: getSymbolForPen_def)
next
  case None
  obtain ls1 s1 where a: "applyPenColor env tool (symbols s ! default_line_symbol s) s = (ls1, s1)"
    by force
  obtain ls2 where b: "applyPenWidth tool ls1 = Inr ls2"
    using applyPenWidth_ok [OF assms(2)] by blast
  have t1: "sym_type ls1 = sym_type (symbols s ! default_line_symbol s)"
    using a by (auto simp: applyPenColor_def split: option.splits prod.splits)
  have t2: "sym_type ls2 = sym_type ls1"
    using b by (auto simp: applyPenWidth_def split: option.splits if_splits)
  define ls where "ls = applyPenPattern env tool (applyPenJoin tool (applyPenCap tool ls2))"
  have t3: "sym_type ls = sym_type ls2"
    by (auto simp: ls_def applyPenPattern_def applyPenJoin_def applyPenCap_def
             split: option.splits list.splits)
  have o: "symbols s1 = symbols s" "map_symbols s1 = map_symbols s" "line_symbols s1 = line_symbols s"
    using applyPenColor_outside [OF a] by simp_all
  have c: "\<exists>c r. ((r, s1) = (None, s) \<or> makeColor env c s = (r, s1))"
    using a by (auto simp: applyPenColor_def split: option.splits prod.splits)
  have "getSymbolForPen env tool k s =
          Inr (length (symbols s),
               s1\<lparr>symbols := symbols s @ [ls],
                  line_symbols := (line_symbols s)
                     (k \<mapsto> length (symbols s), st_style_string tool \<mapsto> length (symbols s)),
                  map_symbols := map_symbols s @ [length (symbols s)]\<rparr>)"
    using assms None a b o
    by (simp add: getSymbolForPen_def Let_def addSymbol_def insert_at_def ls_def)
  then show ?thesis using None c t1 t2 t3 by (metis)
qed

lemma line_symbol_of_parts_first_pen:
  "line_symbol_of_parts env k parts s =
     (case first_pen parts of
        None \<Rightarrow> Inr (None, s)
      | Some tool \<Rightarrow>
          (case getSymbolForPen env tool k s of
             Inl e \<Rightarrow> Inl e
           | Inr (p, s1) \<Rightarrow> Inr (Some p, s1)))"
proof (induction parts)
  case Nil
  then show ?case by simp
next
  case (Cons a parts)
  then show ?case
    by (cases a) (simp_all add: Let_def OGR_ST_SetUnit_def)
qed

lemma first_pen_tool:
  "first_pen parts = Some tool \<Longrightarrow> st_type tool = OGRSTCPen \<and> st_unit tool = OGRSTUMM"
proof (induction parts)
  case Nil
  then show ?case by simp
next
  case (Cons a parts)
  then show ?case
    by (cases a) (auto simp: OGR_ST_SetUnit_def split: if_splits)
qed

lemma getSymbolForBrush_cases:
  assumes "st_type tool = OGRSTCBrush"
  shows "(\<exists>p. cached_of_type (area_symbols s) (st_style_string tool) SymbolArea s = Some p
            \<and> getSymbolForBrush env tool k s = Inr (p, s))
       \<or> (cached_of_type (area_symbols s) (st_style_string tool) SymbolArea s = None
          \<and> (\<exists>as1 c r sm.
                ((r, sm) = (None, s) \<or> makeColor env c s = (r, sm))
              \<and> sym_type as1 = sym_type (symbols s ! default_area_symbol s)
              \<and> getSymbolForBrush env tool k s =
                  Inr (length (symbols s),
                       sm\<lparr>symbols := symbols s @ [as1],
                          area_symbols := (area_symbols s)
                             (k \<mapsto> length (symbols s), st_style_string tool \<mapsto> length (symbols s)),
                          map_symbols := map_symbols s @ [length (symbols s)]\<rparr>)))"
proof (cases "cached_of_type (area_symbols s) (st_style_string tool) SymbolArea s")
  case (Some p)
  then show ?thesis using assms by (simp add: getSymbolForBrush_def)
next
  case None
  obtain as1 s1 where a: "applyBrushColor env tool (symbols s ! default_area_symbol s) s = (as1, s1)"
    by force
  have t1: "sym_type as1 = sym_type (symbols s ! default_area_symbol s)"
    using a by (auto simp: applyBrushColor_def split: option.splits prod.splits)
  have o: "symbols s1 = symbols s" "map_symbols s1 = map_symbols s" "area_symbols s1 = area_symbols s"
    using applyBrushColor_outside [OF a] by simp_all
  have c: "\<exists>c r. ((r, s1) = (None, s) \<or> makeColor env c s = (r, s1))"
    using a by (auto simp: applyBrushColor_def split: option.splits prod.splits)
  have "getSymbolForBrush env tool k s =
          Inr (length (symbols s),
               s1\<lparr>symbols := symbols s @ [as1],
                  area_symbols := (area_symbols s)
                     (k \<mapsto> length (symbols s), st_style_string tool \<mapsto> length (symbols s)),
                  map_symbols := map_symbols s @ [length (symbols s)]\<rparr>)"
    using assms None a o
    by (simp add: getSymbolForBrush_def Let_def addSymbol_def insert_at_def)
  then show ?thesis using None c t1 by metis
qed

lemma getSymbolForOgrSymbol_cases:
  "(\<exists>p. cached_of_type (point_symbols s) (st_style_string tool) SymbolPoint s = Some p
        \<and> getSymbolForOgrSymbol env tool k s = (Some p, s))
   \<or> (cached_of_type (point_symbols s) (st_style_string tool) SymbolPoint s = None
       \<and> getSymbolForOgrSymbol env tool k s = (None, s))
   \<or> (cached_of_type (point_symbols s) (st_style_string tool) SymbolPoint s = None
       \<and> (\<exists>ps c r sm.
             makeColor env c s = (r, sm)
           \<and> sym_type ps = sym_type (symbols s ! default_point_symbol s)
           \<and> getSymbolForOgrSymbol env tool k s =
               (Some (length (symbols s)),
                sm\<lparr>symbols := symbols s @ [ps],
                   point_symbols := (point_symbols s)
                      (k \<mapsto> length (symbols s), st_style_string tool \<mapsto> length (symbols s)),
                   map_symbols := map_symbols s @ [length (symbols s)]\<rparr>)))"
proof (cases "cached_of_type (point_symbols s) (st_style_string tool) SymbolPoint s")
  case (Some p)
  then show ?thesis by (simp add: getSymbolForOgrSymbol_def)
next
  case None
  define color_key where "color_key =
    (case st_type tool of OGRSTCBrush \<Rightarrow> Some OGRSTBrushFColor | OGRSTCPen \<Rightarrow> Some OGRSTPenColor
       | OGRSTCSymbol \<Rightarrow> Some OGRSTSymbolColor | _ \<Rightarrow> None)"
  show ?thesis
  proof (cases "color_key")
    case n: None
    then have "getSymbolForOgrSymbol env tool k s = (None, s)"
      using None by (simp add: getSymbolForOgrSymbol_def color_key_def)
    then show ?thesis using None by simp
  next
    case ck: (Some key)
    show ?thesis
    proof (cases "st_param_str tool key")
      case n: None
      then have "getSymbolForOgrSymbol env tool k s = (None, s)"
        using None ck by (simp add: getSymbolForOgrSymbol_def color_key_def [symmetric])
      then show ?thesis using None by simp
    next
      case cs: (Some color_string)
      obtain r sm where m: "makeColor env (Some color_string) s = (r, sm)"
        by force
      have o: "symbols sm = symbols s" "map_symbols sm = map_symbols s"
        "point_symbols sm = point_symbols s"
        using makeColor_outside [OF m] by simp_all
      define ps0 where "ps0 = (case r of
          Some c \<Rightarrow> (symbols s ! default_point_symbol s)\<lparr>sym_color := Some c\<rparr>
        | None \<Rightarrow> (symbols s ! default_point_symbol s)\<lparr>sym_hidden := True\<rparr>)"
      define ps where "ps =
        (if st_type tool = OGRSTCSymbol then
           (case st_param_dbl tool OGRSTSymbolAngle of
              Some angle \<Rightarrow> ps0\<lparr>sym_description := number_f2 env angle\<rparr>
            | None \<Rightarrow> ps0)
         else ps0)"
      have t0: "sym_type ps0 = sym_type (symbols s ! default_point_symbol s)"
        by (simp add: ps0_def split: option.splits)
      have t1: "sym_type ps = sym_type (symbols s ! default_point_symbol s)"
        using t0 by (simp add: ps_def split: option.splits)
      have "getSymbolForOgrSymbol env tool k s =
               (Some (length (symbols s)),
                sm\<lparr>symbols := symbols s @ [ps],
                   point_symbols := (point_symbols s)
                      (k \<mapsto> length (symbols s), st_style_string tool \<mapsto> length (symbols s)),
                   map_symbols := map_symbols s @ [length (symbols s)]\<rparr>)"
        using None ck cs m o
        by (simp add: getSymbolForOgrSymbol_def color_key_def [symmetric] Let_def addSymbol_def
              insert_at_def ps_def ps0_def split: option.splits)
      then show ?thesis using None m t1 by metis
    qed
  qed
qed

lemma getSymbolForLabel_cases:
  assumes "st_type tool = OGRSTCLabel"
  shows "(st_param_str tool OGRSTLabelTextString = None
          \<and> getSymbolForLabel env tool k s = Inr (None, s))
       \<or> (\<exists>label p.
             st_param_str tool OGRSTLabelTextString = Some label
           \<and> text_symbols s (c_str (st_param_str tool OGRSTLabelFColor)
                               @ c_str (st_param_str tool OGRSTLabelSize)) = Some p
           \<and> getSymbolForLabel env tool k s =
               Inr (Some p,
                    s\<lparr>symbols := (symbols s)
                        [p := (symbols s ! p)\<lparr>sym_description := label_description env tool label\<rparr>]\<rparr>))
       \<or> (\<exists>label ts r sm.
             st_param_str tool OGRSTLabelTextString = Some label
           \<and> text_symbols s (c_str (st_param_str tool OGRSTLabelFColor)
                               @ c_str (st_param_str tool OGRSTLabelSize)) = None
           \<and> makeColor env (st_param_str tool OGRSTLabelFColor) s = (r, sm)
           \<and> sym_type ts = sym_type (symbols s ! default_text_symbol s)
           \<and> sym_description ts = label_description env tool label
           \<and> getSymbolForLabel env tool k s =
               Inr (Some (length (symbols s)),
                    sm\<lparr>symbols := symbols s @ [ts],
                       text_symbols := (text_symbols s)
                          (c_str (st_param_str tool OGRSTLabelFColor)
                             @ c_str (st_param_str tool OGRSTLabelSize) \<mapsto> length (symbols s)),
                       map_symbols := map_symbols s @ [length (symbols s)]\<rparr>))"
proof (cases "st_param_str tool OGRSTLabelTextString")
  case None
  then show ?thesis using assms by (simp add: getSymbolForLabel_def)
next
  case (Some label)
  define key where "key = c_str (st_param_str tool OGRSTLabelFColor)
                               @ c_str (st_param_str tool OGRSTLabelSize)"
  show ?thesis
  proof (cases "text_symbols s key")
    case hit: (Some p)
    have "getSymbolForLabel env tool k s =
               Inr (Some p,
                    s\<lparr>symbols := (symbols s)
                        [p := (symbols s ! p)\<lparr>sym_description := label_description env tool label\<rparr>]\<rparr>)"
      using assms Some hit by (simp add: getSymbolForLabel_def Let_def key_def [symmetric])
    then show ?thesis using Some hit unfolding key_def by blast
  next
    case miss: None
    obtain r sm where m: "makeColor env (st_param_str tool OGRSTLabelFColor) s = (r, sm)"
      by force
    have o: "symbols sm = symbols s" "map_symbols sm = map_symbols s"
        "text_symbols sm = text_symbols s"
      using makeColor_outside [OF m] by simp_all
    define ts1 where "ts1 = (case r of
          Some c \<Rightarrow> (symbols s ! default_text_symbol s)\<lparr>sym_color := Some c\<rparr>
        | None \<Rightarrow> (symbols s ! default_text_symbol s)\<lparr>sym_hidden := True\<rparr>)"
    define ts2 where "ts2 = (case st_param_dbl tool OGRSTLabelSize of
          Some label_size \<Rightarrow>
            if label_size > 0 then scale (label_size / font_size ts1) ts1 else ts1
        | None \<Rightarrow> ts1)"
    define ts where "ts = ts2\<lparr>sym_description := label_description env tool label\<rparr>"
    have t1: "sym_type ts1 = sym_type (symbols s ! default_text_symbol s)"
      by (simp add: ts1_def split: option.splits)
    have t2: "sym_type ts2 = sym_type ts1"
      by (simp add: ts2_def scale_def split: option.splits)
    have t: "sym_type ts = sym_type (symbols s ! default_text_symbol s)"
      "sym_description ts = label_description env tool label"
      using t1 t2 by (simp_all add: ts_def)
    have "getSymbolForLabel env tool k s =
               Inr (Some (length (symbols s)),
                    sm\<lparr>symbols := symbols s @ [ts],
                       text_symbols := (text_symbols s)(key \<mapsto> length (symbols s)),
                       map_symbols := map_symbols s @ [length (symbols s)]\<rparr>)"
      using assms Some miss m o
      by (simp add: getSymbolForLabel_def Let_def key_def [symmetric] addSymbol_def insert_at_def
            ts_def ts2_def ts1_def split: option.splits)
    then show ?thesis using Some miss m t unfolding key_def by blast
  qed
qed

lemma makeColor_malformed:
  assumes "rgb_from_string env c = None"
    and "hash_value (colors s) (c_str c) = None
         \<or> hash_value (colors s) (c_str c) = Some (default_pen_color s)"
  shows "fst (makeColor env c s) = Some (default_pen_color s)"
    and "hash_value (colors (snd (makeColor env c s))) (c_str c) = Some (default_pen_color s)"
    and "symbols (snd (makeColor env c s)) = symbols s"
    and "default_pen_color (snd (makeColor env c s)) = default_pen_color s"
  using assms
  by (auto simp: makeColor_def Let_def c_str_def hash_value_def split: option.splits)

lemma makeColor_transparent:
  assumes "rgb_from_string env c = Some (r, g, b, a)" "a \<le> 0"
    and "hash_value (colors s) (c_str c) = None"
  shows "fst (makeColor env c s) = None"
    and "hash_value (colors (snd (makeColor env c s))) (c_str c) = None"
  using assms
  by (auto simp: makeColor_def Let_def c_str_def hash_value_def split: option.splits)

lemma pen_attributes_keep:
  "applyPenWidth tool ls0 = Inr ls1 \<Longrightarrow>
   sym_hidden (applyPenPattern env tool (applyPenJoin tool (applyPenCap tool ls1))) = sym_hidden ls0
   \<and> sym_color (applyPenPattern env tool (applyPenJoin tool (applyPenCap tool ls1))) = sym_color ls0"
  by (auto simp: applyPenWidth_def applyPenPattern_def applyPenJoin_def applyPenCap_def
           split: option.splits list.splits if_splits)

lemma getSymbolForLabel_ok:
  "st_type tool = OGRSTCLabel \<Longrightarrow> \<exists>r s1. getSymbolForLabel env tool k s = Inr (r, s1)"
  using getSymbolForLabel_cases [of tool env k s] by auto

lemma point_symbol_of_parts_ok:
  "\<exists>r s1. point_symbol_of_parts env k parts s = Inr (r, s1)"
proof (induction parts arbitrary: s)
  case Nil
  then show ?case by simp
next
  case (Cons a parts)
  show ?case
  proof (cases a)
    case None
    then show ?thesis using Cons by simp
  next
    case (Some part)
    define tool where "tool = OGR_ST_SetUnit part OGRSTUMM"
    have ty: "st_type tool = st_type part" by (simp add: tool_def OGR_ST_SetUnit_def)
    consider (ogr) "st_type tool = OGRSTCBrush \<or> st_type tool = OGRSTCPen \<or> st_type tool = OGRSTCSymbol"
      | (label) "st_type tool = OGRSTCLabel"
      | (other) "st_type tool \<noteq> OGRSTCBrush" "st_type tool \<noteq> OGRSTCPen"
          "st_type tool \<noteq> OGRSTCSymbol" "st_type tool \<noteq> OGRSTCLabel"
      by blast
    then show ?thesis
    proof cases
      case ogr
      obtain r s1 where g: "getSymbolForOgrSymbol env tool k s = (r, s1)" by force
      show ?thesis
        using Some ogr g Cons [of s1]
        by (cases r) (simp_all add: tool_def [symmetric] Let_def)
    next
      case label
      obtain r s1 where g: "getSymbolForLabel env tool k s = Inr (r, s1)"
        using getSymbolForLabel_ok [OF label] by blast
      show ?thesis
        using Some label g Cons [of s1]
        by (cases r) (simp_all add: tool_def [symmetric] Let_def)
    next
      case other
      then show ?thesis
        using Some Cons [of s] by (simp add: tool_def [symmetric] Let_def)
    qed
  qed
qed

lemma getSymbol_ok:
  assumes "t \<noteq> NoSymbol" "t \<noteq> AllSymbols"
  shows "\<exists>p s1. getSymbol env t k s = Inr (p, s1)"
proof -
  consider (point) "t = SymbolPoint \<or> t = SymbolText" | (line) "t = SymbolLine \<or> t = SymbolCombined"
    | (area) "t = SymbolArea"
    using assms by (cases t) auto
  then show ?thesis
  proof cases
    case point
    obtain r s1 where "point_symbol_of_parts env k (parts_of_style env k) s = Inr (r, s1)"
      using point_symbol_of_parts_ok by blast
    then show ?thesis using point
      by (cases r; cases "point_symbols s k")
         (auto simp: getSymbol_def getSymbolForPointGeometry_def or_default_def)
  next
    case line
    have "getSymbol env t k s = getSymbol env SymbolLine k s"
      using line by (auto simp: getSymbol_def)
    then show ?thesis using getSymbol_line_ok [of env k s] by auto
  next
    case area
    then show ?thesis using getSymbol_area_ok [of env k s] by auto
  qed
qed

section \<open>Well-formed importers\<close>

lemma points_to_append:
  "points_to s t p \<Longrightarrow> symbols s1 = symbols s @ xs \<Longrightarrow> points_to s1 t p"
  by (simp add: points_to_def nth_append)

lemma points_to_new:
  "symbols s1 = symbols s @ [x] \<Longrightarrow> sym_type x = t \<Longrightarrow> points_to s1 t (length (symbols s))"
  by (simp add: points_to_def)

lemma points_to_description:
  "points_to s t p \<Longrightarrow>
   symbols s1 = (symbols s)[q := (symbols s ! q)\<lparr>sym_description := d\<rparr>] \<Longrightarrow> points_to s1 t p"
  by (cases "q = p") (auto simp: points_to_def)

lemma ran_update_cases: "p \<in> ran (m(k \<mapsto> v)) \<Longrightarrow> p = v \<or> p \<in> ran m"
  by (auto simp: ran_def split: if_splits)

lemma valid_importer_default:
  "valid_importer s \<Longrightarrow>
   points_to s SymbolPoint (default_point_symbol s) \<and> points_to s SymbolLine (default_line_symbol s)
   \<and> points_to s SymbolArea (default_area_symbol s) \<and> points_to s SymbolText (default_text_symbol s)"
  by (simp add: valid_importer_def)

lemma valid_importer_cached:
  assumes "valid_importer s"
  shows "point_symbols s k = Some p \<Longrightarrow> points_to s SymbolPoint p"
    and "line_symbols s k = Some p \<Longrightarrow> points_to s SymbolLine p"
    and "area_symbols s k = Some p \<Longrightarrow> points_to s SymbolArea p"
    and "text_symbols s k = Some p \<Longrightarrow> points_to s SymbolText p"
  using assms by (auto simp: valid_importer_def ran_def)

text \<open>Validity is kept when a symbol is appended and registered, or a description is set.\<close>

lemma valid_importer_extend:
  assumes v: "valid_importer s"
    and d: "default_point_symbol s1 = default_point_symbol s"
      "default_line_symbol s1 = default_line_symbol s"
      "default_area_symbol s1 = default_area_symbol s"
      "default_text_symbol s1 = default_text_symbol s"
    and sy: "symbols s1 = symbols s @ [x]"
    and c: "\<forall>p \<in> ran (point_symbols s1). p \<in> ran (point_symbols s) \<or> (p = length (symbols s) \<and> sym_type x = SymbolPoint)"
      "\<forall>p \<in> ran (line_symbols s1). p \<in> ran (line_symbols s) \<or> (p = length (symbols s) \<and> sym_type x = SymbolLine)"
      "\<forall>p \<in> ran (area_symbols s1). p \<in> ran (area_symbols s) \<or> (p = length (symbols s) \<and> sym_type x = SymbolArea)"
      "\<forall>p \<in> ran (text_symbols s1). p \<in> ran (text_symbols s) \<or> (p = length (symbols s) \<and> sym_type x = SymbolText)"
  shows "valid_importer s1"
proof -
  have a: "points_to s t p \<Longrightarrow> points_to s1 t p" for t p
    using sy by (rule points_to_append [rotated])
  have n: "sym_type x = t \<Longrightarrow> points_to s1 t (length (symbols s))" for t
    using sy by (rule points_to_new)
  have "\<forall>p \<in> ran (point_symbols s1). points_to s1 SymbolPoint p"
    using v c(1) a n by (auto simp: valid_importer_def)
  moreover have "\<forall>p \<in> ran (line_symbols s1). points_to s1 SymbolLine p"
    using v c(2) a n by (auto simp: valid_importer_def)
  moreover have "\<forall>p \<in> ran (area_symbols s1). points_to s1 SymbolArea p"
    using v c(3) a n by (auto simp: valid_importer_def)
  moreover have "\<forall>p \<in> ran (text_symbols s1). points_to s1 SymbolText p"
    using v c(4) a n by (auto simp: valid_importer_def)
  ultimately show ?thesis
    using v d a by (simp add: valid_importer_def)
qed

lemma valid_importer_description:
  assumes "valid_importer s"
  shows "valid_importer (s\<lparr>symbols := (symbols s)[p := (symbols s ! p)\<lparr>sym_description := d\<rparr>]\<rparr>)"
proof -
  have a: "points_to s t q \<Longrightarrow>
      points_to (s\<lparr>symbols := (symbols s)[p := (symbols s ! p)\<lparr>sym_description := d\<rparr>]\<rparr>) t q" for t q
    by (rule points_to_description) simp_all
  show ?thesis using assms a by (simp add: valid_importer_def)
qed

lemma valid_importer_colors:
  assumes "valid_importer s" "(r, sm) = (None, s) \<or> makeColor env c s = (r, sm)"
  shows "valid_importer sm"
proof -
  have "same_outside_styles s sm \<and> symbols sm = symbols s
           \<and> point_symbols sm = point_symbols s \<and> line_symbols sm = line_symbols s
           \<and> area_symbols sm = area_symbols s \<and> text_symbols sm = text_symbols s"
    using assms(2) makeColor_outside [of env c s r sm] by auto
  then show ?thesis using assms(1)
    by (simp add: valid_importer_def points_to_def same_outside_styles_def)
qed

lemma valid_importer_new_line:
  assumes "valid_importer s" "(r, sm) = (None, s) \<or> makeColor env c s = (r, sm)"
    and "sym_type ls = sym_type (symbols s ! default_line_symbol s)"
  shows "valid_importer (sm\<lparr>symbols := symbols s @ [ls],
            line_symbols := (line_symbols s)(k \<mapsto> length (symbols s), tk \<mapsto> length (symbols s)),
            map_symbols := map_symbols s @ [length (symbols s)]\<rparr>)"
proof -
  have o: "same_outside_styles s sm \<and> symbols sm = symbols s
           \<and> point_symbols sm = point_symbols s \<and> line_symbols sm = line_symbols s
           \<and> area_symbols sm = area_symbols s \<and> text_symbols sm = text_symbols s"
    using assms(2) makeColor_outside [of env c s r sm] by auto
  have t: "sym_type ls = SymbolLine"
    using assms(1,3) by (simp add: valid_importer_def points_to_def)
  show ?thesis
    using o t by (intro valid_importer_extend [OF assms(1)])
      (auto simp: same_outside_styles_def dest!: ran_update_cases)
qed

lemma valid_importer_new_area:
  assumes "valid_importer s" "(r, sm) = (None, s) \<or> makeColor env c s = (r, sm)"
    and "sym_type ls = sym_type (symbols s ! default_area_symbol s)"
  shows "valid_importer (sm\<lparr>symbols := symbols s @ [ls],
            area_symbols := (area_symbols s)(k \<mapsto> length (symbols s), tk \<mapsto> length (symbols s)),
            map_symbols := map_symbols s @ [length (symbols s)]\<rparr>)"
proof -
  have o: "same_outside_styles s sm \<and> symbols sm = symbols s
           \<and> point_symbols sm = point_symbols s \<and> line_symbols sm = line_symbols s
           \<and> area_symbols sm = area_symbols s \<and> text_symbols sm = text_symbols s"
    using assms(2) makeColor_outside [of env c s r sm] by auto
  have t: "sym_type ls = SymbolArea"
    using assms(1,3) by (simp add: valid_importer_def points_to_def)
  show ?thesis
    using o t by (intro valid_importer_extend [OF assms(1)])
      (auto simp: same_outside_styles_def dest!: ran_update_cases)
qed

lemma valid_importer_new_point:
  assumes "valid_importer s" "makeColor env c s = (r, sm)"
    and "sym_type ls = sym_type (symbols s ! default_point_symbol s)"
  shows "valid_importer (sm\<lparr>symbols := symbols s @ [ls],
            point_symbols := (point_symbols s)(k \<mapsto> length (symbols s), tk \<mapsto> length (symbols s)),
            map_symbols := map_symbols s @ [length (symbols s)]\<rparr>)"
proof -
  have o: "same_outside_styles s sm \<and> symbols sm = symbols s
           \<and> point_symbols sm = point_symbols s \<and> line_symbols sm = line_symbols s
           \<and> area_symbols sm = area_symbols s \<and> text_symbols sm = text_symbols s"
    using assms(2) makeColor_outside [of env c s r sm] by auto
  have t: "sym_type ls = SymbolPoint"
    using assms(1,3) by (simp add: valid_importer_def points_to_def)
  show ?thesis
    using o t by (intro valid_importer_extend [OF assms(1)])
      (auto simp: same_outside_styles_def dest!: ran_update_cases)
qed

lemma valid_importer_new_text:
  assumes "valid_importer s" "makeColor env c s = (r, sm)"
    and "sym_type ls = sym_type (symbols s ! default_text_symbol s)"
  shows "valid_importer (sm\<lparr>symbols := symbols s @ [ls],
            text_symbols := (text_symbols s)(k \<mapsto> length (symbols s)),
            map_symbols := map_symbols s @ [length (symbols s)]\<rparr>)"
proof -
  have o: "same_outside_styles s sm \<and> symbols sm = symbols s
           \<and> point_symbols sm = point_symbols s \<and> line_symbols sm = line_symbols s
           \<and> area_symbols sm = area_symbols s \<and> text_symbols sm = text_symbols s"
    using assms(2) makeColor_outside [of env c s r sm] by auto
  have t: "sym_type ls = SymbolText"
    using assms(1,3) by (simp add: valid_importer_def points_to_def)
  show ?thesis
    using o t by (intro valid_importer_extend [OF assms(1)])
      (auto simp: same_outside_styles_def dest!: ran_update_cases)
qed

lemma cached_of_type_Some:
  "cached_of_type cache key t s = Some p \<Longrightarrow> cache key = Some p"
  by (auto simp: cached_of_type_def split: option.splits if_splits)

lemma getSymbolForPen_valid:
  assumes "valid_importer s" "st_type tool = OGRSTCPen" "st_unit tool = OGRSTUMM"
    and "getSymbolForPen env tool k s = Inr (p, s1)"
  shows "valid_importer s1 \<and> points_to s1 SymbolLine p"
proof -
  consider (hit) q where
      "cached_of_type (line_symbols s) (st_style_string tool) SymbolLine s = Some q"
      "getSymbolForPen env tool k s = Inr (q, s)"
    | (new) ls c r sm where
      "(r, sm) = (None, s) \<or> makeColor env c s = (r, sm)"
      "sym_type ls = sym_type (symbols s ! default_line_symbol s)"
      "getSymbolForPen env tool k s =
               Inr (length (symbols s),
                    sm\<lparr>symbols := symbols s @ [ls],
                       line_symbols := (line_symbols s)
                          (k \<mapsto> length (symbols s), st_style_string tool \<mapsto> length (symbols s)),
                       map_symbols := map_symbols s @ [length (symbols s)]\<rparr>)"
    using getSymbolForPen_cases [OF assms(2,3), of s env k] by blast
  then show ?thesis
  proof cases
  case hit
  then show ?thesis
    using assms(1,4) valid_importer_cached(2) [OF assms(1)] by (auto dest: cached_of_type_Some)
next
  case (new ls c r sm)
  note a = new(1) and b = new(2)
  have c: "getSymbolForPen env tool k s =
               Inr (length (symbols s),
                    sm\<lparr>symbols := symbols s @ [ls],
                       line_symbols := (line_symbols s)
                          (k \<mapsto> length (symbols s), st_style_string tool \<mapsto> length (symbols s)),
                       map_symbols := map_symbols s @ [length (symbols s)]\<rparr>)"
    by (rule new(3))
  have t: "sym_type ls = SymbolLine"
    using assms(1) b by (simp add: valid_importer_def points_to_def)
  have "valid_importer s1"
    using valid_importer_new_line [OF assms(1) a b] c assms(4) by simp
  moreover have "points_to s1 SymbolLine p"
    using c assms(4) t by (auto simp: points_to_def)
  ultimately show ?thesis by simp
qed
qed

lemma getSymbolForBrush_valid:
  assumes "valid_importer s" "st_type tool = OGRSTCBrush"
    and "getSymbolForBrush env tool k s = Inr (p, s1)"
  shows "valid_importer s1 \<and> points_to s1 SymbolArea p"
proof -
  consider (hit) q where
      "cached_of_type (area_symbols s) (st_style_string tool) SymbolArea s = Some q"
      "getSymbolForBrush env tool k s = Inr (q, s)"
    | (new) as1 c r sm where
      "(r, sm) = (None, s) \<or> makeColor env c s = (r, sm)"
      "sym_type as1 = sym_type (symbols s ! default_area_symbol s)"
      "getSymbolForBrush env tool k s =
               Inr (length (symbols s),
                    sm\<lparr>symbols := symbols s @ [as1],
                       area_symbols := (area_symbols s)
                          (k \<mapsto> length (symbols s), st_style_string tool \<mapsto> length (symbols s)),
                       map_symbols := map_symbols s @ [length (symbols s)]\<rparr>)"
    using getSymbolForBrush_cases [OF assms(2), of s env k] by blast
  then show ?thesis
  proof cases
  case hit
  then show ?thesis
    using assms(1,3) valid_importer_cached(3) [OF assms(1)] by (auto dest: cached_of_type_Some)
next
  case (new as1 c r sm)
  note a = new(1) and b = new(2)
  have c: "getSymbolForBrush env tool k s =
               Inr (length (symbols s),
                    sm\<lparr>symbols := symbols s @ [as1],
                       area_symbols := (area_symbols s)
                          (k \<mapsto> length (symbols s), st_style_string tool \<mapsto> length (symbols s)),
                       map_symbols := map_symbols s @ [length (symbols s)]\<rparr>)"
    by (rule new(3))
  have t: "sym_type as1 = SymbolArea"
    using assms(1) b by (simp add: valid_importer_def points_to_def)
  have "valid_importer s1"
    using valid_importer_new_area [OF assms(1) a b] c assms(3) by simp
  moreover have "points_to s1 SymbolArea p"
    using c assms(3) t by (auto simp: points_to_def)
  ultimately show ?thesis by simp
qed
qed

lemma getSymbolForOgrSymbol_valid:
  assumes "valid_importer s" "getSymbolForOgrSymbol env tool k s = (r, s1)"
  shows "valid_importer s1 \<and> (case r of None \<Rightarrow> s1 = s | Some p \<Rightarrow> points_to s1 SymbolPoint p)"
  using getSymbolForOgrSymbol_cases [of s tool env k]
proof (elim disjE exE conjE)
  fix q
  assume "cached_of_type (point_symbols s) (st_style_string tool) SymbolPoint s = Some q"
    and "getSymbolForOgrSymbol env tool k s = (Some q, s)"
  then show ?thesis
    using assms valid_importer_cached(1) [OF assms(1)] by (auto dest: cached_of_type_Some)
next
  assume "getSymbolForOgrSymbol env tool k s = (None, s)"
  then show ?thesis using assms by auto
next
  fix ps c r' sm
  assume a: "makeColor env c s = (r', sm)"
    and b: "sym_type ps = sym_type (symbols s ! default_point_symbol s)"
    and c: "getSymbolForOgrSymbol env tool k s =
               (Some (length (symbols s)),
                sm\<lparr>symbols := symbols s @ [ps],
                   point_symbols := (point_symbols s)
                      (k \<mapsto> length (symbols s), st_style_string tool \<mapsto> length (symbols s)),
                   map_symbols := map_symbols s @ [length (symbols s)]\<rparr>)"
  have t: "sym_type ps = SymbolPoint"
    using assms(1) b by (simp add: valid_importer_def points_to_def)
  have "valid_importer s1"
    using valid_importer_new_point [OF assms(1) a b] c assms(2) by simp
  moreover have "points_to s1 SymbolPoint (length (symbols s))"
    using c assms(2) t by (auto simp: points_to_def)
  ultimately show ?thesis using c assms(2) by auto
qed

lemma getSymbolForLabel_valid:
  assumes "valid_importer s" "st_type tool = OGRSTCLabel"
    and "getSymbolForLabel env tool k s = Inr (r, s1)"
  shows "valid_importer s1
         \<and> (case r of
              None \<Rightarrow> s1 = s
            | Some p \<Rightarrow> points_to s1 SymbolText p
                \<and> (\<exists>label. sym_description (symbols s1 ! p) = label_description env tool label))"
  using getSymbolForLabel_cases [OF assms(2), of env k s]
proof (elim disjE exE conjE)
  assume "getSymbolForLabel env tool k s = Inr (None, s)"
  then show ?thesis using assms by auto
next
  fix label q
  assume h: "text_symbols s (c_str (st_param_str tool OGRSTLabelFColor)
                               @ c_str (st_param_str tool OGRSTLabelSize)) = Some q"
    and c: "getSymbolForLabel env tool k s =
               Inr (Some q,
                    s\<lparr>symbols := (symbols s)
                        [q := (symbols s ! q)\<lparr>sym_description := label_description env tool label\<rparr>]\<rparr>)"
  have pt: "points_to s SymbolText q"
    using valid_importer_cached(4) [OF assms(1) h] .
  have "valid_importer s1"
    using valid_importer_description [OF assms(1)] c assms(3) by auto
  moreover have "points_to s1 SymbolText q
      \<and> sym_description (symbols s1 ! q) = label_description env tool label"
    using pt c assms(3) by (auto simp: points_to_def)
  ultimately show ?thesis using c assms(3) by auto
next
  fix label ts r' sm
  assume a: "makeColor env (st_param_str tool OGRSTLabelFColor) s = (r', sm)"
    and b: "sym_type ts = sym_type (symbols s ! default_text_symbol s)"
    and d: "sym_description ts = label_description env tool label"
    and c: "getSymbolForLabel env tool k s =
               Inr (Some (length (symbols s)),
                    sm\<lparr>symbols := symbols s @ [ts],
                       text_symbols := (text_symbols s)
                          (c_str (st_param_str tool OGRSTLabelFColor)
                             @ c_str (st_param_str tool OGRSTLabelSize) \<mapsto> length (symbols s)),
                       map_symbols := map_symbols s @ [length (symbols s)]\<rparr>)"
  have t: "sym_type ts = SymbolText"
    using assms(1) b by (simp add: valid_importer_def points_to_def)
  have "valid_importer s1"
    using valid_importer_new_text [OF assms(1) a b] c assms(3) by simp
  moreover have "points_to s1 SymbolText (length (symbols s))
      \<and> sym_description (symbols s1 ! length (symbols s)) = label_description env tool label"
    using c assms(3) t d by (auto simp: points_to_def)
  ultimately show ?thesis using c assms(3) by auto
qed

lemma point_symbol_of_parts_valid:
  "valid_importer s \<Longrightarrow> point_symbol_of_parts env k parts s = Inr (r, s1) \<Longrightarrow>
   valid_importer s1 \<and> (case r of None \<Rightarrow> s1 = s | Some p \<Rightarrow> point_or_label env s1 p)"
proof (induction parts)
  case Nil
  then show ?case by simp
next
  case (Cons a parts)
  show ?case
  proof (cases a)
    case None
    then show ?thesis using Cons by simp
  next
    case (Some part)
    define tool where "tool = OGR_ST_SetUnit part OGRSTUMM"
    consider (ogr) "st_type tool = OGRSTCBrush \<or> st_type tool = OGRSTCPen \<or> st_type tool = OGRSTCSymbol"
      | (label) "st_type tool = OGRSTCLabel"
      | (other) "st_type tool \<noteq> OGRSTCBrush" "st_type tool \<noteq> OGRSTCPen"
          "st_type tool \<noteq> OGRSTCSymbol" "st_type tool \<noteq> OGRSTCLabel"
      by blast
    then show ?thesis
    proof cases
      case ogr
      obtain r' s' where g: "getSymbolForOgrSymbol env tool k s = (r', s')" by force
      note v = getSymbolForOgrSymbol_valid [OF Cons.prems(1) g]
      show ?thesis
      proof (cases r')
        case None
        then have "s' = s" using v by simp
        then have "point_symbol_of_parts env k parts s = Inr (r, s1)"
          using Cons.prems(2) Some ogr g None by (simp add: tool_def [symmetric] Let_def)
        then show ?thesis using Cons.IH Cons.prems(1) by simp
      next
        case (Some p)
        then have "r = Some p \<and> s1 = s'"
          using Cons.prems(2) \<open>a = Some part\<close> ogr g by (simp add: tool_def [symmetric] Let_def)
        then show ?thesis using v Some by (simp add: point_or_label_def)
      qed
    next
      case label
      obtain r' s' where g: "getSymbolForLabel env tool k s = Inr (r', s')"
        using getSymbolForLabel_ok [OF label] by blast
      note v = getSymbolForLabel_valid [OF Cons.prems(1) label g]
      show ?thesis
      proof (cases r')
        case None
        then have "s' = s" using v by simp
        then have "point_symbol_of_parts env k parts s = Inr (r, s1)"
          using Cons.prems(2) Some label g None by (simp add: tool_def [symmetric] Let_def)
        then show ?thesis using Cons.IH Cons.prems(1) by simp
      next
        case (Some p)
        then have "r = Some p \<and> s1 = s'"
          using Cons.prems(2) \<open>a = Some part\<close> label g by (simp add: tool_def [symmetric] Let_def)
        then show ?thesis using v Some by (auto simp: point_or_label_def)
      qed
    next
      case other
      then have "point_symbol_of_parts env k parts s = Inr (r, s1)"
        using Cons.prems(2) Some by (simp add: tool_def [symmetric] Let_def)
      then show ?thesis using Cons.IH Cons.prems(1) by simp
    qed
  qed
qed

lemma getSymbol_point_valid:
  assumes "valid_importer s" "getSymbol env SymbolPoint k s = Inr (p, s1)"
  shows "valid_importer s1 \<and> point_or_label env s1 p"
proof (cases "point_symbols s k")
  case (Some q)
  then have "p = q \<and> s1 = s" using assms(2) by (simp add: getSymbol_def)
  then show ?thesis
    using assms(1) valid_importer_cached(1) [OF assms(1) Some] by (simp add: point_or_label_def)
next
  case None
  obtain r s' where g: "point_symbol_of_parts env k (parts_of_style env k) s = Inr (r, s')"
    using point_symbol_of_parts_ok by blast
  note v = point_symbol_of_parts_valid [OF assms(1) g]
  show ?thesis
  proof (cases r)
    case n: None
    then have "s' = s" using v by simp
    then have "p = default_point_symbol s \<and> s1 = s"
      using assms(2) None g n
      by (auto simp: getSymbol_def getSymbolForPointGeometry_def or_default_def)
    then show ?thesis
      using assms(1) valid_importer_default [OF assms(1)] by (simp add: point_or_label_def)
  next
    case (Some q)
    then have "p = q \<and> s1 = s'"
      using assms(2) None g
      by (simp add: getSymbol_def getSymbolForPointGeometry_def or_default_def)
    then show ?thesis using v Some by simp
  qed
qed

section \<open>The anchor table\<close>

lemma anchor_cases:
  "1 \<le> (a::int) \<Longrightarrow> a \<le> 12 \<Longrightarrow>
   a = 1 \<or> a = 2 \<or> a = 3 \<or> a = 4 \<or> a = 5 \<or> a = 6 \<or> a = 7 \<or> a = 8 \<or> a = 9 \<or> a = 10
     \<or> a = 11 \<or> a = 12"
  by arith

text \<open>
  C8: for an anchor code from 1 to 12, \<^verbatim>\<open>applyLabelAnchor\<close> sets the vertical alignment
  from the quotient of anchor - 1 by 3 (0 baseline, 1 center, 2 top, 3 bottom) and the
  horizontal alignment from the remainder (0 left, 1 center, 2 right); anchor 5 gives
  center and center.
\<close>

theorem applyLabelAnchor_table:
  "(1 \<le> anchor \<and> anchor \<le> 12 \<longrightarrow>
     applyLabelAnchor anchor t =
       Inr (t\<lparr>obj_v_align :=
                Some ([AlignBaseline, AlignVCenter, AlignTop, AlignBottom] ! nat ((anchor - 1) div 3)),
              obj_h_align :=
                Some ([AlignLeft, AlignHCenter, AlignRight] ! nat ((anchor - 1) mod 3))\<rparr>))
   \<and> applyLabelAnchor 5 t =
       Inr (t\<lparr>obj_v_align := Some AlignVCenter, obj_h_align := Some AlignHCenter\<rparr>)"
proof (intro conjI impI)
  assume "1 \<le> anchor \<and> anchor \<le> 12"
  then have "anchor = 1 \<or> anchor = 2 \<or> anchor = 3 \<or> anchor = 4 \<or> anchor = 5 \<or> anchor = 6
      \<or> anchor = 7 \<or> anchor = 8 \<or> anchor = 9 \<or> anchor = 10 \<or> anchor = 11 \<or> anchor = 12"
    by (simp add: anchor_cases)
  then show "applyLabelAnchor anchor t =
       Inr (t\<lparr>obj_v_align :=
                Some ([AlignBaseline, AlignVCenter, AlignTop, AlignBottom] ! nat ((anchor - 1) div 3)),
              obj_h_align :=
                Some ([AlignLeft, AlignHCenter, AlignRight] ! nat ((anchor - 1) mod 3))\<rparr>)"
    by (elim disjE)
       (simp_all add: applyLabelAnchor_def Let_def signed_divide_int_def signed_modulo_int_def)
next
  show "applyLabelAnchor 5 t =
       Inr (t\<lparr>obj_v_align := Some AlignVCenter, obj_h_align := Some AlignHCenter\<rparr>)"
    by (simp add: applyLabelAnchor_def Let_def signed_divide_int_def signed_modulo_int_def)
qed

theorem applyLabelAnchor_table_witness:
  "(1::int) \<le> 12 \<and> (12::int) \<le> 12 \<and>
   applyLabelAnchor 12 (new_object ObjectText 3) =
     Inr ((new_object ObjectText 3)\<lparr>obj_v_align := Some AlignBottom, obj_h_align := Some AlignRight\<rparr>)"
  using applyLabelAnchor_table [of 12 "new_object ObjectText 3"] by simp

section \<open>Line strings and polygons\<close>

text \<open>
  C4: a line string with fewer than two points gives no object and increments the
  counter of too few coordinates; with exactly two points it gives a path object with
  one part which holds both coordinates. The points are those of the geometry after it
  has been forced to a line string, which leaves a plain line string as it is.
\<close>

theorem importLineStringGeometry_points:
  "(length (g_points (as_line_string env geometry)) < 2 \<longrightarrow>
      importLineStringGeometry env feature geometry s =
        Inr (None, s\<lparr>too_few_coordinates := too_few_coordinates s + 1\<rparr>))
   \<and> (g_points (as_line_string env geometry) = [p, q] \<longrightarrow>
        (\<exists>symbol s1.
           importLineStringGeometry env feature geometry s =
             Inr (Some ((new_object ObjectPath symbol)
                    \<lparr>obj_parts := [\<lparr>part_coords = [toMapCoord env s p, toMapCoord env s q],
                                     part_closed = False\<rparr>]\<rparr>), s1)
           \<and> too_few_coordinates s1 = too_few_coordinates s))
   \<and> (g_type geometry = wkbLineString \<and> g_flat geometry \<longrightarrow>
        as_line_string env geometry = geometry)"
proof (intro conjI impI)
  assume "length (g_points (as_line_string env geometry)) < 2"
  then show "importLineStringGeometry env feature geometry s =
        Inr (None, s\<lparr>too_few_coordinates := too_few_coordinates s + 1\<rparr>)"
    by (simp add: importLineStringGeometry_def Let_def)
next
  assume two: "g_points (as_line_string env geometry) = [p, q]"
  obtain symbol s1 where a: "getSymbol env SymbolLine (f_style feature) s = Inr (symbol, s1)"
    and b: "same_outside_styles s s1"
    using getSymbol_line_ok by blast
  have c: "toMapCoord env s1 = toMapCoord env s"
    using b by (rule toMapCoord_outside)
  have "importLineStringGeometry env feature geometry s =
          Inr (Some ((new_object ObjectPath symbol)
                 \<lparr>obj_parts := [\<lparr>part_coords = [toMapCoord env s p, toMapCoord env s q],
                                  part_closed = False\<rparr>]\<rparr>), s1)"
    using two a c
    by (simp add: importLineStringGeometry_def Let_def addCoordinate_def new_object_def)
  moreover have "too_few_coordinates s1 = too_few_coordinates s"
    using b by (simp add: same_outside_styles_def)
  ultimately show "\<exists>symbol s1.
           importLineStringGeometry env feature geometry s =
             Inr (Some ((new_object ObjectPath symbol)
                    \<lparr>obj_parts := [\<lparr>part_coords = [toMapCoord env s p, toMapCoord env s q],
                                     part_closed = False\<rparr>]\<rparr>), s1)
           \<and> too_few_coordinates s1 = too_few_coordinates s"
    by blast
next
  assume "g_type geometry = wkbLineString \<and> g_flat geometry"
  then show "as_line_string env geometry = geometry"
    by (simp add: as_line_string_def)
qed

theorem importLineStringGeometry_points_witness:
  "length (g_points (as_line_string demo_env (Geometry wkbLineString True [(1, 2)] []))) < 2
   \<and> importLineStringGeometry demo_env (demo_feature []) (Geometry wkbLineString True [(1, 2)] [])
       demo_importer =
       Inr (None, demo_importer\<lparr>too_few_coordinates := too_few_coordinates demo_importer + 1\<rparr>)
   \<and> g_points (as_line_string demo_env (Geometry wkbLineString True [(0, 0), (4, 3)] []))
       = [(0, 0), (4, 3)]
   \<and> (\<exists>symbol s1.
         importLineStringGeometry demo_env (demo_feature []) (Geometry wkbLineString True [(0, 0), (4, 3)] [])
           demo_importer =
           Inr (Some ((new_object ObjectPath symbol)
                  \<lparr>obj_parts := [\<lparr>part_coords = [toMapCoord demo_env demo_importer (0, 0),
                                                    toMapCoord demo_env demo_importer (4, 3)],
                                   part_closed = False\<rparr>]\<rparr>), s1)
         \<and> too_few_coordinates s1 = too_few_coordinates demo_importer)
   \<and> g_type (Geometry wkbLineString True [(0, 0), (4, 3)] []) = wkbLineString
   \<and> g_flat (Geometry wkbLineString True [(0, 0), (4, 3)] [])
   \<and> as_line_string demo_env (Geometry wkbLineString True [(0, 0), (4, 3)] [])
       = Geometry wkbLineString True [(0, 0), (4, 3)] []"
  using importLineStringGeometry_points
          [of demo_env "Geometry wkbLineString True [(1, 2)] []" "demo_feature []" demo_importer]
        importLineStringGeometry_points
          [of demo_env "Geometry wkbLineString True [(0, 0), (4, 3)] []" "demo_feature []"
              demo_importer "(0, 0)" "(4, 3)"]
  by (simp add: as_line_string_def)

text \<open>
  C5, as stated, fails: a hole ring without points starts no part, so a polygon with a
  three-point outline and one such hole ring gives a path of one part.
\<close>

theorem importPolygonGeometry_empty_hole:
  "result_parts
     (importPolygonGeometry demo_env (demo_feature [])
        (Geometry wkbPolygon True []
           [Geometry wkbLineString True [(0, 0), (4, 0), (0, 4)] [],
            Geometry wkbLineString True [] []])
        demo_importer)
   = Some [\<lparr>part_coords = [(0, 0), (4, 0), (0, - 4)], part_closed = True\<rparr>]"
  by (simp add: result_parts_def result_object_def importPolygonGeometry_def as_line_string_def
        demo_feature_def getSymbol_def demo_importer_def OgrFileImport_def Let_def
        getAreaSymbol_def parts_of_style_def or_default_def new_object_def addCoordinate_def
        closeAllParts_def toMapCoord_def demo_env_def demo_georef_def)

text \<open>
  C5, amended: a polygon without rings, or whose outline has fewer than three points,
  gives no object and is counted as too few coordinates; otherwise the result is one path
  object whose first part is the outline, followed by one part for every hole ring which
  has at least one point, and all parts are closed. In particular a three-point outline
  and one hole ring with at least one point give two parts, both closed.
\<close>

theorem importPolygonGeometry_parts:
  "(g_parts geometry = [] \<longrightarrow>
      importPolygonGeometry env feature geometry s =
        Inr (None, s\<lparr>too_few_coordinates := too_few_coordinates s + 1\<rparr>))
   \<and> (g_parts geometry = outline # holes
        \<and> length (g_points (as_line_string env outline)) < 3 \<longrightarrow>
        importPolygonGeometry env feature geometry s =
          Inr (None, s\<lparr>too_few_coordinates := too_few_coordinates s + 1\<rparr>))
   \<and> (g_parts geometry = outline # holes
        \<and> 3 \<le> length (g_points (as_line_string env outline)) \<longrightarrow>
        (\<exists>symbol s1.
           importPolygonGeometry env feature geometry s =
             Inr (Some ((new_object ObjectPath symbol)
                    \<lparr>obj_parts :=
                       \<lparr>part_coords = map (toMapCoord env s) (g_points (as_line_string env outline)),
                        part_closed = True\<rparr>
                       # map (\<lambda>hole. \<lparr>part_coords = map (toMapCoord env s) (g_points hole),
                                       part_closed = True\<rparr>)
                           (filter (\<lambda>hole. g_points hole \<noteq> []) holes)\<rparr>), s1)
           \<and> too_few_coordinates s1 = too_few_coordinates s))
   \<and> (g_parts geometry = [outline, hole]
        \<and> length (g_points (as_line_string env outline)) = 3 \<and> g_points hole \<noteq> [] \<longrightarrow>
        (\<exists>object s1.
           importPolygonGeometry env feature geometry s = Inr (Some object, s1)
           \<and> length (obj_parts object) = 2 \<and> list_all part_closed (obj_parts object)))"
proof -
  have general: "\<exists>symbol s1.
           importPolygonGeometry env feature geometry s =
             Inr (Some ((new_object ObjectPath symbol)
                    \<lparr>obj_parts :=
                       \<lparr>part_coords = map (toMapCoord env s) (g_points (as_line_string env ol)),
                        part_closed = True\<rparr>
                       # map (\<lambda>hole. \<lparr>part_coords = map (toMapCoord env s) (g_points hole),
                                       part_closed = True\<rparr>)
                           (filter (\<lambda>hole. g_points hole \<noteq> []) hs)\<rparr>), s1)
           \<and> too_few_coordinates s1 = too_few_coordinates s"
    if parts: "g_parts geometry = ol # hs"
      and three: "3 \<le> length (g_points (as_line_string env ol))" for ol hs
  proof -
    obtain symbol s1 where a: "getSymbol env SymbolArea (f_style feature) s = Inr (symbol, s1)"
      and b: "same_outside_styles s s1"
      using getSymbol_area_ok by blast
    have c: "toMapCoord env s1 = toMapCoord env s"
      using b by (rule toMapCoord_outside)
    have ne: "g_points (as_line_string env ol) \<noteq> []"
      using three by auto
    have "importPolygonGeometry env feature geometry s =
             Inr (Some ((new_object ObjectPath symbol)
                    \<lparr>obj_parts :=
                       \<lparr>part_coords = map (toMapCoord env s) (g_points (as_line_string env ol)),
                        part_closed = True\<rparr>
                       # map (\<lambda>hole. \<lparr>part_coords = map (toMapCoord env s) (g_points hole),
                                       part_closed = True\<rparr>)
                           (filter (\<lambda>hole. g_points hole \<noteq> []) hs)\<rparr>), s1)"
      using parts three a c ne
      by (simp add: importPolygonGeometry_def Let_def add_coordinates_start add_holes_parts
            new_object_def closeAllParts_def comp_def)
    moreover have "too_few_coordinates s1 = too_few_coordinates s"
      using b by (simp add: same_outside_styles_def)
    ultimately show ?thesis by blast
  qed
  show ?thesis
  proof (intro conjI impI)
    assume "g_parts geometry = []"
    then show "importPolygonGeometry env feature geometry s =
        Inr (None, s\<lparr>too_few_coordinates := too_few_coordinates s + 1\<rparr>)"
      by (simp add: importPolygonGeometry_def)
  next
    assume "g_parts geometry = outline # holes
        \<and> length (g_points (as_line_string env outline)) < 3"
    then show "importPolygonGeometry env feature geometry s =
          Inr (None, s\<lparr>too_few_coordinates := too_few_coordinates s + 1\<rparr>)"
      by (simp add: importPolygonGeometry_def Let_def)
  next
    assume "g_parts geometry = outline # holes
        \<and> 3 \<le> length (g_points (as_line_string env outline))"
    then show "\<exists>symbol s1.
           importPolygonGeometry env feature geometry s =
             Inr (Some ((new_object ObjectPath symbol)
                    \<lparr>obj_parts :=
                       \<lparr>part_coords = map (toMapCoord env s) (g_points (as_line_string env outline)),
                        part_closed = True\<rparr>
                       # map (\<lambda>hole. \<lparr>part_coords = map (toMapCoord env s) (g_points hole),
                                       part_closed = True\<rparr>)
                           (filter (\<lambda>hole. g_points hole \<noteq> []) holes)\<rparr>), s1)
           \<and> too_few_coordinates s1 = too_few_coordinates s"
      using general by blast
  next
    assume h: "g_parts geometry = [outline, hole]
        \<and> length (g_points (as_line_string env outline)) = 3 \<and> g_points hole \<noteq> []"
    then have "g_parts geometry = outline # [hole]" "3 \<le> length (g_points (as_line_string env outline))"
      by simp_all
    from general [OF this] obtain symbol s1 where
      "importPolygonGeometry env feature geometry s =
             Inr (Some ((new_object ObjectPath symbol)
                    \<lparr>obj_parts :=
                       \<lparr>part_coords = map (toMapCoord env s) (g_points (as_line_string env outline)),
                        part_closed = True\<rparr>
                       # map (\<lambda>hole. \<lparr>part_coords = map (toMapCoord env s) (g_points hole),
                                       part_closed = True\<rparr>)
                           (filter (\<lambda>hole. g_points hole \<noteq> []) [hole])\<rparr>), s1)"
      by blast
    then show "\<exists>object s1.
           importPolygonGeometry env feature geometry s = Inr (Some object, s1)
           \<and> length (obj_parts object) = 2 \<and> list_all part_closed (obj_parts object)"
      using h by simp
  qed
qed

theorem importPolygonGeometry_parts_witness:
  "g_parts (Geometry wkbPolygon True [] []) = []
   \<and> importPolygonGeometry demo_env (demo_feature []) (Geometry wkbPolygon True [] []) demo_importer =
       Inr (None, demo_importer\<lparr>too_few_coordinates := too_few_coordinates demo_importer + 1\<rparr>)
   \<and> g_parts (Geometry wkbPolygon True [] [Geometry wkbLineString True [(0, 0), (4, 0)] []])
       = [Geometry wkbLineString True [(0, 0), (4, 0)] []]
   \<and> length (g_points (as_line_string demo_env (Geometry wkbLineString True [(0, 0), (4, 0)] []))) < 3
   \<and> importPolygonGeometry demo_env (demo_feature [])
        (Geometry wkbPolygon True [] [Geometry wkbLineString True [(0, 0), (4, 0)] []]) demo_importer =
       Inr (None, demo_importer\<lparr>too_few_coordinates := too_few_coordinates demo_importer + 1\<rparr>)
   \<and> g_parts (Geometry wkbPolygon True []
         [Geometry wkbLineString True [(0, 0), (4, 0), (0, 4)] [],
          Geometry wkbLineString True [(1, 1), (2, 1), (1, 2)] []])
       = [Geometry wkbLineString True [(0, 0), (4, 0), (0, 4)] [],
          Geometry wkbLineString True [(1, 1), (2, 1), (1, 2)] []]
   \<and> length (g_points (as_line_string demo_env
         (Geometry wkbLineString True [(0, 0), (4, 0), (0, 4)] []))) = 3
   \<and> g_points (Geometry wkbLineString True [(1, 1), (2, 1), (1, 2)] []) \<noteq> []
   \<and> (\<exists>object s1.
         importPolygonGeometry demo_env (demo_feature [])
           (Geometry wkbPolygon True []
              [Geometry wkbLineString True [(0, 0), (4, 0), (0, 4)] [],
               Geometry wkbLineString True [(1, 1), (2, 1), (1, 2)] []]) demo_importer
           = Inr (Some object, s1)
         \<and> length (obj_parts object) = 2 \<and> list_all part_closed (obj_parts object))"
  using importPolygonGeometry_parts
          [of "Geometry wkbPolygon True [] []" demo_env "demo_feature []" demo_importer]
        importPolygonGeometry_parts
          [of "Geometry wkbPolygon True [] [Geometry wkbLineString True [(0, 0), (4, 0)] []]"
              demo_env "demo_feature []" demo_importer
              "Geometry wkbLineString True [(0, 0), (4, 0)] []" "[]"]
        importPolygonGeometry_parts
          [of "Geometry wkbPolygon True []
                 [Geometry wkbLineString True [(0, 0), (4, 0), (0, 4)] [],
                  Geometry wkbLineString True [(1, 1), (2, 1), (1, 2)] []]"
              demo_env "demo_feature []" demo_importer
              "Geometry wkbLineString True [(0, 0), (4, 0), (0, 4)] []"
              "[Geometry wkbLineString True [(1, 1), (2, 1), (1, 2)] []]"
              "Geometry wkbLineString True [(1, 1), (2, 1), (1, 2)] []"]
  by (simp add: as_line_string_def)

section \<open>The anchor packed into the description of a text symbol\<close>

lemma number_int_100:
  "number_int 101 = ''101''" "number_int 102 = ''102''" "number_int 103 = ''103''"
  "number_int 104 = ''104''" "number_int 105 = ''105''" "number_int 106 = ''106''"
  "number_int 107 = ''107''" "number_int 108 = ''108''" "number_int 109 = ''109''"
  "number_int 110 = ''110''" "number_int 111 = ''111''" "number_int 112 = ''112''"
  by (simp_all add: number_int_def number_nat.simps digit_char_def)

lemma toInt_two_digits:
  "toInt ''01'' = Some 1" "toInt ''02'' = Some 2" "toInt ''03'' = Some 3" "toInt ''04'' = Some 4"
  "toInt ''05'' = Some 5" "toInt ''06'' = Some 6" "toInt ''07'' = Some 7" "toInt ''08'' = Some 8"
  "toInt ''09'' = Some 9" "toInt ''10'' = Some 10" "toInt ''11'' = Some 11" "toInt ''12'' = Some 12"
  by (simp_all add: toInt_def trim_spaces_def is_digit_def digits_value_def digit_value_def)

lemma packed_anchor:
  assumes "1 \<le> a" "a \<le> 12"
  shows "toInt (string_ref (number_int (100 + a) @ rest) 1 2) = Some a"
proof -
  have "a = 1 \<or> a = 2 \<or> a = 3 \<or> a = 4 \<or> a = 5 \<or> a = 6 \<or> a = 7 \<or> a = 8 \<or> a = 9 \<or> a = 10
     \<or> a = 11 \<or> a = 12"
    using assms by (rule anchor_cases)
  then show ?thesis
    by (elim disjE) (simp_all add: number_int_100 string_ref_def toInt_two_digits)
qed

lemma label_anchor_range:
  "1 \<le> (case st_param_num tool OGRSTLabelAnchor of None \<Rightarrow> 1 | Some n \<Rightarrow> qBound 1 n 12)
   \<and> (case st_param_num tool OGRSTLabelAnchor of None \<Rightarrow> 1 | Some n \<Rightarrow> qBound 1 n 12) \<le> 12"
  by (simp add: qBound_def split: option.splits)

lemma label_description_anchor:
  "toInt (string_ref (label_description env tool label) 1 2)
     = Some (case st_param_num tool OGRSTLabelAnchor of None \<Rightarrow> 1 | Some n \<Rightarrow> qBound 1 n 12)"
proof -
  define a where "a = (case st_param_num tool OGRSTLabelAnchor of None \<Rightarrow> 1 | Some n \<Rightarrow> qBound 1 n 12)"
  define rest where "rest = number_g1 env (case st_param_dbl tool OGRSTLabelAngle of None \<Rightarrow> 0 | Some x \<Rightarrow> x)
                              @ [CHR '' ''] @ label"
  have r: "1 \<le> a" "a \<le> 12"
    using label_anchor_range [of tool] by (simp_all add: a_def)
  have "label_description env tool label = number_int (100 + a) @ rest"
    by (simp add: label_description_def Let_def a_def rest_def)
  then have "toInt (string_ref (label_description env tool label) 1 2) = Some a"
    using packed_anchor [OF r, of rest] by (simp only:)
  then show ?thesis by (simp only: a_def)
qed

lemma applyLabelAnchor_reachable:
  assumes "1 \<le> a" "a \<le> 12"
  shows "\<exists>object1. applyLabelAnchor a object = Inr object1"
proof -
  have "a = 1 \<or> a = 2 \<or> a = 3 \<or> a = 4 \<or> a = 5 \<or> a = 6 \<or> a = 7 \<or> a = 8 \<or> a = 9 \<or> a = 10
     \<or> a = 11 \<or> a = 12"
    using assms by (rule anchor_cases)
  then show ?thesis
    by (elim disjE)
       (simp_all add: applyLabelAnchor_def Let_def signed_divide_int_def signed_modulo_int_def)
qed

lemma importPointGeometry_reachable:
  assumes "valid_importer s"
  shows "importPointGeometry env feature geometry s \<noteq> Inl Unreachable"
proof -
  obtain p s1 where g: "getSymbol env SymbolPoint (f_style feature) s = Inr (p, s1)"
    using getSymbol_ok [of SymbolPoint env "f_style feature" s] by auto
  note v = getSymbol_point_valid [OF assms g]
  show ?thesis
  proof (cases "sym_type (symbols s1 ! p) = SymbolPoint")
    case True
    then show ?thesis using g
      by (simp add: importPointGeometry_def Let_def split: option.splits)
  next
    case False
    then obtain tool label where d: "sym_description (symbols s1 ! p) = label_description env tool label"
      and t: "sym_type (symbols s1 ! p) = SymbolText"
      using v by (auto simp: point_or_label_def points_to_def)
    define a where "a = (case st_param_num tool OGRSTLabelAnchor of None \<Rightarrow> 1 | Some n \<Rightarrow> qBound 1 n 12)"
    have ta: "toInt (string_ref (sym_description (symbols s1 ! p)) 1 2) = Some a"
      using d label_description_anchor [of env tool label] by (simp add: a_def)
    have "1 \<le> a" "a \<le> 12" using label_anchor_range [of tool] by (simp_all add: a_def)
    then have ok: "\<exists>object1. applyLabelAnchor a object = Inr object1" for object
      by (rule applyLabelAnchor_reachable)
    show ?thesis
      using g t ta ok
      apply (simp add: importPointGeometry_def Let_def split: option.splits)
      apply (auto split: sum.splits option.splits)
      apply (metis Inl_Inr_False)
      done
  qed
qed


lemma line_symbol_of_parts_valid:
  assumes "valid_importer s" "line_symbol_of_parts env k parts s = Inr (r, s1)"
  shows "valid_importer s1 \<and> (case r of None \<Rightarrow> s1 = s | Some p \<Rightarrow> points_to s1 SymbolLine p)"
proof (cases "first_pen parts")
  case None
  then show ?thesis using assms by (simp add: line_symbol_of_parts_first_pen)
next
  case (Some tool)
  note ty = first_pen_tool [OF Some]
  obtain p s' where g: "getSymbolForPen env tool k s = Inr (p, s')"
    using getSymbolForPen_ok [of tool env k s] ty by blast
  have "r = Some p \<and> s1 = s'"
    using assms(2) Some g by (simp add: line_symbol_of_parts_first_pen)
  then show ?thesis
    using getSymbolForPen_valid [OF assms(1) _ _ g] ty by simp
qed

lemma area_symbol_of_parts_valid:
  "valid_importer s \<Longrightarrow> area_symbol_of_parts env k parts s = Inr (r, s1) \<Longrightarrow>
   valid_importer s1 \<and> (case r of None \<Rightarrow> s1 = s | Some p \<Rightarrow> points_to s1 SymbolArea p)"
proof (induction parts)
  case Nil
  then show ?case by simp
next
  case (Cons a parts)
  show ?case
  proof (cases a)
    case None
    then show ?thesis using Cons by simp
  next
    case (Some part)
    define tool where "tool = OGR_ST_SetUnit part OGRSTUMM"
    show ?thesis
    proof (cases "st_type tool = OGRSTCBrush")
      case True
      obtain p s' where g: "getSymbolForBrush env tool k s = Inr (p, s')"
        using getSymbolForBrush_ok [OF True] by blast
      have "r = Some p \<and> s1 = s'"
        using Cons.prems(2) Some True g by (simp add: tool_def [symmetric] Let_def)
      then show ?thesis
        using getSymbolForBrush_valid [OF Cons.prems(1) True g] by simp
    next
      case False
      then have "area_symbol_of_parts env k parts s = Inr (r, s1)"
        using Cons.prems(2) Some by (simp add: tool_def [symmetric] Let_def)
      then show ?thesis using Cons.IH Cons.prems(1) by simp
    qed
  qed
qed

lemma getSymbol_line_valid:
  assumes "valid_importer s" "getSymbol env SymbolLine k s = Inr (p, s1)"
  shows "valid_importer s1 \<and> points_to s1 SymbolLine p"
proof (cases "line_symbols s k")
  case (Some q)
  then have "p = q \<and> s1 = s" using assms(2) by (simp add: getSymbol_def)
  then show ?thesis
    using assms(1) valid_importer_cached(2) [OF assms(1) Some] by simp
next
  case None
  obtain r s' where g: "line_symbol_of_parts env k (parts_of_style env k) s = Inr (r, s')"
    using line_symbol_of_parts_ok by blast
  note v = line_symbol_of_parts_valid [OF assms(1) g]
  show ?thesis
  proof (cases r)
    case n: None
    then have "s' = s" using v by simp
    then have "p = default_line_symbol s \<and> s1 = s"
      using assms(2) None g n
      by (auto simp: getSymbol_def getLineSymbol_def or_default_def)
    then show ?thesis
      using assms(1) valid_importer_default [OF assms(1)] by simp
  next
    case (Some q)
    then have "p = q \<and> s1 = s'"
      using assms(2) None g
      by (simp add: getSymbol_def getLineSymbol_def or_default_def)
    then show ?thesis using v Some by simp
  qed
qed

lemma getSymbol_area_valid:
  assumes "valid_importer s" "getSymbol env SymbolArea k s = Inr (p, s1)"
  shows "valid_importer s1 \<and> points_to s1 SymbolArea p"
proof (cases "area_symbols s k")
  case (Some q)
  then have "p = q \<and> s1 = s" using assms(2) by (simp add: getSymbol_def)
  then show ?thesis
    using assms(1) valid_importer_cached(3) [OF assms(1) Some] by simp
next
  case None
  obtain r s' where g: "area_symbol_of_parts env k (parts_of_style env k) s = Inr (r, s')"
    using area_symbol_of_parts_ok by blast
  note v = area_symbol_of_parts_valid [OF assms(1) g]
  show ?thesis
  proof (cases r)
    case n: None
    then have "s' = s" using v by simp
    then have "p = default_area_symbol s \<and> s1 = s"
      using assms(2) None g n
      by (auto simp: getSymbol_def getAreaSymbol_def or_default_def)
    then show ?thesis
      using assms(1) valid_importer_default [OF assms(1)] by simp
  next
    case (Some q)
    then have "p = q \<and> s1 = s'"
      using assms(2) None g
      by (simp add: getSymbol_def getAreaSymbol_def or_default_def)
    then show ?thesis using v Some by simp
  qed
qed

lemma getSymbol_kinds:
  "getSymbol env SymbolText k s = getSymbol env SymbolPoint k s"
  "getSymbol env SymbolCombined k s = getSymbol env SymbolLine k s"
  "getSymbol env NoSymbol k s = Inl Unreachable"
  "getSymbol env AllSymbols k s = Inl Unreachable"
  by (simp_all add: getSymbol_def)

lemma getSymbol_valid:
  assumes "valid_importer s" "getSymbol env t k s = Inr (p, s1)"
  shows "valid_importer s1 \<and> p < length (symbols s1)"
proof (cases t)
  case SymbolPoint
  then show ?thesis
    using getSymbol_point_valid [OF assms(1), of env k p s1] assms(2)
    by (auto simp: point_or_label_def points_to_def)
next
  case SymbolText
  then show ?thesis
    using getSymbol_point_valid [OF assms(1), of env k p s1] assms(2)
    by (auto simp: point_or_label_def points_to_def getSymbol_kinds)
next
  case SymbolLine
  then show ?thesis
    using getSymbol_line_valid [OF assms(1), of env k p s1] assms(2)
    by (auto simp: points_to_def)
next
  case SymbolCombined
  then show ?thesis
    using getSymbol_line_valid [OF assms(1), of env k p s1] assms(2)
    by (auto simp: points_to_def getSymbol_kinds)
next
  case SymbolArea
  then show ?thesis
    using getSymbol_area_valid [OF assms(1), of env k p s1] assms(2)
    by (auto simp: points_to_def)
qed (use assms(2) in \<open>simp_all add: getSymbol_kinds\<close>)

lemma valid_importer_fresh: "valid_importer (OgrFileImport cs ss g fresh unit)"
  by (simp add: valid_importer_def points_to_def OgrFileImport_def Let_def nth_append)

lemma valid_importer_counters:
  "valid_importer s \<Longrightarrow> valid_importer (s\<lparr>too_few_coordinates := n\<rparr>)"
  "valid_importer s \<Longrightarrow> valid_importer (s\<lparr>unsupported_geometry_type := n\<rparr>)"
  by (simp_all add: valid_importer_def points_to_def)

lemma importPointGeometry_valid:
  assumes "valid_importer s" "importPointGeometry env feature geometry s = Inr (r, s1)"
  shows "valid_importer s1"
proof -
  obtain p s' where g: "getSymbol env SymbolPoint (f_style feature) s = Inr (p, s')"
    using getSymbol_ok [of SymbolPoint env "f_style feature" s] by auto
  have "s1 = s'"
    using assms(2) g
    by (auto simp: importPointGeometry_def Let_def split: if_splits option.splits sum.splits)
  then show ?thesis using getSymbol_valid [OF assms(1) g] by simp
qed

lemma importLineStringGeometry_valid:
  assumes "valid_importer s" "importLineStringGeometry env feature geometry s = Inr (r, s1)"
  shows "valid_importer s1"
proof -
  obtain p s' where g: "getSymbol env SymbolLine (f_style feature) s = Inr (p, s')"
    using getSymbol_ok [of SymbolLine env "f_style feature" s] by auto
  have "s1 = s' \<or> s1 = s\<lparr>too_few_coordinates := too_few_coordinates s + 1\<rparr>"
    using assms(2) g
    by (auto simp: importLineStringGeometry_def Let_def split: if_splits)
  then show ?thesis
    using getSymbol_valid [OF assms(1) g] valid_importer_counters(1) [OF assms(1)] by auto
qed

lemma importPolygonGeometry_valid:
  assumes "valid_importer s" "importPolygonGeometry env feature geometry s = Inr (r, s1)"
  shows "valid_importer s1"
proof -
  obtain p s' where g: "getSymbol env SymbolArea (f_style feature) s = Inr (p, s')"
    using getSymbol_ok [of SymbolArea env "f_style feature" s] by auto
  have "s1 = s' \<or> s1 = s\<lparr>too_few_coordinates := too_few_coordinates s + 1\<rparr>"
    using assms(2) g
    by (auto simp: importPolygonGeometry_def Let_def split: if_splits list.splits)
  then show ?thesis
    using getSymbol_valid [OF assms(1) g] valid_importer_counters(1) [OF assms(1)] by auto
qed

lemma importLineStringGeometry_reachable:
  "importLineStringGeometry env feature geometry s \<noteq> Inl e"
  using getSymbol_ok [of SymbolLine env "f_style feature" s]
  by (auto simp: importLineStringGeometry_def Let_def)

lemma importPolygonGeometry_reachable:
  "importPolygonGeometry env feature geometry s \<noteq> Inl e"
  using getSymbol_ok [of SymbolArea env "f_style feature" s]
  by (auto simp: importPolygonGeometry_def Let_def split: list.splits)

lemma object_list_Inl: "object_list r = Inl e \<longleftrightarrow> r = Inl e"
  by (auto simp: object_list_def split: sum.splits option.splits prod.splits)

lemma object_list_Inr: "object_list r = Inr (objs, s1) \<Longrightarrow> \<exists>x. r = Inr (x, s1)"
  by (auto simp: object_list_def split: sum.splits option.splits prod.splits)

lemma importGeometry_reachable_valid:
  "valid_importer s \<longrightarrow>
     importGeometry env feature geometry s \<noteq> Inl Unreachable
     \<and> (\<forall>objs s1. importGeometry env feature geometry s = Inr (objs, s1) \<longrightarrow> valid_importer s1)"
  "valid_importer s \<longrightarrow>
     import_geometries env feature geometries s \<noteq> Inl Unreachable
     \<and> (\<forall>objs s1. import_geometries env feature geometries s = Inr (objs, s1) \<longrightarrow> valid_importer s1)"
proof (induction env feature geometry s and env feature geometries s
       rule: importGeometry_import_geometries.induct)
  case (1 env feature t flat points parts s)
  show ?case
  proof (intro impI)
    assume v: "valid_importer s"
    consider (point) "t = wkbPoint" | (line) "t = wkbLineString" | (poly) "t = wkbPolygon"
      | (coll) "t = wkbGeometryCollection \<or> t = wkbMultiLineString \<or> t = wkbMultiPoint
                \<or> t = wkbMultiPolygon"
      | (other) "t \<noteq> wkbPoint" "t \<noteq> wkbLineString" "t \<noteq> wkbPolygon"
          "\<not> (t = wkbGeometryCollection \<or> t = wkbMultiLineString \<or> t = wkbMultiPoint
                \<or> t = wkbMultiPolygon)"
      by blast
    then show "importGeometry env feature (Geometry t flat points parts) s \<noteq> Inl Unreachable
     \<and> (\<forall>objs s1. importGeometry env feature (Geometry t flat points parts) s = Inr (objs, s1)
           \<longrightarrow> valid_importer s1)"
    proof cases
      case point
      then show ?thesis
        using importPointGeometry_reachable [OF v, of env feature "Geometry t flat points parts"]
          importPointGeometry_valid [OF v, of env feature "Geometry t flat points parts"]
        by (auto simp: object_list_Inl dest!: object_list_Inr)
    next
      case line
      then show ?thesis
        using importLineStringGeometry_reachable [of env feature "Geometry t flat points parts" s]
          importLineStringGeometry_valid [OF v, of env feature "Geometry t flat points parts"]
        by (auto simp: object_list_Inl dest!: object_list_Inr)
    next
      case poly
      then show ?thesis
        using importPolygonGeometry_reachable [of env feature "Geometry t flat points parts" s]
          importPolygonGeometry_valid [OF v, of env feature "Geometry t flat points parts"]
        by (auto simp: object_list_Inl dest!: object_list_Inr)
    next
      case coll
      then have "importGeometry env feature (Geometry t flat points parts) s
                 = import_geometries env feature parts s"
        by auto
      moreover have "t \<noteq> wkbPoint" "t \<noteq> wkbLineString" "t \<noteq> wkbPolygon"
        using coll by auto
      ultimately show ?thesis using "1.IH" coll v by simp
    next
      case other
      then show ?thesis using v valid_importer_counters(2) [OF v] by simp
    qed
  qed
next
  case (2 env feature s)
  then show ?case by simp
next
  case (3 env feature g gs s)
  show ?case
  proof (intro impI)
    assume v: "valid_importer s"
    show "import_geometries env feature (g # gs) s \<noteq> Inl Unreachable
     \<and> (\<forall>objs s1. import_geometries env feature (g # gs) s = Inr (objs, s1) \<longrightarrow> valid_importer s1)"
    proof (cases "importGeometry env feature g s")
      case (Inl e)
      then have "e \<noteq> Unreachable" using "3.IH"(1) v by auto
      then show ?thesis using Inl by simp
    next
      case (Inr x)
      obtain tmp s' where x: "x = (tmp, s')" by (cases x)
      have v': "valid_importer s'" using "3.IH"(1) v Inr x by simp
      show ?thesis
        using "3.IH"(2) [OF Inr x [symmetric]] v' Inr x
        by (auto split: sum.splits)
    qed
  qed
qed


lemma packed_prefix:
  assumes "1 \<le> a" "a \<le> 12"
  shows "take 3 (number_int (100 + a) @ rest) = number_int (100 + a)"
proof -
  have "a = 1 \<or> a = 2 \<or> a = 3 \<or> a = 4 \<or> a = 5 \<or> a = 6 \<or> a = 7 \<or> a = 8 \<or> a = 9 \<or> a = 10
     \<or> a = 11 \<or> a = 12"
    using assms by (rule anchor_cases)
  then show ?thesis
    by (elim disjE) (simp_all add: number_int_100)
qed

lemma label_description_prefix:
  "take 3 (label_description env tool label)
     = number_int (100 + (case st_param_num tool OGRSTLabelAnchor of None \<Rightarrow> 1 | Some n \<Rightarrow> qBound 1 n 12))"
proof -
  define a where "a = (case st_param_num tool OGRSTLabelAnchor of None \<Rightarrow> 1 | Some n \<Rightarrow> qBound 1 n 12)"
  define rest where "rest = number_g1 env (case st_param_dbl tool OGRSTLabelAngle of None \<Rightarrow> 0 | Some x \<Rightarrow> x)
                              @ [CHR '' ''] @ label"
  have r: "1 \<le> a" "a \<le> 12"
    using label_anchor_range [of tool] by (simp_all add: a_def)
  have "label_description env tool label = number_int (100 + a) @ rest"
    by (simp add: label_description_def Let_def a_def rest_def)
  then have "take 3 (label_description env tool label) = number_int (100 + a)"
    using packed_prefix [OF r, of rest] by (simp only:)
  then show ?thesis by (simp only: a_def)
qed

lemma clamped_anchor:
  "(case st_param_num tool OGRSTLabelAnchor of None \<Rightarrow> 1 | Some n \<Rightarrow> qBound 1 n 12)
     = (case st_param_num tool OGRSTLabelAnchor of
          None \<Rightarrow> 1
        | Some n \<Rightarrow> if n < 1 then 1 else if 12 < n then 12 else n)"
  by (simp add: qBound_def split: option.splits)

text \<open>
  C10: the anchor which a label tool packs into the description of its text symbol is the
  anchor parameter of the tool clamped to the range from 1 to 12 (1 for a parameter below
  1, 12 for a parameter above 12, the parameter itself otherwise), and is 1 when the tool
  has no anchor parameter: the description which \<^verbatim>\<open>getSymbolForLabel\<close> writes into the
  symbol it returns begins with the decimal digits of 100 plus this anchor, and the anchor
  read back from the description is this anchor. So it is in the range from 1 to 12 and
  \<^verbatim>\<open>applyLabelAnchor\<close> succeeds on it, and the import of a geometry never reaches a
  default branch marked unreachable. This holds in every well-formed importer; a new
  importer is well-formed and the import keeps it so.
\<close>

theorem packed_anchor_in_range:
  "(valid_importer s \<and> st_type tool = OGRSTCLabel
      \<and> getSymbolForLabel env tool style_string s = Inr (Some text_symbol, s1) \<longrightarrow>
      (\<exists>anchor.
         anchor = (case st_param_num tool OGRSTLabelAnchor of
                     None \<Rightarrow> 1
                   | Some n \<Rightarrow> if n < 1 then 1 else if 12 < n then 12 else n)
         \<and> take 3 (sym_description (symbols s1 ! text_symbol)) = number_int (100 + anchor)
         \<and> toInt (string_ref (sym_description (symbols s1 ! text_symbol)) 1 2) = Some anchor
         \<and> 1 \<le> anchor \<and> anchor \<le> 12
         \<and> (st_param_num tool OGRSTLabelAnchor = None \<longrightarrow> anchor = 1)
         \<and> (\<exists>object1. applyLabelAnchor anchor object = Inr object1)))
   \<and> (valid_importer s \<longrightarrow>
        importPointGeometry env feature geometry s \<noteq> Inl Unreachable
        \<and> importGeometry env feature geometry s \<noteq> Inl Unreachable)
   \<and> (valid_importer s \<and> importGeometry env feature geometry s = Inr (objects, s2) \<longrightarrow>
        valid_importer s2)
   \<and> (valid_importer s \<and> getSymbol env t k s = Inr (p, s3) \<longrightarrow> valid_importer s3)
   \<and> valid_importer (OgrFileImport cs ss g fresh unit)"
proof (intro conjI impI)
  assume h: "valid_importer s \<and> st_type tool = OGRSTCLabel
      \<and> getSymbolForLabel env tool style_string s = Inr (Some text_symbol, s1)"
  define a where "a = (case st_param_num tool OGRSTLabelAnchor of None \<Rightarrow> 1 | Some n \<Rightarrow> qBound 1 n 12)"
  have "\<exists>label. sym_description (symbols s1 ! text_symbol) = label_description env tool label"
    using getSymbolForLabel_valid [of s tool env style_string "Some text_symbol" s1] h by simp
  then obtain label where
    d: "sym_description (symbols s1 ! text_symbol) = label_description env tool label"
    by (elim exE)
  have p0: "a = (case st_param_num tool OGRSTLabelAnchor of
                     None \<Rightarrow> 1
                   | Some n \<Rightarrow> if n < 1 then 1 else if 12 < n then 12 else n)"
    unfolding a_def by (rule clamped_anchor)
  have p1: "toInt (string_ref (sym_description (symbols s1 ! text_symbol)) 1 2) = Some a"
    unfolding d a_def by (rule label_description_anchor)
  have p4: "take 3 (sym_description (symbols s1 ! text_symbol)) = number_int (100 + a)"
    unfolding d a_def by (rule label_description_prefix)
  have r: "1 \<le> a" "a \<le> 12"
    using label_anchor_range [of tool] by (simp_all add: a_def)
  have p2: "st_param_num tool OGRSTLabelAnchor = None \<longrightarrow> a = 1"
    by (simp add: a_def)
  have p3: "\<exists>object1. applyLabelAnchor a object = Inr object1"
    using r by (rule applyLabelAnchor_reachable)
  show "\<exists>anchor.
         anchor = (case st_param_num tool OGRSTLabelAnchor of
                     None \<Rightarrow> 1
                   | Some n \<Rightarrow> if n < 1 then 1 else if 12 < n then 12 else n)
         \<and> take 3 (sym_description (symbols s1 ! text_symbol)) = number_int (100 + anchor)
         \<and> toInt (string_ref (sym_description (symbols s1 ! text_symbol)) 1 2) = Some anchor
         \<and> 1 \<le> anchor \<and> anchor \<le> 12
         \<and> (st_param_num tool OGRSTLabelAnchor = None \<longrightarrow> anchor = 1)
         \<and> (\<exists>object1. applyLabelAnchor anchor object = Inr object1)"
    using p0 p4 p1 r p2 p3 by (intro exI [of _ a] conjI)
next
  assume "valid_importer s"
  then show "importPointGeometry env feature geometry s \<noteq> Inl Unreachable"
    by (rule importPointGeometry_reachable)
next
  assume "valid_importer s"
  then show "importGeometry env feature geometry s \<noteq> Inl Unreachable"
    using importGeometry_reachable_valid(1) [of s env feature geometry] by simp
next
  assume "valid_importer s \<and> importGeometry env feature geometry s = Inr (objects, s2)"
  then show "valid_importer s2"
    using importGeometry_reachable_valid(1) [of s env feature geometry] by simp
next
  assume "valid_importer s \<and> getSymbol env t k s = Inr (p, s3)"
  then show "valid_importer s3"
    using getSymbol_valid [of s env t k p s3] by simp
next
  show "valid_importer (OgrFileImport cs ss g fresh unit)"
    by (rule valid_importer_fresh)
qed


theorem packed_anchor_in_range_witness:
  "valid_importer demo_importer
   \<and> st_type (demo_tool OGRSTCLabel ''LABEL(c:#FF0000,t:A,p:14)''
        [(OGRSTLabelFColor, ''#FF0000''), (OGRSTLabelTextString, ''A'')] [] [(OGRSTLabelAnchor, 14)])
       = OGRSTCLabel
   \<and> (\<exists>s1. getSymbolForLabel demo_env
          (demo_tool OGRSTCLabel ''LABEL(c:#FF0000,t:A,p:14)''
             [(OGRSTLabelFColor, ''#FF0000''), (OGRSTLabelTextString, ''A'')] []
             [(OGRSTLabelAnchor, 14)])
          ''LABEL(c:#FF0000,t:A,p:14)'' demo_importer = Inr (Some 4, s1)
        \<and> take 3 (sym_description (symbols s1 ! 4)) = ''112''
        \<and> toInt (string_ref (sym_description (symbols s1 ! 4)) 1 2) = Some 12
        \<and> (\<exists>object1. applyLabelAnchor 12 (new_object ObjectText 4) = Inr object1))
   \<and> importGeometry demo_env (demo_feature ''LABEL(c:#FF0000,t:A,p:5)'')
        (Geometry wkbPoint True [(1, 2)] []) demo_importer \<noteq> Inl Unreachable"
proof -
  define tool where "tool = demo_tool OGRSTCLabel ''LABEL(c:#FF0000,t:A,p:14)''
        [(OGRSTLabelFColor, ''#FF0000''), (OGRSTLabelTextString, ''A'')] [] [(OGRSTLabelAnchor, 14)]"
  have v: "valid_importer demo_importer"
    unfolding demo_importer_def
    by (rule packed_anchor_in_range
          [THEN conjunct2, THEN conjunct2, THEN conjunct2, THEN conjunct2])
  have t: "st_type tool = OGRSTCLabel"
    by (simp add: tool_def demo_tool_def)
  have n: "(case st_param_num tool OGRSTLabelAnchor of
              None \<Rightarrow> 1
            | Some n \<Rightarrow> if n < 1 then 1 else if 12 < n then 12 else n) = (12::int)"
    by (simp add: tool_def demo_tool_def)
  have "\<exists>s1. getSymbolForLabel demo_env tool ''LABEL(c:#FF0000,t:A,p:14)'' demo_importer
               = Inr (Some 4, s1)"
    by (simp add: getSymbolForLabel_def tool_def demo_tool_def demo_importer_def
        OgrFileImport_def Let_def c_str_def makeColor_def hash_value_def demo_env_def demo_rgb_def
        addColor_def addSymbol_def insert_at_def)
  then obtain s1 where e: "getSymbolForLabel demo_env tool ''LABEL(c:#FF0000,t:A,p:14)''
      demo_importer = Inr (Some 4, s1)"
    by blast
  have "\<exists>anchor.
         anchor = (case st_param_num tool OGRSTLabelAnchor of
                     None \<Rightarrow> 1
                   | Some n \<Rightarrow> if n < 1 then 1 else if 12 < n then 12 else n)
         \<and> take 3 (sym_description (symbols s1 ! 4)) = number_int (100 + anchor)
         \<and> toInt (string_ref (sym_description (symbols s1 ! 4)) 1 2) = Some anchor
         \<and> 1 \<le> anchor \<and> anchor \<le> 12
         \<and> (st_param_num tool OGRSTLabelAnchor = None \<longrightarrow> anchor = 1)
         \<and> (\<exists>object1. applyLabelAnchor anchor (new_object ObjectText 4) = Inr object1)"
    by (rule packed_anchor_in_range [where s = demo_importer and env = demo_env and tool = tool
          and style_string = "''LABEL(c:#FF0000,t:A,p:14)''" and text_symbol = 4 and ?s1.0 = s1
          and object = "new_object ObjectText 4", THEN conjunct1, rule_format])
       (simp add: v t e)
  then obtain anchor where aa: "anchor = (case st_param_num tool OGRSTLabelAnchor of
                     None \<Rightarrow> 1
                   | Some n \<Rightarrow> if n < 1 then 1 else if 12 < n then 12 else n)
         \<and> take 3 (sym_description (symbols s1 ! 4)) = number_int (100 + anchor)
         \<and> toInt (string_ref (sym_description (symbols s1 ! 4)) 1 2) = Some anchor
         \<and> 1 \<le> anchor \<and> anchor \<le> 12
         \<and> (st_param_num tool OGRSTLabelAnchor = None \<longrightarrow> anchor = 1)
         \<and> (\<exists>object1. applyLabelAnchor anchor (new_object ObjectText 4) = Inr object1)"
    by (rule exE)
  note a0 = aa [THEN conjunct1]
  note a1 = aa [THEN conjunct2, THEN conjunct1]
  note a2 = aa [THEN conjunct2, THEN conjunct2, THEN conjunct1]
  note a3 = aa [THEN conjunct2, THEN conjunct2, THEN conjunct2, THEN conjunct2, THEN conjunct2,
                THEN conjunct2]
  have a12: "anchor = 12"
    using a0 n by (simp only:)
  have b1: "take 3 (sym_description (symbols s1 ! 4)) = ''112''"
    using a1 unfolding a12 by (simp add: number_int_100)
  have b2: "toInt (string_ref (sym_description (symbols s1 ! 4)) 1 2) = Some 12"
    using a2 unfolding a12 .
  have b3: "\<exists>object1. applyLabelAnchor 12 (new_object ObjectText 4) = Inr object1"
    using a3 unfolding a12 .
  have "importPointGeometry demo_env (demo_feature ''LABEL(c:#FF0000,t:A,p:5)'')
        (Geometry wkbPoint True [(1, 2)] []) demo_importer \<noteq> Inl Unreachable
      \<and> importGeometry demo_env (demo_feature ''LABEL(c:#FF0000,t:A,p:5)'')
        (Geometry wkbPoint True [(1, 2)] []) demo_importer \<noteq> Inl Unreachable"
    by (rule packed_anchor_in_range [where s = demo_importer and env = demo_env
          and feature = "demo_feature ''LABEL(c:#FF0000,t:A,p:5)''"
          and geometry = "Geometry wkbPoint True [(1, 2)] []",
          THEN conjunct2, THEN conjunct1, rule_format])
       (rule v)
  then have u: "importGeometry demo_env (demo_feature ''LABEL(c:#FF0000,t:A,p:5)'')
        (Geometry wkbPoint True [(1, 2)] []) demo_importer \<noteq> Inl Unreachable"
    by (rule conjunct2)
  have "\<exists>s1. getSymbolForLabel demo_env tool ''LABEL(c:#FF0000,t:A,p:14)'' demo_importer
          = Inr (Some 4, s1)
        \<and> take 3 (sym_description (symbols s1 ! 4)) = ''112''
        \<and> toInt (string_ref (sym_description (symbols s1 ! 4)) 1 2) = Some 12
        \<and> (\<exists>object1. applyLabelAnchor 12 (new_object ObjectText 4) = Inr object1)"
    using e b1 b2 b3 by (intro exI [of _ s1] conjI)
  then show ?thesis
    using v t u unfolding tool_def by (intro conjI)
qed


section \<open>Symbols after later lookups\<close>

lemma point_symbol_of_parts_cases:
  "point_symbol_of_parts env k parts s = Inr (None, s)
   \<or> (\<exists>tool p s1.
         point_symbol_of_parts env k parts s = Inr (Some p, s1)
         \<and> (getSymbolForOgrSymbol env tool k s = (Some p, s1)
             \<or> (st_type tool = OGRSTCLabel \<and> getSymbolForLabel env tool k s = Inr (Some p, s1))))"
proof (induction parts)
  case Nil
  then show ?case by simp
next
  case (Cons a parts)
  show ?case
  proof (cases a)
    case None
    then show ?thesis using Cons by simp
  next
    case (Some part)
    define tool where "tool = OGR_ST_SetUnit part OGRSTUMM"
    consider (ogr) "st_type tool = OGRSTCBrush \<or> st_type tool = OGRSTCPen \<or> st_type tool = OGRSTCSymbol"
      | (label) "st_type tool = OGRSTCLabel"
      | (other) "st_type tool \<noteq> OGRSTCBrush" "st_type tool \<noteq> OGRSTCPen"
          "st_type tool \<noteq> OGRSTCSymbol" "st_type tool \<noteq> OGRSTCLabel"
      by blast
    then show ?thesis
    proof cases
      case ogr
      obtain r' s' where g: "getSymbolForOgrSymbol env tool k s = (r', s')" by force
      show ?thesis
      proof (cases r')
        case None
        then have "s' = s"
          using getSymbolForOgrSymbol_cases [of s tool env k] g by auto
        then have "point_symbol_of_parts env k (a # parts) s = point_symbol_of_parts env k parts s"
          using Some ogr g None by (simp add: tool_def [symmetric] Let_def)
        then show ?thesis using Cons.IH by simp
      next
        case (Some p)
        then have "point_symbol_of_parts env k (a # parts) s = Inr (Some p, s')"
          using \<open>a = Some part\<close> ogr g by (simp add: tool_def [symmetric] Let_def)
        then show ?thesis using g Some by (intro disjI2 exI [of _ tool] exI [of _ p] exI [of _ s']) simp
      qed
    next
      case label
      obtain r' s' where g: "getSymbolForLabel env tool k s = Inr (r', s')"
        using getSymbolForLabel_ok [OF label] by blast
      show ?thesis
      proof (cases r')
        case None
        then have "s' = s"
          using getSymbolForLabel_cases [OF label, of env k s] g by auto
        then have "point_symbol_of_parts env k (a # parts) s = point_symbol_of_parts env k parts s"
          using Some label g None by (simp add: tool_def [symmetric] Let_def)
        then show ?thesis using Cons.IH by simp
      next
        case (Some p)
        then have "point_symbol_of_parts env k (a # parts) s = Inr (Some p, s')"
          using \<open>a = Some part\<close> label g by (simp add: tool_def [symmetric] Let_def)
        then show ?thesis using g Some label
          by (intro disjI2 exI [of _ tool] exI [of _ p] exI [of _ s']) simp
      qed
    next
      case other
      then have "point_symbol_of_parts env k (a # parts) s = point_symbol_of_parts env k parts s"
        using Some by (simp add: tool_def [symmetric] Let_def)
      then show ?thesis using Cons.IH by simp
    qed
  qed
qed

lemma area_symbol_of_parts_cases:
  "area_symbol_of_parts env k parts s = Inr (None, s)
   \<or> (\<exists>tool p s1.
         st_type tool = OGRSTCBrush
         \<and> area_symbol_of_parts env k parts s = Inr (Some p, s1)
         \<and> getSymbolForBrush env tool k s = Inr (p, s1))"
proof (induction parts)
  case Nil
  then show ?case by simp
next
  case (Cons a parts)
  show ?case
  proof (cases a)
    case None
    then show ?thesis using Cons by simp
  next
    case (Some part)
    define tool where "tool = OGR_ST_SetUnit part OGRSTUMM"
    show ?thesis
    proof (cases "st_type tool = OGRSTCBrush")
      case True
      obtain p s' where g: "getSymbolForBrush env tool k s = Inr (p, s')"
        using getSymbolForBrush_ok [OF True] by blast
      have "area_symbol_of_parts env k (a # parts) s = Inr (Some p, s')"
        using Some True g by (simp add: tool_def [symmetric] Let_def)
      then show ?thesis using g True
        by (intro disjI2 exI [of _ tool] exI [of _ p] exI [of _ s']) simp
    next
      case False
      then have "area_symbol_of_parts env k (a # parts) s = area_symbol_of_parts env k parts s"
        using Some by (simp add: tool_def [symmetric] Let_def)
      then show ?thesis using Cons.IH by simp
    qed
  qed
qed

text \<open>What a lookup does to the stored symbols.\<close>

lemma getSymbolForPen_symbols:
  assumes "st_type tool = OGRSTCPen" "st_unit tool = OGRSTUMM"
    and "getSymbolForPen env tool k s = Inr (p, s1)"
  shows "symbols s1 = symbols s \<or> (\<exists>x. symbols s1 = symbols s @ [x])"
  using getSymbolForPen_cases [OF assms(1,2), of s env k] assms(3)
  by (elim disjE exE conjE) auto

lemma getSymbolForBrush_symbols:
  assumes "st_type tool = OGRSTCBrush" "getSymbolForBrush env tool k s = Inr (p, s1)"
  shows "symbols s1 = symbols s \<or> (\<exists>x. symbols s1 = symbols s @ [x])"
  using getSymbolForBrush_cases [OF assms(1), of s env k] assms(2)
  by (elim disjE exE conjE) auto

lemma getSymbolForOgrSymbol_symbols:
  assumes "getSymbolForOgrSymbol env tool k s = (r, s1)"
  shows "symbols s1 = symbols s \<or> (\<exists>x. symbols s1 = symbols s @ [x])"
  using getSymbolForOgrSymbol_cases [of s tool env k] assms
  by (elim disjE exE conjE) auto

lemma getSymbolForLabel_symbols:
  assumes "st_type tool = OGRSTCLabel" "getSymbolForLabel env tool k s = Inr (Some p, s1)"
  shows "(\<exists>x. symbols s1 = symbols s @ [x])
         \<or> (\<exists>d key. text_symbols s key = Some p
               \<and> symbols s1 = (symbols s)[p := (symbols s ! p)\<lparr>sym_description := d\<rparr>])"
  using getSymbolForLabel_cases [OF assms(1), of env k s] assms(2)
  by (elim disjE exE conjE) auto

lemma getSymbol_symbols:
  assumes "getSymbol env t k s = Inr (p, s1)"
  shows "symbols s1 = symbols s \<or> (\<exists>x. symbols s1 = symbols s @ [x])
         \<or> ((t = SymbolPoint \<or> t = SymbolText)
             \<and> (\<exists>d key. text_symbols s key = Some p
                   \<and> symbols s1 = (symbols s)[p := (symbols s ! p)\<lparr>sym_description := d\<rparr>]))"
proof -
  consider (point) "t = SymbolPoint \<or> t = SymbolText" | (line) "t = SymbolLine \<or> t = SymbolCombined"
    | (area) "t = SymbolArea" | (none) "t = NoSymbol \<or> t = AllSymbols"
    by (cases t) auto
  then show ?thesis
  proof cases
    case point
    then have g: "getSymbol env SymbolPoint k s = Inr (p, s1)"
      using assms by (auto simp: getSymbol_kinds)
    show ?thesis
    proof (cases "point_symbols s k")
      case (Some q)
      then show ?thesis using g by (simp add: getSymbol_def)
    next
      case None
      then have o: "or_default (default_point_symbol s)
                   (point_symbol_of_parts env k (parts_of_style env k) s) = Inr (p, s1)"
        using g by (simp add: getSymbol_def getSymbolForPointGeometry_def)
      from point_symbol_of_parts_cases [of env k "parts_of_style env k" s]
      show ?thesis
      proof (elim disjE exE conjE)
        assume "point_symbol_of_parts env k (parts_of_style env k) s = Inr (None, s)"
        then show ?thesis using o by (simp add: or_default_def)
      next
        fix tool q s'
        assume a: "point_symbol_of_parts env k (parts_of_style env k) s = Inr (Some q, s')"
          and b: "getSymbolForOgrSymbol env tool k s = (Some q, s')"
        have "s1 = s'" using a o by (simp add: or_default_def)
        then show ?thesis using getSymbolForOgrSymbol_symbols [OF b] by auto
      next
        fix tool q s'
        assume a: "point_symbol_of_parts env k (parts_of_style env k) s = Inr (Some q, s')"
          and b: "st_type tool = OGRSTCLabel" "getSymbolForLabel env tool k s = Inr (Some q, s')"
        have "s1 = s' \<and> p = q" using a o by (simp add: or_default_def)
        then show ?thesis using getSymbolForLabel_symbols [OF b] point by auto
      qed
    qed
  next
    case line
    then have g: "getSymbol env SymbolLine k s = Inr (p, s1)"
      using assms by (auto simp: getSymbol_kinds)
    show ?thesis
    proof (cases "line_symbols s k")
      case (Some q)
      then show ?thesis using g by (simp add: getSymbol_def)
    next
      case None
      then have o: "or_default (default_line_symbol s)
                   (line_symbol_of_parts env k (parts_of_style env k) s) = Inr (p, s1)"
        using g by (simp add: getSymbol_def getLineSymbol_def)
      show ?thesis
      proof (cases "first_pen (parts_of_style env k)")
        case n: None
        then show ?thesis using o by (simp add: line_symbol_of_parts_first_pen or_default_def)
      next
        case (Some tool)
        note ty = first_pen_tool [OF Some]
        obtain q s' where b: "getSymbolForPen env tool k s = Inr (q, s')"
          using getSymbolForPen_ok [of tool env k s] ty by blast
        have "s1 = s'" using o Some b by (simp add: line_symbol_of_parts_first_pen or_default_def)
        then show ?thesis using getSymbolForPen_symbols [OF _ _ b] ty by auto
      qed
    qed
  next
    case area
    show ?thesis
    proof (cases "area_symbols s k")
      case (Some q)
      then show ?thesis using assms area by (simp add: getSymbol_def)
    next
      case None
      then have o: "or_default (default_area_symbol s)
                   (area_symbol_of_parts env k (parts_of_style env k) s) = Inr (p, s1)"
        using assms area by (simp add: getSymbol_def getAreaSymbol_def)
      from area_symbol_of_parts_cases [of env k "parts_of_style env k" s]
      show ?thesis
      proof (elim disjE exE conjE)
        assume "area_symbol_of_parts env k (parts_of_style env k) s = Inr (None, s)"
        then show ?thesis using o by (simp add: or_default_def)
      next
        fix tool q s'
        assume a: "area_symbol_of_parts env k (parts_of_style env k) s = Inr (Some q, s')"
          and b: "st_type tool = OGRSTCBrush" "getSymbolForBrush env tool k s = Inr (q, s')"
        have "s1 = s'" using a o by (simp add: or_default_def)
        then show ?thesis using getSymbolForBrush_symbols [OF b] by auto
      qed
    qed
  next
    case none
    then show ?thesis using assms by (auto simp: getSymbol_kinds)
  qed
qed


lemma nth_update_description:
  "q < length xs \<Longrightarrow>
   xs[p := (xs ! p)\<lparr>sym_description := d\<rparr>] ! q
     = (xs ! q)\<lparr>sym_description := sym_description (xs[p := (xs ! p)\<lparr>sym_description := d\<rparr>] ! q)\<rparr>"
  by (cases "q = p") simp_all

lemma getSymbol_symbols_cases:
  assumes "getSymbol env t k s = Inr (p, s1)"
  obtains (same) "symbols s1 = symbols s"
    | (new) x where "symbols s1 = symbols s @ [x]"
    | (label) d key where "t = SymbolPoint \<or> t = SymbolText" "text_symbols s key = Some p"
        "symbols s1 = (symbols s)[p := (symbols s ! p)\<lparr>sym_description := d\<rparr>]"
  using getSymbol_symbols [OF assms] by blast

lemma getSymbol_description_only:
  assumes "getSymbol env t k s = Inr (p, s1)"
  shows "length (symbols s) \<le> length (symbols s1)"
    and "q < length (symbols s) \<Longrightarrow> q \<noteq> p \<Longrightarrow> symbols s1 ! q = symbols s ! q"
    and "q < length (symbols s) \<Longrightarrow>
         symbols s1 ! q = (symbols s ! q)\<lparr>sym_description := sym_description (symbols s1 ! q)\<rparr>"
    and "t \<noteq> SymbolPoint \<Longrightarrow> t \<noteq> SymbolText \<Longrightarrow> q < length (symbols s) \<Longrightarrow>
         symbols s1 ! q = symbols s ! q"
proof -
  show "length (symbols s) \<le> length (symbols s1)"
    using assms by (cases rule: getSymbol_symbols_cases) simp_all
  show "symbols s1 ! q = symbols s ! q" if "q < length (symbols s)" "q \<noteq> p"
    using assms that by (cases rule: getSymbol_symbols_cases) (simp_all add: nth_append)
  show "symbols s1 ! q = (symbols s ! q)\<lparr>sym_description := sym_description (symbols s1 ! q)\<rparr>"
    if q: "q < length (symbols s)"
    using assms
  proof (cases rule: getSymbol_symbols_cases)
    case same
    then show ?thesis by simp
  next
    case (new x)
    then show ?thesis using q by (simp add: nth_append)
  next
    case (label d key)
    show ?thesis unfolding label(3) using q by (rule nth_update_description)
  qed
  show "symbols s1 ! q = symbols s ! q"
    if "t \<noteq> SymbolPoint" "t \<noteq> SymbolText" "q < length (symbols s)"
    using assms that by (cases rule: getSymbol_symbols_cases) (simp_all add: nth_append)
qed

lemma getSymbol_non_text:
  assumes "valid_importer s" "getSymbol env t k s = Inr (p, s1)"
    and "q < length (symbols s)" "sym_type (symbols s ! q) \<noteq> SymbolText"
  shows "symbols s1 ! q = symbols s ! q"
proof -
  show ?thesis
    using assms(2)
  proof (cases rule: getSymbol_symbols_cases)
    case same
    then show ?thesis by simp
  next
    case (new x)
    then show ?thesis using assms(3) by (simp add: nth_append)
  next
    case (label d key)
    have "sym_type (symbols s ! p) = SymbolText"
      using valid_importer_cached(4) [OF assms(1) label(2)] by (simp add: points_to_def)
    then have "q \<noteq> p" using assms(4) by auto
    then show ?thesis using label(3) by simp
  qed
qed

lemma lookups_description_only:
  "length (symbols s) \<le> length (symbols (lookups env requests s))
   \<and> (\<forall>q < length (symbols s).
         symbols (lookups env requests s) ! q
           = (symbols s ! q)\<lparr>sym_description := sym_description (symbols (lookups env requests s) ! q)\<rparr>)"
proof (induction requests arbitrary: s)
  case Nil
  then show ?case by simp
next
  case (Cons a requests)
  obtain t k where a: "a = (t, k)" by (cases a)
  show ?case
  proof (cases "getSymbol env t k s")
    case (Inl e)
    then show ?thesis using Cons.IH [of s] a by simp
  next
    case (Inr x)
    obtain p s1 where x: "x = (p, s1)" by (cases x)
    have g: "getSymbol env t k s = Inr (p, s1)" using Inr x by simp
    have l: "lookups env (a # requests) s = lookups env requests s1"
      using g a by simp
    note st = getSymbol_description_only(1,3) [OF g]
    note ih = Cons.IH [of s1]
    have "length (symbols s) \<le> length (symbols (lookups env requests s1))"
      using st(1) ih by simp
    moreover have "symbols (lookups env requests s1) ! q
           = (symbols s ! q)\<lparr>sym_description := sym_description (symbols (lookups env requests s1) ! q)\<rparr>"
      if q: "q < length (symbols s)" for q
    proof -
      have q1: "q < length (symbols s1)" using q st(1) by simp
      have "symbols (lookups env requests s1) ! q
           = (symbols s1 ! q)\<lparr>sym_description := sym_description (symbols (lookups env requests s1) ! q)\<rparr>"
        using ih q1 by simp
      also have "symbols s1 ! q
           = (symbols s ! q)\<lparr>sym_description := sym_description (symbols s1 ! q)\<rparr>"
        using st(2) [OF q] .
      finally show ?thesis by simp
    qed
    ultimately show ?thesis unfolding l by simp
  qed
qed

lemma lookups_non_text:
  "valid_importer s \<Longrightarrow>
   valid_importer (lookups env requests s)
   \<and> (\<forall>q < length (symbols s). sym_type (symbols s ! q) \<noteq> SymbolText \<longrightarrow>
         symbols (lookups env requests s) ! q = symbols s ! q)"
proof (induction requests arbitrary: s)
  case Nil
  then show ?case by simp
next
  case (Cons a requests)
  obtain t k where a: "a = (t, k)" by (cases a)
  show ?case
  proof (cases "getSymbol env t k s")
    case (Inl e)
    then show ?thesis using Cons.IH [of s] Cons.prems a by simp
  next
    case (Inr x)
    obtain p s1 where x: "x = (p, s1)" by (cases x)
    have g: "getSymbol env t k s = Inr (p, s1)" using Inr x by simp
    have l: "lookups env (a # requests) s = lookups env requests s1"
      using g a by simp
    have v1: "valid_importer s1" using getSymbol_valid [OF Cons.prems g] by simp
    note ih = Cons.IH [OF v1]
    have le: "length (symbols s) \<le> length (symbols s1)"
      using getSymbol_description_only(1) [OF g] .
    have "symbols (lookups env requests s1) ! q = symbols s ! q"
      if q: "q < length (symbols s)" and nt: "sym_type (symbols s ! q) \<noteq> SymbolText" for q
    proof -
      have e: "symbols s1 ! q = symbols s ! q"
        using getSymbol_non_text [OF Cons.prems g q nt] .
      have "q < length (symbols s1)" using q le by simp
      moreover have "sym_type (symbols s1 ! q) \<noteq> SymbolText" using e nt by simp
      ultimately have "symbols (lookups env requests s1) ! q = symbols s1 ! q"
        using ih by simp
      then show ?thesis using e by simp
    qed
    then show ?thesis unfolding l using ih by simp
  qed
qed


text \<open>The definitions which a concrete run of a symbol lookup unfolds.\<close>

lemmas demo_eval = getSymbol_def getSymbolForPointGeometry_def getLineSymbol_def getAreaSymbol_def
  parts_of_style_def or_default_def demo_env_def demo_style_parts_def demo_tool_def
  OGR_ST_SetUnit_def getSymbolForPen_def getSymbolForBrush_def getSymbolForOgrSymbol_def
  getSymbolForLabel_def cached_of_type_def applyPenColor_def applyBrushColor_def makeColor_def
  hash_value_def demo_rgb_def applyPenWidth_def applyPenCap_def applyPenJoin_def
  applyPenPattern_def addSymbol_def addColor_def insert_at_def demo_fresh_def demo_importer_def
  OgrFileImport_def Let_def c_str_def label_description_def qBound_def number_int_def
  number_nat.simps digit_char_def demo_georef_def

text \<open>
  C6, as stated, fails: the text symbol created for a first label is found again for a
  second label of the same color and size, and the lookup writes the new label into its
  description.
\<close>

theorem label_lookup_rewrites_description:
  "result_symbol (getSymbol demo_env SymbolPoint ''LABEL(c:#FF0000,t:A,p:5)'' demo_importer) = Some 4
   \<and> sym_description (symbols (lookups demo_env
         [(SymbolPoint, ''LABEL(c:#FF0000,t:A,p:5)'')] demo_importer) ! 4) = ''1050 A''
   \<and> sym_description (symbols (lookups demo_env
         [(SymbolPoint, ''LABEL(c:#FF0000,t:A,p:5)''),
          (SymbolPoint, ''LABEL(c:#FF0000,t:B,p:5)'')] demo_importer) ! 4) = ''1050 B''"
  by (simp add: result_symbol_def demo_eval)

text \<open>
  C6, amended: a symbol lookup leaves every attribute of every symbol created before
  unchanged, except the description of the symbol it returns, which a label lookup
  rewrites; lookups for lines and areas change no earlier symbol at all, and in a
  well-formed importer only text symbols are touched. The same holds for every sequence
  of lookups.
\<close>

theorem symbols_change_only_in_description:
  "(getSymbol env t k s = Inr (p, s1) \<longrightarrow>
      length (symbols s) \<le> length (symbols s1)
      \<and> (\<forall>q < length (symbols s). q \<noteq> p \<longrightarrow> symbols s1 ! q = symbols s ! q)
      \<and> (\<forall>q < length (symbols s).
            symbols s1 ! q = (symbols s ! q)\<lparr>sym_description := sym_description (symbols s1 ! q)\<rparr>)
      \<and> (t \<noteq> SymbolPoint \<and> t \<noteq> SymbolText \<longrightarrow>
            (\<forall>q < length (symbols s). symbols s1 ! q = symbols s ! q)))
   \<and> (valid_importer s \<and> getSymbol env t k s = Inr (p, s1) \<longrightarrow>
        (\<forall>q < length (symbols s). sym_type (symbols s ! q) \<noteq> SymbolText \<longrightarrow>
           symbols s1 ! q = symbols s ! q))
   \<and> length (symbols s) \<le> length (symbols (lookups env requests s))
   \<and> (\<forall>q < length (symbols s).
         symbols (lookups env requests s) ! q
           = (symbols s ! q)\<lparr>sym_description :=
                sym_description (symbols (lookups env requests s) ! q)\<rparr>)
   \<and> (valid_importer s \<longrightarrow>
        (\<forall>q < length (symbols s). sym_type (symbols s ! q) \<noteq> SymbolText \<longrightarrow>
           symbols (lookups env requests s) ! q = symbols s ! q))"
proof (intro conjI impI allI)
  assume g: "getSymbol env t k s = Inr (p, s1)"
  show "length (symbols s) \<le> length (symbols s1)"
    using g by (rule getSymbol_description_only(1))
next
  fix q
  assume g: "getSymbol env t k s = Inr (p, s1)" and "q < length (symbols s)" "q \<noteq> p"
  then show "symbols s1 ! q = symbols s ! q"
    by (rule getSymbol_description_only(2))
next
  fix q
  assume g: "getSymbol env t k s = Inr (p, s1)" and "q < length (symbols s)"
  then show "symbols s1 ! q = (symbols s ! q)\<lparr>sym_description := sym_description (symbols s1 ! q)\<rparr>"
    by (rule getSymbol_description_only(3))
next
  fix q
  assume g: "getSymbol env t k s = Inr (p, s1)" and "t \<noteq> SymbolPoint \<and> t \<noteq> SymbolText"
    and "q < length (symbols s)"
  then show "symbols s1 ! q = symbols s ! q"
    using getSymbol_description_only(4) [OF g, of q] by simp
next
  fix q
  assume "valid_importer s \<and> getSymbol env t k s = Inr (p, s1)" "q < length (symbols s)"
    "sym_type (symbols s ! q) \<noteq> SymbolText"
  then show "symbols s1 ! q = symbols s ! q"
    using getSymbol_non_text [of s env t k p s1 q] by simp
next
  show "length (symbols s) \<le> length (symbols (lookups env requests s))"
    using lookups_description_only [of s env requests] by (rule conjunct1)
next
  fix q
  assume "q < length (symbols s)"
  then show "symbols (lookups env requests s) ! q
           = (symbols s ! q)\<lparr>sym_description :=
                sym_description (symbols (lookups env requests s) ! q)\<rparr>"
    using lookups_description_only [of s env requests] by simp
next
  fix q
  assume "valid_importer s" "q < length (symbols s)" "sym_type (symbols s ! q) \<noteq> SymbolText"
  then show "symbols (lookups env requests s) ! q = symbols s ! q"
    using lookups_non_text [of s env requests] by simp
qed

theorem symbols_change_only_in_description_witness:
  "valid_importer demo_importer
   \<and> (1::nat) < length (symbols demo_importer)
   \<and> sym_type (symbols demo_importer ! 1) \<noteq> SymbolText
   \<and> symbols (lookups demo_env
        [(SymbolLine, ''PEN(c:#FF0000)''), (SymbolPoint, ''LABEL(c:#FF0000,t:A,p:5)''),
         (SymbolPoint, ''LABEL(c:#FF0000,t:B,p:5)'')] demo_importer) ! 1
       = symbols demo_importer ! 1
   \<and> (\<exists>p s1. getSymbol demo_env SymbolLine ''PEN(c:#FF0000)'' demo_importer = Inr (p, s1)
         \<and> symbols s1 ! 1 = symbols demo_importer ! 1)"
proof -
  have v: "valid_importer demo_importer"
    unfolding demo_importer_def by (rule valid_importer_fresh)
  have l: "(1::nat) < length (symbols demo_importer)"
    by (simp add: demo_importer_def OgrFileImport_def Let_def)
  have n: "sym_type (symbols demo_importer ! 1) \<noteq> SymbolText"
    by (simp add: demo_importer_def OgrFileImport_def Let_def)
  note th = symbols_change_only_in_description
      [where s = demo_importer and env = demo_env
         and requests = "[(SymbolLine, ''PEN(c:#FF0000)''),
            (SymbolPoint, ''LABEL(c:#FF0000,t:A,p:5)''),
            (SymbolPoint, ''LABEL(c:#FF0000,t:B,p:5)'')]"]
  note th5 = th [THEN conjunct2, THEN conjunct2, THEN conjunct2, THEN conjunct2, rule_format]
  note a = th5 [OF v l n]
  obtain p s1 where g: "getSymbol demo_env SymbolLine ''PEN(c:#FF0000)'' demo_importer = Inr (p, s1)"
    using getSymbol_ok [of SymbolLine demo_env "''PEN(c:#FF0000)''" demo_importer] by auto
  note th1 = symbols_change_only_in_description
      [where s = demo_importer and env = demo_env and t = SymbolLine and k = "''PEN(c:#FF0000)''"
         and p = p and ?s1.0 = s1, THEN conjunct1, rule_format, OF g,
       THEN conjunct2, THEN conjunct2, THEN conjunct2, rule_format]
  have c: "symbols s1 ! 1 = symbols demo_importer ! 1"
    by (rule th1 [OF _ l]) simp
  have d: "\<exists>p s1. getSymbol demo_env SymbolLine ''PEN(c:#FF0000)'' demo_importer = Inr (p, s1)
         \<and> symbols s1 ! 1 = symbols demo_importer ! 1"
    using g c by (intro exI [of _ p] exI [of _ s1] conjI)
  show ?thesis
    using v l n a d by (intro conjI)
qed

section \<open>The label in the style string of an exported text\<close>

text \<open>
  The style string of a text symbol holds the placeholder once, after a prefix without
  braces, so that its replacement puts the text between the quotation marks.
\<close>

lemma replace_from_prefix:
  "CHR ''{'' \<notin> set pre \<Longrightarrow>
     replace_from 0 ''{Name}'' after (pre @ rest) = pre @ replace_from 0 ''{Name}'' after rest"
  by (induction pre) auto

lemma replace_Name:
  assumes "CHR ''{'' \<notin> set pre"
  shows "replace ''{Name}'' after (pre @ ''{Name}'' @ [CHR 0x22] @ '')'')
           = pre @ after @ [CHR 0x22] @ '')''"
  using assms by (simp add: replace_def replace_from_prefix)

lemma escape_text_length: "length str \<le> length (escape_text str)"
  unfolding escape_text_def by (induction str) auto

lemma escape_text_plain:
  "\<forall>c \<in> set str. c \<noteq> CHR 0x22 \<and> c \<noteq> CHR 0x5C \<Longrightarrow> escape_text str = str"
  unfolding escape_text_def by (induction str) auto

lemma text_feature_style:
  "ef_style (text_feature xenv x layer object)
     = (if o_name_field x = None \<or> 32 < length (te_text object)
        then replace ''{Name}'' (toUtf8 xenv (escape_text (te_text object)))
               (c_str (table x (te_symbol_id object)))
        else c_str (table x (te_symbol_id object)))"
  by (simp add: text_feature_def Let_def)

lemma makeStyleString_text_replace:
  assumes "CHR ''{'' \<notin> set (rgb @ family @ fs)"
  shows "replace ''{Name}'' after (makeStyleString_text rgb family fs)
     = ''LABEL(c:'' @ rgb @ '',f:'' @ [CHR 0x22] @ family @ [CHR 0x22] @ '',s:'' @ fs
            @ ''mm'' @ '',t:'' @ [CHR 0x22] @ after @ [CHR 0x22] @ '')''"
proof -
  define pre where "pre = ''LABEL(c:'' @ rgb @ '',f:'' @ [CHR 0x22] @ family @ [CHR 0x22] @ '',s:'' @ fs
            @ ''mm'' @ '',t:'' @ [CHR 0x22]"
  have p: "CHR ''{'' \<notin> set pre"
    using assms by (simp add: pre_def)
  have m: "makeStyleString_text rgb family fs = pre @ ''{Name}'' @ [CHR 0x22] @ '')''"
    by (simp add: makeStyleString_text_def pre_def)
  show ?thesis
    unfolding m replace_Name [OF p] by (simp add: pre_def)
qed

text \<open>
  Claim C7. For a text object whose label is longer than 32 characters, or when the
  exporter has no dedicated name field, the style string of the exported feature is the
  style string of the symbol with every placeholder \<^verbatim>\<open>{Name}\<close> replaced by the encoded
  escaped label; for the style string which \<^verbatim>\<open>makeStyleString\<close> builds for a text symbol
  this puts the whole escaped label between the quotation marks of the text parameter.
  Escaping never shortens the label and leaves a label without quotation marks and
  backslashes as it is. With a name field and a label of at most 32 characters the style
  string stays as the table has it. The feature is appended to the layer unless the
  driver refuses it.
\<close>

theorem addTextToLayer_embeds_label:
  "(o_name_field x = None \<or> 32 < length (te_text object) \<longrightarrow>
      ef_style (text_feature xenv x layer object)
        = replace ''{Name}'' (toUtf8 xenv (escape_text (te_text object)))
            (c_str (table x (te_symbol_id object))))
   \<and> (o_name_field x = None \<or> 32 < length (te_text object) \<longrightarrow>
        table x (te_symbol_id object) = Some (makeStyleString_text rgb family fs) \<longrightarrow>
        CHR ''{'' \<notin> set (rgb @ family @ fs) \<longrightarrow>
        ef_style (text_feature xenv x layer object)
          = ''LABEL(c:'' @ rgb @ '',f:'' @ [CHR 0x22] @ family @ [CHR 0x22] @ '',s:'' @ fs
            @ ''mm'' @ '',t:'' @ [CHR 0x22] @ toUtf8 xenv (escape_text (te_text object))
            @ [CHR 0x22] @ '')'')
   \<and> length (te_text object) \<le> length (escape_text (te_text object))
   \<and> ((\<forall>c \<in> set (te_text object). c \<noteq> CHR 0x22 \<and> c \<noteq> CHR 0x5C) \<longrightarrow>
        escape_text (te_text object) = te_text object)
   \<and> (o_name_field x \<noteq> None \<and> length (te_text object) \<le> 32 \<longrightarrow>
        ef_style (text_feature xenv x layer object) = c_str (table x (te_symbol_id object)))
   \<and> (\<not> create_feature_fails xenv (text_feature xenv x layer object) \<longrightarrow>
        addTextToLayer xenv x [object] layer
          = Inr (layer\<lparr>el_features := el_features layer @ [text_feature xenv x layer object]\<rparr>))"
proof (intro conjI impI)
  assume "o_name_field x = None \<or> 32 < length (te_text object)"
  then show "ef_style (text_feature xenv x layer object)
        = replace ''{Name}'' (toUtf8 xenv (escape_text (te_text object)))
            (c_str (table x (te_symbol_id object)))"
    by (simp add: text_feature_style)
next
  assume a: "o_name_field x = None \<or> 32 < length (te_text object)"
    and t: "table x (te_symbol_id object) = Some (makeStyleString_text rgb family fs)"
    and n: "CHR ''{'' \<notin> set (rgb @ family @ fs)"
  have "ef_style (text_feature xenv x layer object)
      = replace ''{Name}'' (toUtf8 xenv (escape_text (te_text object)))
          (makeStyleString_text rgb family fs)"
    using a t by (simp add: text_feature_style c_str_def)
  then show "ef_style (text_feature xenv x layer object)
          = ''LABEL(c:'' @ rgb @ '',f:'' @ [CHR 0x22] @ family @ [CHR 0x22] @ '',s:'' @ fs
            @ ''mm'' @ '',t:'' @ [CHR 0x22] @ toUtf8 xenv (escape_text (te_text object))
            @ [CHR 0x22] @ '')''"
    by (simp only: makeStyleString_text_replace [OF n])
next
  show "length (te_text object) \<le> length (escape_text (te_text object))"
    by (rule escape_text_length)
next
  assume "\<forall>c \<in> set (te_text object). c \<noteq> CHR 0x22 \<and> c \<noteq> CHR 0x5C"
  then show "escape_text (te_text object) = te_text object"
    by (rule escape_text_plain)
next
  assume "o_name_field x \<noteq> None \<and> length (te_text object) \<le> 32"
  then show "ef_style (text_feature xenv x layer object) = c_str (table x (te_symbol_id object))"
    by (auto simp add: text_feature_style)
next
  assume "\<not> create_feature_fails xenv (text_feature xenv x layer object)"
  then show "addTextToLayer xenv x [object] layer
          = Inr (layer\<lparr>el_features := el_features layer @ [text_feature xenv x layer object]\<rparr>)"
    by (simp add: Let_def)
qed

theorem addTextToLayer_embeds_label_witness:
  "length (te_text demo_text) = 40
   \<and> o_name_field demo_exporter = Some ''Name''
   \<and> table demo_exporter (te_symbol_id demo_text) = Some (makeStyleString_text ''#FF0000'' ''Arial'' ''4'')
   \<and> ef_style (text_feature demo_export_env demo_exporter demo_layer demo_text)
       = ''LABEL(c:#FF0000,f:'' @ [CHR 0x22] @ ''Arial'' @ [CHR 0x22] @ '',s:4mm,t:'' @ [CHR 0x22]
         @ ''The oak '' @ [CHR 0x5C, CHR 0x22] @ ''north'' @ [CHR 0x5C, CHR 0x22]
         @ '' of the crossing is tall.'' @ [CHR 0x22] @ '')''
   \<and> (\<exists>layer. addTextToLayer demo_export_env demo_exporter [demo_text] demo_layer = Inr layer
         \<and> map ef_style (el_features layer)
            = [ef_style (text_feature demo_export_env demo_exporter demo_layer demo_text)])"
proof -
  have l: "length (te_text demo_text) = 40"
    by (simp add: demo_text_def)
  have n: "o_name_field demo_exporter = Some ''Name''"
    by (simp add: demo_exporter_def)
  have t: "table demo_exporter (te_symbol_id demo_text) = Some (makeStyleString_text ''#FF0000'' ''Arial'' ''4'')"
    by (simp add: demo_exporter_def demo_text_def)
  note th = addTextToLayer_embeds_label
      [where x = demo_exporter and object = demo_text and xenv = demo_export_env
         and layer = demo_layer and rgb = "''#FF0000''" and family = "''Arial''" and fs = "''4''"]
  have a: "o_name_field demo_exporter = None \<or> 32 < length (te_text demo_text)"
    using l by simp
  have c: "CHR ''{'' \<notin> set (''#FF0000'' @ ''Arial'' @ ''4'')"
    by simp
  note s = th [THEN conjunct2, THEN conjunct1, rule_format, OF a t c]
  have e: "toUtf8 demo_export_env (escape_text (te_text demo_text))
      = ''The oak '' @ [CHR 0x5C, CHR 0x22] @ ''north'' @ [CHR 0x5C, CHR 0x22]
         @ '' of the crossing is tall.''"
    by (simp add: demo_export_env_def escape_text_def demo_text_def)
  have s1: "ef_style (text_feature demo_export_env demo_exporter demo_layer demo_text)
       = ''LABEL(c:#FF0000,f:'' @ [CHR 0x22] @ ''Arial'' @ [CHR 0x22] @ '',s:4mm,t:'' @ [CHR 0x22]
         @ ''The oak '' @ [CHR 0x5C, CHR 0x22] @ ''north'' @ [CHR 0x5C, CHR 0x22]
         @ '' of the crossing is tall.'' @ [CHR 0x22] @ '')''"
    unfolding s e by simp
  have f: "\<not> create_feature_fails demo_export_env (text_feature demo_export_env demo_exporter demo_layer demo_text)"
    by (simp add: demo_export_env_def)
  note g = th [THEN conjunct2, THEN conjunct2, THEN conjunct2, THEN conjunct2, THEN conjunct2,
               rule_format, OF f]
  have h: "\<exists>layer. addTextToLayer demo_export_env demo_exporter [demo_text] demo_layer = Inr layer
         \<and> map ef_style (el_features layer)
            = [ef_style (text_feature demo_export_env demo_exporter demo_layer demo_text)]"
    unfolding g by (simp add: demo_layer_def)
  show ?thesis
    using l n t s1 h by (intro conjI)
qed

section \<open>The color cache and the driver\<close>

lemma color_strings_mem: "c \<in> set (color_strings (c_str c))"
  by (cases c) (simp_all add: color_strings_def c_str_def)

lemma color_strings_Some:
  "color_string \<noteq> [] \<Longrightarrow> undecodable env color_string = (rgb_from_string env (Some color_string) = None)"
  by (simp add: undecodable_def color_strings_def)

lemma cached_colors_decoded_frame:
  "colors s1 = colors s \<Longrightarrow> default_pen_color s1 = default_pen_color s \<Longrightarrow>
   cached_colors_decoded env s1 = cached_colors_decoded env s"
  by (simp add: cached_colors_decoded_def)

lemma cached_colors_decoded_insert:
  assumes "cached_colors_decoded env s"
    and "colors s1 = (colors s)(c_str c \<mapsto> v)" "default_pen_color s1 = default_pen_color s"
    and "\<And>color. v = Some color \<Longrightarrow>
           rgb_from_string env c = None \<and> color = default_pen_color s \<or> opaque env c"
  shows "cached_colors_decoded env s1"
  unfolding cached_colors_decoded_def
proof (intro allI impI)
  fix key color
  assume h: "colors s1 key = Some (Some color)"
  show "list_ex (\<lambda>c. rgb_from_string env c = None \<and> color = default_pen_color s1 \<or> opaque env c)
          (color_strings key)"
  proof (cases "key = c_str c")
    case True
    then have "v = Some color" using h assms(2) by simp
    then have "rgb_from_string env c = None \<and> color = default_pen_color s1 \<or> opaque env c"
      using assms(4) [of color] assms(3) by simp
    then show ?thesis
      unfolding True list_ex_iff using color_strings_mem [of c] by (intro bexI [of _ c])
  next
    case False
    then have "colors s key = Some (Some color)" using h assms(2) by simp
    then show ?thesis
      using assms(1) assms(3) by (simp add: cached_colors_decoded_def)
  qed
qed

lemma makeColor_decoded:
  assumes "cached_colors_decoded env s" "makeColor env c s = (r, s1)"
  shows "cached_colors_decoded env s1"
  using makeColor_cases [OF assms(2)]
proof (elim disjE exE conjE)
  assume "s1 = s"
  then show ?thesis using assms(1) by simp
next
  assume h: "rgb_from_string env c = None"
    "s1 = s\<lparr>colors := (colors s)(c_str c \<mapsto> Some (default_pen_color s))\<rparr>"
  show ?thesis
    by (rule cached_colors_decoded_insert [OF assms(1), of s1 c "Some (default_pen_color s)"])
       (simp_all add: h)
next
  fix red green blue alpha
  assume h: "s1 = s\<lparr>colors := (colors s)(c_str c \<mapsto> None)\<rparr>"
  show ?thesis
    by (rule cached_colors_decoded_insert [OF assms(1), of s1 c None]) (simp_all add: h)
next
  fix red green blue alpha
  assume h: "rgb_from_string env c = Some (red, green, blue, alpha)" "0 < alpha"
    "s1 = s\<lparr>color_store := color_store s @
                          [\<lparr>col_name = c_str c, col_priority = length (map_colors s),
                            col_spot_name = [], col_spec = Rgb red green blue, col_opacity = None\<rparr>],
                        map_colors := map_colors s @ [length (color_store s)],
                        colors := (colors s)(c_str c \<mapsto> Some (length (color_store s)))\<rparr>"
  show ?thesis
    by (rule cached_colors_decoded_insert [OF assms(1), of s1 c "Some (length (color_store s))"])
       (simp_all add: h opaque_def)
qed

lemma makeColor_or_none_decoded:
  assumes "cached_colors_decoded env s" "(r, sm) = (None, s) \<or> makeColor env c s = (r, sm)"
  shows "cached_colors_decoded env sm \<and> default_pen_color sm = default_pen_color s"
proof -
  from assms(2) consider (a) "sm = s" | (b) "makeColor env c s = (r, sm)" by auto
  then show ?thesis
  proof cases
    case a
    then show ?thesis using assms(1) by simp
  next
    case b
    then show ?thesis
      using makeColor_decoded [OF assms(1) b] makeColor_outside [OF b]
      by (simp add: same_outside_styles_def)
  qed
qed

lemma getSymbolForPen_decoded:
  assumes "cached_colors_decoded env s" "st_type tool = OGRSTCPen" "st_unit tool = OGRSTUMM"
    and "getSymbolForPen env tool k s = Inr (p, s1)"
  shows "cached_colors_decoded env s1"
proof -
  have tail: "cached_colors_decoded env s1"
    if m: "(r, sm) = (None, s) \<or> makeColor env c s = (r, sm)"
      and g: "getSymbolForPen env tool k s =
                  Inr (length (symbols s),
                       sm\<lparr>symbols := symbols s @ [ls],
                          line_symbols := (line_symbols s)
                             (k \<mapsto> length (symbols s), st_style_string tool \<mapsto> length (symbols s)),
                          map_symbols := map_symbols s @ [length (symbols s)]\<rparr>)"
    for ls c r sm
  proof -
    have c: "cached_colors_decoded env sm"
      using makeColor_or_none_decoded [OF assms(1) m] by simp
    have e: "s1 = sm\<lparr>symbols := symbols s @ [ls],
                          line_symbols := (line_symbols s)
                             (k \<mapsto> length (symbols s), st_style_string tool \<mapsto> length (symbols s)),
                          map_symbols := map_symbols s @ [length (symbols s)]\<rparr>"
      using g assms(4) by simp
    have "cached_colors_decoded env s1 = cached_colors_decoded env sm"
      by (rule cached_colors_decoded_frame) (simp_all add: e)
    then show ?thesis using c by simp
  qed
  from getSymbolForPen_cases [OF assms(2,3), of s env k]
  show ?thesis
  proof (elim disjE exE conjE)
    fix q
    assume "getSymbolForPen env tool k s = Inr (q, s)"
    then show ?thesis using assms by simp
  next
    fix ls :: symbol and c :: "string option" and r :: "color_ref option" and sm :: importer
    assume n: "(r, sm) = (None, s)"
      and g: "getSymbolForPen env tool k s =
                  Inr (length (symbols s),
                       sm\<lparr>symbols := symbols s @ [ls],
                          line_symbols := (line_symbols s)
                             (k \<mapsto> length (symbols s), st_style_string tool \<mapsto> length (symbols s)),
                          map_symbols := map_symbols s @ [length (symbols s)]\<rparr>)"
    show ?thesis
      by (rule tail [of r sm c, OF _ g]) (simp add: n)
  next
    fix ls c r sm
    assume n: "makeColor env c s = (r, sm)"
      and g: "getSymbolForPen env tool k s =
                  Inr (length (symbols s),
                       sm\<lparr>symbols := symbols s @ [ls],
                          line_symbols := (line_symbols s)
                             (k \<mapsto> length (symbols s), st_style_string tool \<mapsto> length (symbols s)),
                          map_symbols := map_symbols s @ [length (symbols s)]\<rparr>)"
    show ?thesis
      by (rule tail [of r sm c, OF _ g]) (simp add: n)
  qed
qed

lemma getSymbolForBrush_decoded:
  assumes "cached_colors_decoded env s" "st_type tool = OGRSTCBrush"
    and "getSymbolForBrush env tool k s = Inr (p, s1)"
  shows "cached_colors_decoded env s1"
proof -
  have tail: "cached_colors_decoded env s1"
    if m: "(r, sm) = (None, s) \<or> makeColor env c s = (r, sm)"
      and g: "getSymbolForBrush env tool k s =
                  Inr (length (symbols s),
                       sm\<lparr>symbols := symbols s @ [as1],
                          area_symbols := (area_symbols s)
                             (k \<mapsto> length (symbols s), st_style_string tool \<mapsto> length (symbols s)),
                          map_symbols := map_symbols s @ [length (symbols s)]\<rparr>)"
    for as1 c r sm
  proof -
    have c: "cached_colors_decoded env sm"
      using makeColor_or_none_decoded [OF assms(1) m] by simp
    have e: "s1 = sm\<lparr>symbols := symbols s @ [as1],
                          area_symbols := (area_symbols s)
                             (k \<mapsto> length (symbols s), st_style_string tool \<mapsto> length (symbols s)),
                          map_symbols := map_symbols s @ [length (symbols s)]\<rparr>"
      using g assms(3) by simp
    have "cached_colors_decoded env s1 = cached_colors_decoded env sm"
      by (rule cached_colors_decoded_frame) (simp_all add: e)
    then show ?thesis using c by simp
  qed
  from getSymbolForBrush_cases [OF assms(2), of s env k]
  show ?thesis
  proof (elim disjE exE conjE)
    fix q
    assume "getSymbolForBrush env tool k s = Inr (q, s)"
    then show ?thesis using assms by simp
  next
    fix as1 :: symbol and c :: "string option" and r :: "color_ref option" and sm :: importer
    assume n: "(r, sm) = (None, s)"
      and g: "getSymbolForBrush env tool k s =
                  Inr (length (symbols s),
                       sm\<lparr>symbols := symbols s @ [as1],
                          area_symbols := (area_symbols s)
                             (k \<mapsto> length (symbols s), st_style_string tool \<mapsto> length (symbols s)),
                          map_symbols := map_symbols s @ [length (symbols s)]\<rparr>)"
    show ?thesis
      by (rule tail [of r sm c, OF _ g]) (simp add: n)
  next
    fix as1 c r sm
    assume n: "makeColor env c s = (r, sm)"
      and g: "getSymbolForBrush env tool k s =
                  Inr (length (symbols s),
                       sm\<lparr>symbols := symbols s @ [as1],
                          area_symbols := (area_symbols s)
                             (k \<mapsto> length (symbols s), st_style_string tool \<mapsto> length (symbols s)),
                          map_symbols := map_symbols s @ [length (symbols s)]\<rparr>)"
    show ?thesis
      by (rule tail [of r sm c, OF _ g]) (simp add: n)
  qed
qed

lemma getSymbolForOgrSymbol_decoded:
  assumes "cached_colors_decoded env s" "getSymbolForOgrSymbol env tool k s = (r, s1)"
  shows "cached_colors_decoded env s1"
  using getSymbolForOgrSymbol_cases [of s tool env k]
proof (elim disjE exE conjE)
  fix q
  assume "getSymbolForOgrSymbol env tool k s = (Some q, s)"
  then show ?thesis using assms by simp
next
  assume "getSymbolForOgrSymbol env tool k s = (None, s)"
  then show ?thesis using assms by simp
next
  fix ps c r' sm
  assume m: "makeColor env c s = (r', sm)"
    and g: "getSymbolForOgrSymbol env tool k s =
               (Some (length (symbols s)),
                sm\<lparr>symbols := symbols s @ [ps],
                   point_symbols := (point_symbols s)
                      (k \<mapsto> length (symbols s), st_style_string tool \<mapsto> length (symbols s)),
                   map_symbols := map_symbols s @ [length (symbols s)]\<rparr>)"
  have c: "cached_colors_decoded env sm"
    by (rule makeColor_decoded [OF assms(1) m])
  have e: "s1 = sm\<lparr>symbols := symbols s @ [ps],
                   point_symbols := (point_symbols s)
                      (k \<mapsto> length (symbols s), st_style_string tool \<mapsto> length (symbols s)),
                   map_symbols := map_symbols s @ [length (symbols s)]\<rparr>"
    using g assms(2) by simp
  have "cached_colors_decoded env s1 = cached_colors_decoded env sm"
    by (rule cached_colors_decoded_frame) (simp_all add: e)
  then show ?thesis using c by simp
qed

lemma getSymbolForLabel_decoded:
  assumes "cached_colors_decoded env s" "st_type tool = OGRSTCLabel"
    and "getSymbolForLabel env tool k s = Inr (r, s1)"
  shows "cached_colors_decoded env s1"
  using getSymbolForLabel_cases [OF assms(2), of env k s]
proof (elim disjE exE conjE)
  assume "getSymbolForLabel env tool k s = Inr (None, s)"
  then show ?thesis using assms by simp
next
  fix label q
  assume "getSymbolForLabel env tool k s =
               Inr (Some q,
                    s\<lparr>symbols := (symbols s)
                        [q := (symbols s ! q)\<lparr>sym_description := label_description env tool label\<rparr>]\<rparr>)"
  then have e: "s1 = s\<lparr>symbols := (symbols s)
                        [q := (symbols s ! q)\<lparr>sym_description := label_description env tool label\<rparr>]\<rparr>"
    using assms(3) by simp
  have "cached_colors_decoded env s1 = cached_colors_decoded env s"
    by (rule cached_colors_decoded_frame) (simp_all add: e)
  then show ?thesis using assms(1) by simp
next
  fix label ts r' sm
  assume m: "makeColor env (st_param_str tool OGRSTLabelFColor) s = (r', sm)"
    and g: "getSymbolForLabel env tool k s =
               Inr (Some (length (symbols s)),
                    sm\<lparr>symbols := symbols s @ [ts],
                       text_symbols := (text_symbols s)
                          (c_str (st_param_str tool OGRSTLabelFColor)
                             @ c_str (st_param_str tool OGRSTLabelSize) \<mapsto> length (symbols s)),
                       map_symbols := map_symbols s @ [length (symbols s)]\<rparr>)"
  have c: "cached_colors_decoded env sm"
    by (rule makeColor_decoded [OF assms(1) m])
  have e: "s1 = sm\<lparr>symbols := symbols s @ [ts],
                       text_symbols := (text_symbols s)
                          (c_str (st_param_str tool OGRSTLabelFColor)
                             @ c_str (st_param_str tool OGRSTLabelSize) \<mapsto> length (symbols s)),
                       map_symbols := map_symbols s @ [length (symbols s)]\<rparr>"
    using g assms(3) by simp
  have "cached_colors_decoded env s1 = cached_colors_decoded env sm"
    by (rule cached_colors_decoded_frame) (simp_all add: e)
  then show ?thesis using c by simp
qed

text \<open>
  A lookup which changes the importer has created or rewritten its symbol with one of the
  four functions for the tools.
\<close>

lemma getSymbol_tool_cases:
  assumes "getSymbol env t k s = Inr (p, s1)"
  obtains (same) "s1 = s"
    | (pen) tool where "st_type tool = OGRSTCPen" "st_unit tool = OGRSTUMM"
        "getSymbolForPen env tool k s = Inr (p, s1)"
    | (brush) tool where "st_type tool = OGRSTCBrush" "getSymbolForBrush env tool k s = Inr (p, s1)"
    | (ogr) tool where "getSymbolForOgrSymbol env tool k s = (Some p, s1)"
    | (label) tool where "st_type tool = OGRSTCLabel" "getSymbolForLabel env tool k s = Inr (Some p, s1)"
proof -
  consider (point) "t = SymbolPoint \<or> t = SymbolText" | (line) "t = SymbolLine \<or> t = SymbolCombined"
    | (area) "t = SymbolArea" | (none) "t = NoSymbol \<or> t = AllSymbols"
    by (cases t) auto
  then show ?thesis
  proof cases
    case point
    then have g: "getSymbol env SymbolPoint k s = Inr (p, s1)"
      using assms by (auto simp: getSymbol_kinds)
    show ?thesis
    proof (cases "point_symbols s k")
      case (Some q)
      then have "s1 = s" using g by (simp add: getSymbol_def)
      then show ?thesis by (rule same)
    next
      case None
      then have o: "or_default (default_point_symbol s)
                   (point_symbol_of_parts env k (parts_of_style env k) s) = Inr (p, s1)"
        using g by (simp add: getSymbol_def getSymbolForPointGeometry_def)
      from point_symbol_of_parts_cases [of env k "parts_of_style env k" s]
      show ?thesis
      proof (elim disjE exE conjE)
        assume "point_symbol_of_parts env k (parts_of_style env k) s = Inr (None, s)"
        then have "s1 = s" using o by (simp add: or_default_def)
        then show ?thesis by (rule same)
      next
        fix tool q s'
        assume a: "point_symbol_of_parts env k (parts_of_style env k) s = Inr (Some q, s')"
          and b: "getSymbolForOgrSymbol env tool k s = (Some q, s')"
        have "s1 = s' \<and> p = q" using a o by (simp add: or_default_def)
        then show ?thesis using b by (intro ogr [of tool]) simp
      next
        fix tool q s'
        assume a: "point_symbol_of_parts env k (parts_of_style env k) s = Inr (Some q, s')"
          and b: "st_type tool = OGRSTCLabel" "getSymbolForLabel env tool k s = Inr (Some q, s')"
        have "s1 = s' \<and> p = q" using a o by (simp add: or_default_def)
        then show ?thesis using b by (intro label [of tool]) simp_all
      qed
    qed
  next
    case line
    then have g: "getSymbol env SymbolLine k s = Inr (p, s1)"
      using assms by (auto simp: getSymbol_kinds)
    show ?thesis
    proof (cases "line_symbols s k")
      case (Some q)
      then have "s1 = s" using g by (simp add: getSymbol_def)
      then show ?thesis by (rule same)
    next
      case None
      then have o: "or_default (default_line_symbol s)
                   (line_symbol_of_parts env k (parts_of_style env k) s) = Inr (p, s1)"
        using g by (simp add: getSymbol_def getLineSymbol_def)
      show ?thesis
      proof (cases "first_pen (parts_of_style env k)")
        case n: None
        then have "s1 = s" using o by (simp add: line_symbol_of_parts_first_pen or_default_def)
        then show ?thesis by (rule same)
      next
        case (Some tool)
        note ty = first_pen_tool [OF Some]
        obtain q s' where e: "getSymbolForPen env tool k s = Inr (q, s')"
          using getSymbolForPen_ok [of tool env k s] ty by blast
        have "s1 = s' \<and> p = q"
          using o Some e by (simp add: line_symbol_of_parts_first_pen or_default_def)
        then show ?thesis using e ty by (intro pen [of tool]) simp_all
      qed
    qed
  next
    case area
    then have g: "getSymbol env SymbolArea k s = Inr (p, s1)"
      using assms by simp
    show ?thesis
    proof (cases "area_symbols s k")
      case (Some q)
      then have "s1 = s" using g by (simp add: getSymbol_def)
      then show ?thesis by (rule same)
    next
      case None
      then have o: "or_default (default_area_symbol s)
                   (area_symbol_of_parts env k (parts_of_style env k) s) = Inr (p, s1)"
        using g by (simp add: getSymbol_def getAreaSymbol_def)
      from area_symbol_of_parts_cases [of env k "parts_of_style env k" s]
      show ?thesis
      proof (elim disjE exE conjE)
        assume "area_symbol_of_parts env k (parts_of_style env k) s = Inr (None, s)"
        then have "s1 = s" using o by (simp add: or_default_def)
        then show ?thesis by (rule same)
      next
        fix tool q s'
        assume a: "area_symbol_of_parts env k (parts_of_style env k) s = Inr (Some q, s')"
          and b: "st_type tool = OGRSTCBrush" "getSymbolForBrush env tool k s = Inr (q, s')"
        have "s1 = s' \<and> p = q" using a o by (simp add: or_default_def)
        then show ?thesis using b by (intro brush [of tool]) simp_all
      qed
    qed
  next
    case none
    then show ?thesis using assms by (auto simp: getSymbol_kinds)
  qed
qed

lemma getSymbol_decoded:
  assumes "cached_colors_decoded env s" "getSymbol env t k s = Inr (p, s1)"
  shows "cached_colors_decoded env s1"
  using assms(2)
proof (cases rule: getSymbol_tool_cases)
  case same
  then show ?thesis using assms(1) by simp
next
  case (pen tool)
  then show ?thesis using getSymbolForPen_decoded [OF assms(1)] by blast
next
  case (brush tool)
  then show ?thesis using getSymbolForBrush_decoded [OF assms(1)] by blast
next
  case (ogr tool)
  then show ?thesis using getSymbolForOgrSymbol_decoded [OF assms(1)] by blast
next
  case (label tool)
  then show ?thesis using getSymbolForLabel_decoded [OF assms(1)] by blast
qed

lemma lookups_decoded:
  "cached_colors_decoded env s \<Longrightarrow> cached_colors_decoded env (lookups env requests s)"
proof (induction requests arbitrary: s)
  case Nil
  then show ?case by simp
next
  case (Cons a requests)
  obtain t k where a: "a = (t, k)" by (cases a)
  show ?case
  proof (cases "getSymbol env t k s")
    case (Inl e)
    then show ?thesis using Cons a by simp
  next
    case (Inr x)
    obtain p s1 where x: "x = (p, s1)" by (cases x)
    have "cached_colors_decoded env s1"
      using getSymbol_decoded [OF Cons.prems] Inr x by simp
    then show ?thesis using Cons.IH Inr x a by simp
  qed
qed

lemma cached_colors_decoded_fresh: "cached_colors_decoded env (OgrFileImport cs ss g fresh unit)"
  by (simp add: cached_colors_decoded_def OgrFileImport_def Let_def)

lemma makeColor_undecodable:
  assumes "cached_colors_decoded env s" "undecodable env (c_str c)"
  shows "fst (makeColor env c s) = Some (default_pen_color s)"
    and "hash_value (colors (snd (makeColor env c s))) (c_str c) = Some (default_pen_color s)"
    and "symbols (snd (makeColor env c s)) = symbols s"
proof -
  have u: "rgb_from_string env c' = None" if "c' \<in> set (color_strings (c_str c))" for c'
    using assms(2) that by (simp add: undecodable_def list_all_iff)
  have r: "rgb_from_string env c = None"
    using u [OF color_strings_mem] .
  have h: "hash_value (colors s) (c_str c) = None
         \<or> hash_value (colors s) (c_str c) = Some (default_pen_color s)"
  proof (cases "hash_value (colors s) (c_str c)")
    case None
    then show ?thesis by simp
  next
    case (Some color)
    then have "colors s (c_str c) = Some (Some color)"
      by (simp add: hash_value_def split: option.splits)
    then have "list_ex (\<lambda>c. rgb_from_string env c = None \<and> color = default_pen_color s \<or> opaque env c)
             (color_strings (c_str c))"
      using assms(1) by (simp add: cached_colors_decoded_def)
    then obtain c' where "c' \<in> set (color_strings (c_str c))"
      "rgb_from_string env c' = None \<and> color = default_pen_color s \<or> opaque env c'"
      unfolding list_ex_iff by blast
    then have "color = default_pen_color s" using u [of c'] by (auto simp: opaque_def)
    then show ?thesis using Some by simp
  qed
  show "fst (makeColor env c s) = Some (default_pen_color s)"
    and "hash_value (colors (snd (makeColor env c s))) (c_str c) = Some (default_pen_color s)"
    and "symbols (snd (makeColor env c s)) = symbols s"
    using makeColor_malformed [OF r h] by simp_all
qed

lemma makeColor_transparent_key:
  assumes "cached_colors_decoded env s" "transparent env (c_str c)"
  shows "fst (makeColor env c s) = None"
proof -
  have u: "case rgb_from_string env c' of None \<Rightarrow> False | Some (r, g, b, a) \<Rightarrow> a \<le> 0"
    if "c' \<in> set (color_strings (c_str c))" for c'
    using assms(2) that by (simp add: transparent_def list_all_iff)
  have h: "hash_value (colors s) (c_str c) = None"
  proof (cases "hash_value (colors s) (c_str c)")
    case None
    then show ?thesis by simp
  next
    case (Some color)
    then have "colors s (c_str c) = Some (Some color)"
      by (simp add: hash_value_def split: option.splits)
    then have "list_ex (\<lambda>c. rgb_from_string env c = None \<and> color = default_pen_color s \<or> opaque env c)
             (color_strings (c_str c))"
      using assms(1) by (simp add: cached_colors_decoded_def)
    then obtain c' where "c' \<in> set (color_strings (c_str c))"
      "rgb_from_string env c' = None \<and> color = default_pen_color s \<or> opaque env c'"
      unfolding list_ex_iff by blast
    then have False using u [of c'] by (auto simp: opaque_def split: option.splits)
    then show ?thesis by simp
  qed
  obtain r g b a where "rgb_from_string env c = Some (r, g, b, a)" "a \<le> 0"
    using u [OF color_strings_mem] by (auto split: option.splits)
  then show ?thesis using h by (rule makeColor_transparent(1))
qed

lemma makeColor_null_only:
  assumes "fst (makeColor env c s) = None"
  shows "\<exists>r g b a. rgb_from_string env c = Some (r, g, b, a) \<and> a \<le> 0"
proof -
  obtain r s1 where m: "makeColor env c s = (r, s1)" by force
  then have "r = None" using assms by simp
  then show ?thesis using makeColor_cases [OF m] by auto
qed

text \<open>
  The color and the hidden flag of the symbol which a symbol, pen or brush tool gives for a
  point, and of the symbol which a label tool gives, from the color which \<^verbatim>\<open>makeColor\<close>
  returns.
\<close>

lemma getSymbolForOgrSymbol_new:
  assumes "st_type tool = OGRSTCSymbol \<and> st_param_str tool OGRSTSymbolColor = Some color_string
         \<or> st_type tool = OGRSTCPen \<and> st_param_str tool OGRSTPenColor = Some color_string
         \<or> st_type tool = OGRSTCBrush \<and> st_param_str tool OGRSTBrushFColor = Some color_string"
    and "cached_of_type (point_symbols s) (st_style_string tool) SymbolPoint s = None"
  shows "\<exists>s1. getSymbolForOgrSymbol env tool k s = (Some (length (symbols s)), s1)
           \<and> sym_color (symbols s1 ! length (symbols s))
               = (case fst (makeColor env (Some color_string) s) of
                    Some color \<Rightarrow> Some color
                  | None \<Rightarrow> sym_color (symbols s ! default_point_symbol s))
           \<and> sym_hidden (symbols s1 ! length (symbols s))
               = (case fst (makeColor env (Some color_string) s) of
                    Some color \<Rightarrow> sym_hidden (symbols s ! default_point_symbol s)
                  | None \<Rightarrow> True)"
proof -
  obtain r sm where m: "makeColor env (Some color_string) s = (r, sm)" by force
  have o: "symbols sm = symbols s" using makeColor_outside [OF m] by simp
  from assms(1) show ?thesis
  proof (elim disjE conjE)
    assume "st_type tool = OGRSTCSymbol" "st_param_str tool OGRSTSymbolColor = Some color_string"
    then show ?thesis
      using assms(2) m o
      by (simp add: getSymbolForOgrSymbol_def Let_def addSymbol_def split: option.splits)
  next
    assume "st_type tool = OGRSTCPen" "st_param_str tool OGRSTPenColor = Some color_string"
    then show ?thesis
      using assms(2) m o
      by (simp add: getSymbolForOgrSymbol_def Let_def addSymbol_def split: option.splits)
  next
    assume "st_type tool = OGRSTCBrush" "st_param_str tool OGRSTBrushFColor = Some color_string"
    then show ?thesis
      using assms(2) m o
      by (simp add: getSymbolForOgrSymbol_def Let_def addSymbol_def split: option.splits)
  qed
qed

lemma getSymbolForLabel_new:
  assumes "st_type tool = OGRSTCLabel" "st_param_str tool OGRSTLabelTextString = Some label"
    and "text_symbols s (c_str (st_param_str tool OGRSTLabelFColor)
                            @ c_str (st_param_str tool OGRSTLabelSize)) = None"
  shows "\<exists>s1. getSymbolForLabel env tool k s = Inr (Some (length (symbols s)), s1)
           \<and> sym_color (symbols s1 ! length (symbols s))
               = (case fst (makeColor env (st_param_str tool OGRSTLabelFColor) s) of
                    Some color \<Rightarrow> Some color
                  | None \<Rightarrow> sym_color (symbols s ! default_text_symbol s))
           \<and> sym_hidden (symbols s1 ! length (symbols s))
               = (case fst (makeColor env (st_param_str tool OGRSTLabelFColor) s) of
                    Some color \<Rightarrow> sym_hidden (symbols s ! default_text_symbol s)
                  | None \<Rightarrow> True)"
proof -
  obtain r sm where m: "makeColor env (st_param_str tool OGRSTLabelFColor) s = (r, sm)" by force
  have o: "symbols sm = symbols s" using makeColor_outside [OF m] by simp
  show ?thesis
    using assms m o
    by (simp add: getSymbolForLabel_def Let_def addSymbol_def scale_def split: option.splits)
qed

lemma applyPenColor_by_color:
  assumes "st_param_str tool OGRSTPenColor = Some color_string"
  shows "fst (applyPenColor env tool symbol s)
           = (case fst (makeColor env (Some color_string) s) of
                Some color \<Rightarrow> symbol\<lparr>sym_color := Some color\<rparr>
              | None \<Rightarrow> symbol\<lparr>sym_hidden := True\<rparr>)"
  using assms
  by (cases "makeColor env (Some color_string) s")
     (simp add: applyPenColor_def split: option.splits)

lemma applyBrushColor_by_color:
  assumes "st_param_str tool OGRSTBrushFColor = Some color_string"
  shows "fst (applyBrushColor env tool symbol s)
           = (case fst (makeColor env (Some color_string) s) of
                Some color \<Rightarrow> symbol\<lparr>sym_color := Some color\<rparr>
              | None \<Rightarrow> symbol\<lparr>sym_hidden := True\<rparr>)"
  using assms
  by (cases "makeColor env (Some color_string) s")
     (simp add: applyBrushColor_def split: option.splits)

lemma transparent_Some:
  "color_string \<noteq> [] \<Longrightarrow>
   transparent env color_string
     = (\<exists>r g b a. rgb_from_string env (Some color_string) = Some (r, g, b, a) \<and> a \<le> 0)"
  by (auto simp: transparent_def color_strings_def split: option.splits)

section \<open>Colors which cannot be decoded\<close>

text \<open>
  C2, as stated, fails: a pen tool whose color string the driver cannot decode gives a
  line symbol which is not hidden; it has the default pen color.
\<close>

theorem malformed_color_not_hidden:
  "result_hidden (getSymbol demo_env SymbolLine ''PEN(c:red)'' demo_importer) = Some False
   \<and> result_color (getSymbol demo_env SymbolLine ''PEN(c:red)'' demo_importer)
       = Some (default_pen_color demo_importer)
   \<and> rgb_from_string demo_env (Some ''red'') = None"
  by (simp add: result_hidden_def result_color_def getSymbol_def demo_importer_def
        OgrFileImport_def Let_def getLineSymbol_def parts_of_style_def or_default_def
        demo_env_def demo_style_parts_def demo_tool_def OGR_ST_SetUnit_def getSymbolForPen_def
        cached_of_type_def applyPenColor_def makeColor_def hash_value_def demo_rgb_def
        applyPenWidth_def applyPenCap_def applyPenJoin_def applyPenPattern_def addSymbol_def
        insert_at_def demo_fresh_def)

text \<open>
  C2, amended. In an importer whose color cache agrees with the driver (a new importer
  does, and every symbol lookup keeps it so), a color string which the driver cannot
  decode gives the default pen color and is cached with it, and the symbol of the pen,
  brush, symbol or label tool gets this color and keeps its hidden flag; a color string
  which decodes with an alpha which is not positive gives no color, and the symbol of the
  tool is hidden. The hidden flag of the symbol of a tool changes only for a color string
  which decodes with an alpha which is not positive: neither a color string which cannot
  be decoded nor one with a positive alpha hides the symbol. The lookup of a symbol never
  stops the import. For a color string which is not empty, the driver cannot decode the
  key exactly when it cannot decode the string.
\<close>

theorem malformed_color_default_pen:
  "(cached_colors_decoded env s \<and> undecodable env (c_str c) \<longrightarrow>
      fst (makeColor env c s) = Some (default_pen_color s)
      \<and> hash_value (colors (snd (makeColor env c s))) (c_str c) = Some (default_pen_color s))
   \<and> (cached_colors_decoded env s \<and> transparent env (c_str c) \<longrightarrow>
        fst (makeColor env c s) = None)
   \<and> (fst (makeColor env c s) = None \<longrightarrow>
        (\<exists>r g b a. rgb_from_string env c = Some (r, g, b, a) \<and> a \<le> 0))
   \<and> (cached_colors_decoded env s \<and> st_param_str tool OGRSTPenColor = Some color_string
        \<and> undecodable env color_string \<longrightarrow>
        fst (applyPenColor env tool symbol s) = symbol\<lparr>sym_color := Some (default_pen_color s)\<rparr>)
   \<and> (cached_colors_decoded env s \<and> st_param_str tool OGRSTPenColor = Some color_string
        \<and> transparent env color_string \<longrightarrow>
        fst (applyPenColor env tool symbol s) = symbol\<lparr>sym_hidden := True\<rparr>)
   \<and> (st_param_str tool OGRSTPenColor = Some color_string
        \<and> sym_hidden (fst (applyPenColor env tool symbol s)) \<noteq> sym_hidden symbol \<longrightarrow>
        (\<exists>r g b a. rgb_from_string env (Some color_string) = Some (r, g, b, a) \<and> a \<le> 0))
   \<and> (cached_colors_decoded env s \<and> st_param_str tool OGRSTBrushFColor = Some color_string
        \<and> undecodable env color_string \<longrightarrow>
        fst (applyBrushColor env tool symbol s) = symbol\<lparr>sym_color := Some (default_pen_color s)\<rparr>)
   \<and> (cached_colors_decoded env s \<and> st_param_str tool OGRSTBrushFColor = Some color_string
        \<and> transparent env color_string \<longrightarrow>
        fst (applyBrushColor env tool symbol s) = symbol\<lparr>sym_hidden := True\<rparr>)
   \<and> (st_param_str tool OGRSTBrushFColor = Some color_string
        \<and> sym_hidden (fst (applyBrushColor env tool symbol s)) \<noteq> sym_hidden symbol \<longrightarrow>
        (\<exists>r g b a. rgb_from_string env (Some color_string) = Some (r, g, b, a) \<and> a \<le> 0))
   \<and> (cached_colors_decoded env s
        \<and> (st_type tool = OGRSTCSymbol \<and> st_param_str tool OGRSTSymbolColor = Some color_string
            \<or> st_type tool = OGRSTCPen \<and> st_param_str tool OGRSTPenColor = Some color_string
            \<or> st_type tool = OGRSTCBrush \<and> st_param_str tool OGRSTBrushFColor = Some color_string)
        \<and> cached_of_type (point_symbols s) (st_style_string tool) SymbolPoint s = None
        \<and> undecodable env color_string \<longrightarrow>
        (\<exists>s1. getSymbolForOgrSymbol env tool k s = (Some (length (symbols s)), s1)
           \<and> sym_color (symbols s1 ! length (symbols s)) = Some (default_pen_color s)
           \<and> sym_hidden (symbols s1 ! length (symbols s))
               = sym_hidden (symbols s ! default_point_symbol s)))
   \<and> (cached_colors_decoded env s
        \<and> (st_type tool = OGRSTCSymbol \<and> st_param_str tool OGRSTSymbolColor = Some color_string
            \<or> st_type tool = OGRSTCPen \<and> st_param_str tool OGRSTPenColor = Some color_string
            \<or> st_type tool = OGRSTCBrush \<and> st_param_str tool OGRSTBrushFColor = Some color_string)
        \<and> cached_of_type (point_symbols s) (st_style_string tool) SymbolPoint s = None
        \<and> transparent env color_string \<longrightarrow>
        (\<exists>s1. getSymbolForOgrSymbol env tool k s = (Some (length (symbols s)), s1)
           \<and> sym_hidden (symbols s1 ! length (symbols s))))
   \<and> ((st_type tool = OGRSTCSymbol \<and> st_param_str tool OGRSTSymbolColor = Some color_string
            \<or> st_type tool = OGRSTCPen \<and> st_param_str tool OGRSTPenColor = Some color_string
            \<or> st_type tool = OGRSTCBrush \<and> st_param_str tool OGRSTBrushFColor = Some color_string)
        \<and> cached_of_type (point_symbols s) (st_style_string tool) SymbolPoint s = None
        \<and> getSymbolForOgrSymbol env tool k s = (Some p, s2)
        \<and> sym_hidden (symbols s2 ! p) \<noteq> sym_hidden (symbols s ! default_point_symbol s) \<longrightarrow>
        (\<exists>r g b a. rgb_from_string env (Some color_string) = Some (r, g, b, a) \<and> a \<le> 0))
   \<and> (cached_colors_decoded env s
        \<and> st_type tool = OGRSTCLabel \<and> st_param_str tool OGRSTLabelTextString = Some label
        \<and> text_symbols s (c_str (st_param_str tool OGRSTLabelFColor)
                            @ c_str (st_param_str tool OGRSTLabelSize)) = None
        \<and> undecodable env (c_str (st_param_str tool OGRSTLabelFColor)) \<longrightarrow>
        (\<exists>s1. getSymbolForLabel env tool k s = Inr (Some (length (symbols s)), s1)
           \<and> sym_color (symbols s1 ! length (symbols s)) = Some (default_pen_color s)
           \<and> sym_hidden (symbols s1 ! length (symbols s))
               = sym_hidden (symbols s ! default_text_symbol s)))
   \<and> (cached_colors_decoded env s
        \<and> st_type tool = OGRSTCLabel \<and> st_param_str tool OGRSTLabelTextString = Some label
        \<and> text_symbols s (c_str (st_param_str tool OGRSTLabelFColor)
                            @ c_str (st_param_str tool OGRSTLabelSize)) = None
        \<and> transparent env (c_str (st_param_str tool OGRSTLabelFColor)) \<longrightarrow>
        (\<exists>s1. getSymbolForLabel env tool k s = Inr (Some (length (symbols s)), s1)
           \<and> sym_hidden (symbols s1 ! length (symbols s))))
   \<and> (st_type tool = OGRSTCLabel \<and> st_param_str tool OGRSTLabelTextString = Some label
        \<and> text_symbols s (c_str (st_param_str tool OGRSTLabelFColor)
                            @ c_str (st_param_str tool OGRSTLabelSize)) = None
        \<and> getSymbolForLabel env tool k s = Inr (Some p, s2)
        \<and> sym_hidden (symbols s2 ! p) \<noteq> sym_hidden (symbols s ! default_text_symbol s) \<longrightarrow>
        (\<exists>r g b a. rgb_from_string env (st_param_str tool OGRSTLabelFColor) = Some (r, g, b, a)
           \<and> a \<le> 0))
   \<and> (t \<noteq> NoSymbol \<and> t \<noteq> AllSymbols \<longrightarrow> (\<exists>p s1. getSymbol env t k s = Inr (p, s1)))
   \<and> cached_colors_decoded env (OgrFileImport cs ss g fresh unit)
   \<and> (cached_colors_decoded env s \<and> getSymbol env t k s = Inr (p, s2) \<longrightarrow>
        cached_colors_decoded env s2)
   \<and> (cached_colors_decoded env s \<longrightarrow> cached_colors_decoded env (lookups env requests s))
   \<and> (color_string \<noteq> [] \<longrightarrow>
        undecodable env color_string = (rgb_from_string env (Some color_string) = None))
   \<and> (color_string \<noteq> [] \<longrightarrow>
        transparent env color_string
          = (\<exists>r g b a. rgb_from_string env (Some color_string) = Some (r, g, b, a) \<and> a \<le> 0))"
proof (intro conjI impI)
  assume "cached_colors_decoded env s \<and> undecodable env (c_str c)"
  then show "fst (makeColor env c s) = Some (default_pen_color s)"
    by (simp add: makeColor_undecodable)
next
  assume "cached_colors_decoded env s \<and> undecodable env (c_str c)"
  then show "hash_value (colors (snd (makeColor env c s))) (c_str c) = Some (default_pen_color s)"
    by (simp add: makeColor_undecodable)
next
  assume "cached_colors_decoded env s \<and> transparent env (c_str c)"
  then show "fst (makeColor env c s) = None"
    by (simp add: makeColor_transparent_key)
next
  assume "fst (makeColor env c s) = None"
  then show "\<exists>r g b a. rgb_from_string env c = Some (r, g, b, a) \<and> a \<le> 0"
    by (rule makeColor_null_only)
next
  assume h: "cached_colors_decoded env s \<and> st_param_str tool OGRSTPenColor = Some color_string
        \<and> undecodable env color_string"
  then have "fst (makeColor env (Some color_string) s) = Some (default_pen_color s)"
    by (intro makeColor_undecodable) (simp_all add: c_str_def)
  then show "fst (applyPenColor env tool symbol s) = symbol\<lparr>sym_color := Some (default_pen_color s)\<rparr>"
    using h by (simp add: applyPenColor_by_color)
next
  assume h: "cached_colors_decoded env s \<and> st_param_str tool OGRSTPenColor = Some color_string
        \<and> transparent env color_string"
  then have "fst (makeColor env (Some color_string) s) = None"
    by (intro makeColor_transparent_key) (simp_all add: c_str_def)
  then show "fst (applyPenColor env tool symbol s) = symbol\<lparr>sym_hidden := True\<rparr>"
    using h by (simp add: applyPenColor_by_color)
next
  assume h: "st_param_str tool OGRSTPenColor = Some color_string
        \<and> sym_hidden (fst (applyPenColor env tool symbol s)) \<noteq> sym_hidden symbol"
  then have e: "fst (applyPenColor env tool symbol s)
           = (case fst (makeColor env (Some color_string) s) of
                Some color \<Rightarrow> symbol\<lparr>sym_color := Some color\<rparr>
              | None \<Rightarrow> symbol\<lparr>sym_hidden := True\<rparr>)"
    by (intro applyPenColor_by_color) simp
  have "fst (makeColor env (Some color_string) s) = None"
    using h unfolding e by (cases "fst (makeColor env (Some color_string) s)") simp_all
  then show "\<exists>r g b a. rgb_from_string env (Some color_string) = Some (r, g, b, a) \<and> a \<le> 0"
    by (rule makeColor_null_only)
next
  assume h: "cached_colors_decoded env s \<and> st_param_str tool OGRSTBrushFColor = Some color_string
        \<and> undecodable env color_string"
  then have "fst (makeColor env (Some color_string) s) = Some (default_pen_color s)"
    by (intro makeColor_undecodable) (simp_all add: c_str_def)
  then show "fst (applyBrushColor env tool symbol s) = symbol\<lparr>sym_color := Some (default_pen_color s)\<rparr>"
    using h by (simp add: applyBrushColor_by_color)
next
  assume h: "cached_colors_decoded env s \<and> st_param_str tool OGRSTBrushFColor = Some color_string
        \<and> transparent env color_string"
  then have "fst (makeColor env (Some color_string) s) = None"
    by (intro makeColor_transparent_key) (simp_all add: c_str_def)
  then show "fst (applyBrushColor env tool symbol s) = symbol\<lparr>sym_hidden := True\<rparr>"
    using h by (simp add: applyBrushColor_by_color)
next
  assume h: "st_param_str tool OGRSTBrushFColor = Some color_string
        \<and> sym_hidden (fst (applyBrushColor env tool symbol s)) \<noteq> sym_hidden symbol"
  then have e: "fst (applyBrushColor env tool symbol s)
           = (case fst (makeColor env (Some color_string) s) of
                Some color \<Rightarrow> symbol\<lparr>sym_color := Some color\<rparr>
              | None \<Rightarrow> symbol\<lparr>sym_hidden := True\<rparr>)"
    by (intro applyBrushColor_by_color) simp
  have "fst (makeColor env (Some color_string) s) = None"
    using h unfolding e by (cases "fst (makeColor env (Some color_string) s)") simp_all
  then show "\<exists>r g b a. rgb_from_string env (Some color_string) = Some (r, g, b, a) \<and> a \<le> 0"
    by (rule makeColor_null_only)
next
  assume h: "cached_colors_decoded env s
        \<and> (st_type tool = OGRSTCSymbol \<and> st_param_str tool OGRSTSymbolColor = Some color_string
            \<or> st_type tool = OGRSTCPen \<and> st_param_str tool OGRSTPenColor = Some color_string
            \<or> st_type tool = OGRSTCBrush \<and> st_param_str tool OGRSTBrushFColor = Some color_string)
        \<and> cached_of_type (point_symbols s) (st_style_string tool) SymbolPoint s = None
        \<and> undecodable env color_string"
  then have m: "fst (makeColor env (Some color_string) s) = Some (default_pen_color s)"
    by (intro makeColor_undecodable) (simp_all add: c_str_def)
  note n = getSymbolForOgrSymbol_new [of tool color_string s env k]
  show "\<exists>s1. getSymbolForOgrSymbol env tool k s = (Some (length (symbols s)), s1)
           \<and> sym_color (symbols s1 ! length (symbols s)) = Some (default_pen_color s)
           \<and> sym_hidden (symbols s1 ! length (symbols s))
               = sym_hidden (symbols s ! default_point_symbol s)"
    using n h unfolding m by simp
next
  assume h: "cached_colors_decoded env s
        \<and> (st_type tool = OGRSTCSymbol \<and> st_param_str tool OGRSTSymbolColor = Some color_string
            \<or> st_type tool = OGRSTCPen \<and> st_param_str tool OGRSTPenColor = Some color_string
            \<or> st_type tool = OGRSTCBrush \<and> st_param_str tool OGRSTBrushFColor = Some color_string)
        \<and> cached_of_type (point_symbols s) (st_style_string tool) SymbolPoint s = None
        \<and> transparent env color_string"
  then have m: "fst (makeColor env (Some color_string) s) = None"
    by (intro makeColor_transparent_key) (simp_all add: c_str_def)
  note n = getSymbolForOgrSymbol_new [of tool color_string s env k]
  show "\<exists>s1. getSymbolForOgrSymbol env tool k s = (Some (length (symbols s)), s1)
           \<and> sym_hidden (symbols s1 ! length (symbols s))"
    using n h unfolding m by auto
next
  assume h: "(st_type tool = OGRSTCSymbol \<and> st_param_str tool OGRSTSymbolColor = Some color_string
            \<or> st_type tool = OGRSTCPen \<and> st_param_str tool OGRSTPenColor = Some color_string
            \<or> st_type tool = OGRSTCBrush \<and> st_param_str tool OGRSTBrushFColor = Some color_string)
        \<and> cached_of_type (point_symbols s) (st_style_string tool) SymbolPoint s = None
        \<and> getSymbolForOgrSymbol env tool k s = (Some p, s2)
        \<and> sym_hidden (symbols s2 ! p) \<noteq> sym_hidden (symbols s ! default_point_symbol s)"
  note n = getSymbolForOgrSymbol_new [of tool color_string s env k]
  have "fst (makeColor env (Some color_string) s) = None"
    using n h by (cases "fst (makeColor env (Some color_string) s)") auto
  then show "\<exists>r g b a. rgb_from_string env (Some color_string) = Some (r, g, b, a) \<and> a \<le> 0"
    by (rule makeColor_null_only)
next
  assume h: "cached_colors_decoded env s
        \<and> st_type tool = OGRSTCLabel \<and> st_param_str tool OGRSTLabelTextString = Some label
        \<and> text_symbols s (c_str (st_param_str tool OGRSTLabelFColor)
                            @ c_str (st_param_str tool OGRSTLabelSize)) = None
        \<and> undecodable env (c_str (st_param_str tool OGRSTLabelFColor))"
  then have m: "fst (makeColor env (st_param_str tool OGRSTLabelFColor) s) = Some (default_pen_color s)"
    by (intro makeColor_undecodable) simp_all
  note n = getSymbolForLabel_new [of tool label s env k]
  show "\<exists>s1. getSymbolForLabel env tool k s = Inr (Some (length (symbols s)), s1)
           \<and> sym_color (symbols s1 ! length (symbols s)) = Some (default_pen_color s)
           \<and> sym_hidden (symbols s1 ! length (symbols s))
               = sym_hidden (symbols s ! default_text_symbol s)"
    using n h unfolding m by simp
next
  assume h: "cached_colors_decoded env s
        \<and> st_type tool = OGRSTCLabel \<and> st_param_str tool OGRSTLabelTextString = Some label
        \<and> text_symbols s (c_str (st_param_str tool OGRSTLabelFColor)
                            @ c_str (st_param_str tool OGRSTLabelSize)) = None
        \<and> transparent env (c_str (st_param_str tool OGRSTLabelFColor))"
  then have m: "fst (makeColor env (st_param_str tool OGRSTLabelFColor) s) = None"
    by (intro makeColor_transparent_key) simp_all
  note n = getSymbolForLabel_new [of tool label s env k]
  show "\<exists>s1. getSymbolForLabel env tool k s = Inr (Some (length (symbols s)), s1)
           \<and> sym_hidden (symbols s1 ! length (symbols s))"
    using n h unfolding m by auto
next
  assume h: "st_type tool = OGRSTCLabel \<and> st_param_str tool OGRSTLabelTextString = Some label
        \<and> text_symbols s (c_str (st_param_str tool OGRSTLabelFColor)
                            @ c_str (st_param_str tool OGRSTLabelSize)) = None
        \<and> getSymbolForLabel env tool k s = Inr (Some p, s2)
        \<and> sym_hidden (symbols s2 ! p) \<noteq> sym_hidden (symbols s ! default_text_symbol s)"
  note n = getSymbolForLabel_new [of tool label s env k]
  have "fst (makeColor env (st_param_str tool OGRSTLabelFColor) s) = None"
    using n h by (cases "fst (makeColor env (st_param_str tool OGRSTLabelFColor) s)") auto
  then show "\<exists>r g b a. rgb_from_string env (st_param_str tool OGRSTLabelFColor) = Some (r, g, b, a)
           \<and> a \<le> 0"
    by (rule makeColor_null_only)
next
  assume "t \<noteq> NoSymbol \<and> t \<noteq> AllSymbols"
  then show "\<exists>p s1. getSymbol env t k s = Inr (p, s1)"
    by (simp add: getSymbol_ok)
next
  show "cached_colors_decoded env (OgrFileImport cs ss g fresh unit)"
    by (rule cached_colors_decoded_fresh)
next
  assume "cached_colors_decoded env s \<and> getSymbol env t k s = Inr (p, s2)"
  then show "cached_colors_decoded env s2"
    using getSymbol_decoded [of env s t k p s2] by simp
next
  assume "cached_colors_decoded env s"
  then show "cached_colors_decoded env (lookups env requests s)"
    by (rule lookups_decoded)
next
  assume "color_string \<noteq> []"
  then show "undecodable env color_string = (rgb_from_string env (Some color_string) = None)"
    by (rule color_strings_Some)
next
  assume "color_string \<noteq> []"
  then show "transparent env color_string
          = (\<exists>r g b a. rgb_from_string env (Some color_string) = Some (r, g, b, a) \<and> a \<le> 0)"
    by (rule transparent_Some)
qed


theorem malformed_color_default_pen_witness:
  "cached_colors_decoded demo_env demo_importer
   \<and> undecodable demo_env ''red''
   \<and> fst (makeColor demo_env (Some ''red'') demo_importer) = Some (default_pen_color demo_importer)
   \<and> hash_value (colors (snd (makeColor demo_env (Some ''red'') demo_importer))) ''red''
       = Some (default_pen_color demo_importer)
   \<and> fst (applyPenColor demo_env (demo_tool OGRSTCPen ''PEN(c:red)'' [(OGRSTPenColor, ''red'')] [] [])
             (demo_fresh SymbolLine) demo_importer)
       = (demo_fresh SymbolLine)\<lparr>sym_color := Some (default_pen_color demo_importer)\<rparr>
   \<and> transparent demo_env ''#FF000000''
   \<and> fst (applyBrushColor demo_env
             (demo_tool OGRSTCBrush ''BRUSH(fc:#FF000000)'' [(OGRSTBrushFColor, ''#FF000000'')] [] [])
             (demo_fresh SymbolArea) demo_importer)
       = (demo_fresh SymbolArea)\<lparr>sym_hidden := True\<rparr>
   \<and> (\<exists>s1. getSymbolForOgrSymbol demo_env
               (demo_tool OGRSTCSymbol ''SYMBOL(c:#FF000000)'' [(OGRSTSymbolColor, ''#FF000000'')] [] [])
               ''SYMBOL(c:#FF000000)'' demo_importer = (Some (length (symbols demo_importer)), s1)
          \<and> sym_hidden (symbols s1 ! length (symbols demo_importer)))
   \<and> (\<exists>s1. getSymbolForLabel demo_env
               (demo_tool OGRSTCLabel ''LABEL(c:red,t:A)''
                  [(OGRSTLabelFColor, ''red''), (OGRSTLabelTextString, ''A'')] [] [])
               ''LABEL(c:red,t:A)'' demo_importer = Inr (Some (length (symbols demo_importer)), s1)
          \<and> sym_color (symbols s1 ! length (symbols demo_importer))
               = Some (default_pen_color demo_importer)
          \<and> sym_hidden (symbols s1 ! length (symbols demo_importer))
               = sym_hidden (symbols demo_importer ! default_text_symbol demo_importer))
   \<and> cached_colors_decoded demo_env
        (lookups demo_env [(SymbolLine, ''PEN(c:#FF0000)''), (SymbolLine, ''PEN(c:red)'')] demo_importer)
   \<and> fst (applyPenColor demo_env (demo_tool OGRSTCPen ''PEN(c:red)'' [(OGRSTPenColor, ''red'')] [] [])
             (demo_fresh SymbolLine)
             (lookups demo_env [(SymbolLine, ''PEN(c:#FF0000)''), (SymbolLine, ''PEN(c:red)'')] demo_importer))
       = (demo_fresh SymbolLine)
           \<lparr>sym_color := Some (default_pen_color
              (lookups demo_env [(SymbolLine, ''PEN(c:#FF0000)''), (SymbolLine, ''PEN(c:red)'')] demo_importer))\<rparr>
   \<and> (\<exists>p s1. getSymbol demo_env SymbolLine ''PEN(c:red)'' demo_importer = Inr (p, s1))"
proof -
  define s where "s = (lookups demo_env [(SymbolLine, ''PEN(c:#FF0000)''), (SymbolLine, ''PEN(c:red)'')] demo_importer)"
  have v: "cached_colors_decoded demo_env demo_importer"
    unfolding demo_importer_def
    by (rule malformed_color_default_pen [THEN conjunct2, THEN conjunct2, THEN conjunct2, THEN conjunct2, THEN conjunct2, THEN conjunct2, THEN conjunct2, THEN conjunct2, THEN conjunct2, THEN conjunct2, THEN conjunct2, THEN conjunct2, THEN conjunct2, THEN conjunct2, THEN conjunct2, THEN conjunct2, THEN conjunct1])
  have u: "undecodable demo_env ''red''"
    by (simp add: undecodable_def color_strings_def demo_env_def demo_rgb_def)
  have t: "transparent demo_env ''#FF000000''"
    by (simp add: transparent_def color_strings_def demo_env_def demo_rgb_def)
  have a1: "fst (makeColor demo_env (Some ''red'') demo_importer) = Some (default_pen_color demo_importer)
      \<and> hash_value (colors (snd (makeColor demo_env (Some ''red'') demo_importer))) (c_str (Some ''red''))
          = Some (default_pen_color demo_importer)"
    by (rule malformed_color_default_pen [where env = demo_env and s = demo_importer
          and c = "Some ''red''", THEN conjunct1, rule_format])
       (simp add: v u c_str_def)
  have a2: "fst (applyPenColor demo_env (demo_tool OGRSTCPen ''PEN(c:red)'' [(OGRSTPenColor, ''red'')] [] [])
             (demo_fresh SymbolLine) demo_importer)
       = (demo_fresh SymbolLine)\<lparr>sym_color := Some (default_pen_color demo_importer)\<rparr>"
    by (rule malformed_color_default_pen [where env = demo_env and s = demo_importer
          and color_string = "''red''", THEN conjunct2, THEN conjunct2, THEN conjunct2, THEN conjunct1, rule_format])
       (simp add: v u demo_tool_def)
  have a3: "fst (applyBrushColor demo_env
             (demo_tool OGRSTCBrush ''BRUSH(fc:#FF000000)'' [(OGRSTBrushFColor, ''#FF000000'')] [] [])
             (demo_fresh SymbolArea) demo_importer)
       = (demo_fresh SymbolArea)\<lparr>sym_hidden := True\<rparr>"
    by (rule malformed_color_default_pen [where env = demo_env and s = demo_importer
          and color_string = "''#FF000000''", THEN conjunct2, THEN conjunct2, THEN conjunct2, THEN conjunct2, THEN conjunct2, THEN conjunct2, THEN conjunct2, THEN conjunct1, rule_format])
       (simp add: v t demo_tool_def)
  have a4: "\<exists>s1. getSymbolForOgrSymbol demo_env
               (demo_tool OGRSTCSymbol ''SYMBOL(c:#FF000000)'' [(OGRSTSymbolColor, ''#FF000000'')] [] [])
               ''SYMBOL(c:#FF000000)'' demo_importer = (Some (length (symbols demo_importer)), s1)
          \<and> sym_hidden (symbols s1 ! length (symbols demo_importer))"
    by (rule malformed_color_default_pen [where env = demo_env and s = demo_importer
          and color_string = "''#FF000000''", THEN conjunct2, THEN conjunct2, THEN conjunct2, THEN conjunct2, THEN conjunct2, THEN conjunct2, THEN conjunct2, THEN conjunct2, THEN conjunct2, THEN conjunct2, THEN conjunct1, rule_format])
       (intro conjI, rule v, simp_all add: t demo_tool_def cached_of_type_def demo_importer_def
          OgrFileImport_def Let_def)
  have a5: "\<exists>s1. getSymbolForLabel demo_env
               (demo_tool OGRSTCLabel ''LABEL(c:red,t:A)''
                  [(OGRSTLabelFColor, ''red''), (OGRSTLabelTextString, ''A'')] [] [])
               ''LABEL(c:red,t:A)'' demo_importer = Inr (Some (length (symbols demo_importer)), s1)
          \<and> sym_color (symbols s1 ! length (symbols demo_importer))
               = Some (default_pen_color demo_importer)
          \<and> sym_hidden (symbols s1 ! length (symbols demo_importer))
               = sym_hidden (symbols demo_importer ! default_text_symbol demo_importer)"
    by (rule malformed_color_default_pen [where env = demo_env and s = demo_importer
          and label = "''A''", THEN conjunct2, THEN conjunct2, THEN conjunct2, THEN conjunct2, THEN conjunct2, THEN conjunct2, THEN conjunct2, THEN conjunct2, THEN conjunct2, THEN conjunct2, THEN conjunct2, THEN conjunct2, THEN conjunct1, rule_format])
       (intro conjI, rule v, simp_all add: u demo_tool_def c_str_def demo_importer_def
          OgrFileImport_def Let_def)
  have v2: "cached_colors_decoded demo_env s"
    unfolding s_def
    by (rule malformed_color_default_pen [where env = demo_env and s = demo_importer,
          THEN conjunct2, THEN conjunct2, THEN conjunct2, THEN conjunct2, THEN conjunct2, THEN conjunct2, THEN conjunct2, THEN conjunct2, THEN conjunct2, THEN conjunct2, THEN conjunct2, THEN conjunct2, THEN conjunct2, THEN conjunct2, THEN conjunct2, THEN conjunct2, THEN conjunct2, THEN conjunct2, THEN conjunct1, rule_format])
       (rule v)
  have a6: "fst (applyPenColor demo_env (demo_tool OGRSTCPen ''PEN(c:red)'' [(OGRSTPenColor, ''red'')] [] [])
             (demo_fresh SymbolLine) s)
       = (demo_fresh SymbolLine)\<lparr>sym_color := Some (default_pen_color s)\<rparr>"
    by (rule malformed_color_default_pen [where env = demo_env and s = s
          and color_string = "''red''", THEN conjunct2, THEN conjunct2, THEN conjunct2, THEN conjunct1, rule_format])
       (simp add: v2 u demo_tool_def)
  have a7: "\<exists>p s1. getSymbol demo_env SymbolLine ''PEN(c:red)'' demo_importer = Inr (p, s1)"
    by (rule malformed_color_default_pen [where env = demo_env and s = demo_importer
          and t = SymbolLine, THEN conjunct2, THEN conjunct2, THEN conjunct2, THEN conjunct2, THEN conjunct2, THEN conjunct2, THEN conjunct2, THEN conjunct2, THEN conjunct2, THEN conjunct2, THEN conjunct2, THEN conjunct2, THEN conjunct2, THEN conjunct2, THEN conjunct2, THEN conjunct1, rule_format])
       simp
  show ?thesis
    using v u a1 [THEN conjunct1] a1 [THEN conjunct2, unfolded c_str_def option.case] a2 t a3 a4 a5
      v2 [unfolded s_def] a6 [unfolded s_def] a7
    by (intro conjI)
qed

section \<open>The reference which the import chooses\<close>

lemma layer_references_simps [simp]:
  "layer_references [] = []"
  "layer_references (None # layers) = layer_references layers"
  "layer_references (Some layer # layers) =
     (case l_srs layer of None \<Rightarrow> layer_references layers | Some n \<Rightarrow> n # layer_references layers)"
  by (simp_all add: layer_references_def List.map_filter_simps split: option.splits)

lemma usable_projected_export:
  "usable_projected env n \<Longrightarrow> \<exists>spec. srs_export_to_proj4 env n = Some spec"
  by (auto simp: usable_projected_def)

lemma scan_layers_skip:
  assumes "l_srs layer = Some n" "\<not> usable_projected env n"
  shows "scan_layers env (Some layer # layers) st = scan_layers env layers
    (if srs_is_local env n then
       (if local_srs st = None then st\<lparr>no_srs := False, local_srs := Some n\<rparr>
        else st\<lparr>no_srs := False\<rparr>)
     else if new_transformation env (LayerSrs n) OrthographicSrs = None then
       st\<lparr>no_srs := False,
          scan_warnings := scan_warnings st @ [CannotUseSpatialReference n]\<rparr>
     else if suitable_srs st = None then st\<lparr>no_srs := False, suitable_srs := Some n\<rparr>
     else st\<lparr>no_srs := False\<rparr>)"
  using assms
  by (auto simp: usable_projected_def transformable_def Let_def split: option.splits)

lemma scan_layers_stop:
  assumes "l_srs layer = Some n" "usable_projected env n"
  shows "scan_layers env (Some layer # layers) st
           = st\<lparr>no_srs := False, projected_srs_spec := srs_export_to_proj4 env n,
                suitable_srs := Some n\<rparr>"
  using assms
  by (auto simp: usable_projected_def transformable_def Let_def split: option.splits)

lemma usable_projected_transformable: "usable_projected env n \<Longrightarrow> transformable env n"
  by (simp add: usable_projected_def)

lemma scan_layers_spec:
  "projected_srs_spec (scan_layers env data_source st)
     = (if find (usable_projected env) (layer_references data_source) = None
        then projected_srs_spec st
        else Option.bind (find (usable_projected env) (layer_references data_source))
               (srs_export_to_proj4 env))"
proof (induction data_source arbitrary: st)
  case Nil
  then show ?case by simp
next
  case (Cons lyr layers)
  show ?case
  proof (cases lyr)
    case None
    then show ?thesis using Cons by simp
  next
    case (Some layer)
    show ?thesis
    proof (cases "l_srs layer")
      case None
      then show ?thesis using Some Cons by simp
    next
      case n: (Some n)
      show ?thesis
      proof (cases "usable_projected env n")
        case True
        show ?thesis
          unfolding Some scan_layers_stop [OF n True]
          using n True Some Cons.prems by (auto simp: usable_projected_transformable)
      next
        case False
        show ?thesis
          unfolding Some scan_layers_skip [OF n False]
          using n False Some Cons by (auto simp: transformable_def)
      qed
    qed
  qed
qed

lemma scan_layers_suitable:
  "suitable_srs (scan_layers env data_source st)
     = (if find (usable_projected env) (layer_references data_source) \<noteq> None
        then find (usable_projected env) (layer_references data_source)
        else if suitable_srs st = None
        then find (transformable env) (layer_references data_source)
        else suitable_srs st)"
proof (induction data_source arbitrary: st)
  case Nil
  then show ?case by simp
next
  case (Cons lyr layers)
  show ?case
  proof (cases lyr)
    case None
    then show ?thesis using Cons by simp
  next
    case (Some layer)
    show ?thesis
    proof (cases "l_srs layer")
      case None
      then show ?thesis using Some Cons by simp
    next
      case n: (Some n)
      show ?thesis
      proof (cases "usable_projected env n")
        case True
        show ?thesis
          unfolding Some scan_layers_stop [OF n True]
          using n True Some Cons.prems by (auto simp: usable_projected_transformable)
      next
        case False
        show ?thesis
          unfolding Some scan_layers_skip [OF n False]
          using n False Some Cons by (auto simp: transformable_def)
      qed
    qed
  qed
qed

lemma scan_layers_local:
  assumes "find (usable_projected env) (layer_references data_source) = None"
  shows "local_srs (scan_layers env data_source st)
     = (if local_srs st = None then find (srs_is_local env) (layer_references data_source)
        else local_srs st)"
  using assms
proof (induction data_source arbitrary: st)
  case Nil
  then show ?case by simp
next
  case (Cons lyr layers)
  show ?case
  proof (cases lyr)
    case None
    then show ?thesis using Cons by simp
  next
    case (Some layer)
    show ?thesis
    proof (cases "l_srs layer")
      case None
      then show ?thesis using Some Cons by simp
    next
      case n: (Some n)
      show ?thesis
      proof (cases "usable_projected env n")
        case True
        show ?thesis
          unfolding Some scan_layers_stop [OF n True]
          using n True Some Cons.prems by (auto simp: usable_projected_transformable)
      next
        case False
        show ?thesis
          unfolding Some scan_layers_skip [OF n False]
          using n False Some Cons by (auto simp: transformable_def)
      qed
    qed
  qed
qed

lemma scan_layers_no_srs:
  assumes "find (usable_projected env) (layer_references data_source) = None"
  shows "no_srs (scan_layers env data_source st) = (no_srs st \<and> layer_references data_source = [])"
  using assms
proof (induction data_source arbitrary: st)
  case Nil
  then show ?case by simp
next
  case (Cons lyr layers)
  show ?case
  proof (cases lyr)
    case None
    then show ?thesis using Cons by simp
  next
    case (Some layer)
    show ?thesis
    proof (cases "l_srs layer")
      case None
      then show ?thesis using Some Cons by simp
    next
      case n: (Some n)
      show ?thesis
      proof (cases "usable_projected env n")
        case True
        show ?thesis
          unfolding Some scan_layers_stop [OF n True]
          using n True Some Cons.prems by (auto simp: usable_projected_transformable)
      next
        case False
        show ?thesis
          unfolding Some scan_layers_skip [OF n False]
          using n False Some Cons by (auto simp: transformable_def)
      qed
    qed
  qed
qed

lemma handleGeometry_vertices:
  "handleGeometry env geometry acc = foldl (add_vertex env) acc (vertices geometry)"
  "handle_geometries env geometries acc = foldl (add_vertex env) acc (vertices_of_all geometries)"
proof (induction env geometry acc and env geometries acc rule: handleGeometry_handle_geometries.induct)
  case (1 env t flat points parts acc)
  have e: "(\<lambda>(x, y, num_coords) p.
                 (double_add env x (fst p), double_add env y (snd p), (num_coords + 1) mod 2 ^ 32))
           = add_vertex env"
    by (auto simp: add_vertex_def fun_eq_iff)
  show ?case
    using 1 unfolding handleGeometry.simps vertices.simps e by simp
next
  case (2 env acc)
  then show ?case by simp
next
  case (3 env g gs acc)
  then show ?case by simp
qed

lemma foldl_concat_map:
  "(\<And>acc x. f acc x = foldl step acc (g x)) \<Longrightarrow>
   foldl f acc xs = foldl step acc (concat (map g xs))"
  by (induction xs arbitrary: acc) simp_all

lemma average_feature_vertices:
  "average_feature env transformation acc feature
     = foldl (add_vertex env) acc (feature_vertices env transformation feature)"
  by (simp add: average_feature_def feature_vertices_def handleGeometry_vertices
           split: option.splits)

lemma average_layer_vertices:
  "average_layer env target acc lyr = foldl (add_vertex env) acc (layer_vertices env target lyr)"
  by (simp add: average_layer_def layer_vertices_def
        foldl_concat_map [of "average_feature env transformation" "add_vertex env"
                             "feature_vertices env transformation" for transformation,
                          OF average_feature_vertices]
      split: option.splits)

lemma AverageCoords_vertices:
  "AverageCoords env data_source target
     = foldl (add_vertex env) (0, 0, 0) (transformable_vertices env data_source target)"
  unfolding AverageCoords_def transformable_vertices_def
  by (rule foldl_concat_map) (rule average_layer_vertices)

lemma exact_sums:
  assumes "\<And>a b. double_add env a b = a + b" and "n < 2 ^ 32"
  shows "foldl (add_vertex env) (x, y, n) vs
           = (x + sum_list (map fst vs), y + sum_list (map snd vs), (n + length vs) mod 2 ^ 32)"
  using assms(2)
proof (induction vs arbitrary: x y n)
  case Nil
  then show ?case by simp
next
  case (Cons v vs)
  have "foldl (add_vertex env) (x, y, n) (v # vs)
          = foldl (add_vertex env) (x + fst v, y + snd v, (n + 1) mod 2 ^ 32) vs"
    by (simp add: add_vertex_def assms(1))
  also have "\<dots> = (x + fst v + sum_list (map fst vs), y + snd v + sum_list (map snd vs),
                   ((n + 1) mod 2 ^ 32 + length vs) mod 2 ^ 32)"
    by (rule Cons.IH) simp
  also have "((n + 1) mod 2 ^ 32 + length vs) mod 2 ^ 32 = (n + length (v # vs)) mod (2 ^ 32 :: nat)"
    by (simp add: mod_add_left_eq)
  finally show ?case by (simp add: add.assoc)
qed

lemma importGeoreferencing_projected:
  assumes "find (usable_projected env) (layer_references data_source) = Some n"
  shows "\<exists>spec w.
           srs_export_to_proj4 env n = Some spec
           \<and> importGeoreferencing env data_source s =
               Inr (LayerSrs n,
                    s\<lparr>warnings := warnings s @ w,
                      georef := (setProjectedCRS ''PROJ.4'' spec (georef s))
                        \<lparr>projected_ref_point :=
                           (std_round (fst (calcAverageCoords env data_source (LayerSrs n))),
                            std_round (snd (calcAverageCoords env data_source (LayerSrs n))))\<rparr>\<rparr>)"
proof -
  define st where "st = scan_layers env data_source
                 \<lparr>no_srs = True, local_srs = None, suitable_srs = None,
                  projected_srs_spec = None, scan_warnings = []\<rparr>"
  have "usable_projected env n"
    using assms by (auto simp: find_Some_iff)
  then obtain spec where e: "srs_export_to_proj4 env n = Some spec"
    using usable_projected_export by blast
  have p: "projected_srs_spec st = Some spec"
    unfolding st_def scan_layers_spec using assms e by simp
  have q: "suitable_srs st = Some n"
    unfolding st_def scan_layers_suitable using assms by simp
  have "importGeoreferencing env data_source s =
               Inr (LayerSrs n,
                    s\<lparr>warnings := warnings s @ scan_warnings st,
                      georef := (setProjectedCRS ''PROJ.4'' spec (georef s))
                        \<lparr>projected_ref_point :=
                           (std_round (fst (calcAverageCoords env data_source (LayerSrs n))),
                            std_round (snd (calcAverageCoords env data_source (LayerSrs n))))\<rparr>\<rparr>)"
    using p q by (simp add: importGeoreferencing_def st_def [symmetric] Let_def)
  then show ?thesis using e by blast
qed

lemma importGeoreferencing_fails:
  "importGeoreferencing env data_source s = Inl e
     \<longleftrightarrow> e = FileFormatException \<and> layer_references data_source \<noteq> []
         \<and> list_all (\<lambda>n. \<not> srs_is_local env n
                          \<and> new_transformation env (LayerSrs n) OrthographicSrs = None)
             (layer_references data_source)"
proof (cases "find (usable_projected env) (layer_references data_source)")
  case (Some n)
  then have u: "n \<in> set (layer_references data_source)" "usable_projected env n"
    by (auto simp: find_Some_iff)
  have "importGeoreferencing env data_source s \<noteq> Inl e"
    using importGeoreferencing_projected [OF Some, of s] by auto
  moreover have "\<not> list_all (\<lambda>n. \<not> srs_is_local env n
                          \<and> new_transformation env (LayerSrs n) OrthographicSrs = None)
             (layer_references data_source)"
    using u by (auto simp: list_all_iff usable_projected_def transformable_def)
  ultimately show ?thesis by simp
next
  case None
  define st where "st = scan_layers env data_source
                 \<lparr>no_srs = True, local_srs = None, suitable_srs = None,
                  projected_srs_spec = None, scan_warnings = []\<rparr>"
  have p: "projected_srs_spec st = None"
    unfolding st_def scan_layers_spec using None by simp
  have q: "suitable_srs st = find (transformable env) (layer_references data_source)"
    unfolding st_def scan_layers_suitable using None by simp
  have l: "local_srs st = find (srs_is_local env) (layer_references data_source)"
    unfolding st_def scan_layers_local [OF None] by simp
  have n: "no_srs st = (layer_references data_source = [])"
    unfolding st_def scan_layers_no_srs [OF None] by simp
  show ?thesis
  proof (cases "find (transformable env) (layer_references data_source)")
    case (Some m)
    then have u: "m \<in> set (layer_references data_source)" "transformable env m"
      by (auto simp: find_Some_iff)
    have "importGeoreferencing env data_source s \<noteq> Inl e"
      using p q Some by (simp add: importGeoreferencing_def st_def [symmetric] Let_def)
    moreover have "\<not> list_all (\<lambda>n. \<not> srs_is_local env n
                          \<and> new_transformation env (LayerSrs n) OrthographicSrs = None)
             (layer_references data_source)"
      using u by (auto simp: list_all_iff transformable_def)
    ultimately show ?thesis by simp
  next
    case t: None
    have a: "importGeoreferencing env data_source s = Inl e
         \<longleftrightarrow> e = FileFormatException \<and> layer_references data_source \<noteq> []
               \<and> find (srs_is_local env) (layer_references data_source) = None"
      using p q t l n
      by (auto simp: importGeoreferencing_def st_def [symmetric] Let_def split: option.splits)
    have b: "find (srs_is_local env) (layer_references data_source) = None
         \<longleftrightarrow> list_all (\<lambda>n. \<not> srs_is_local env n
                          \<and> new_transformation env (LayerSrs n) OrthographicSrs = None)
             (layer_references data_source)"
      using t by (auto simp: find_None_iff list_all_iff transformable_def)
    show ?thesis unfolding a b by simp
  qed
qed

lemma importGeoreferencing_local:
  assumes "list_all (\<lambda>n. \<not> transformable env n) (layer_references data_source)"
    and "find (srs_is_local env) (layer_references data_source) = Some l"
  shows "\<exists>w. importGeoreferencing env data_source s =
               Inr (LayerSrs l,
                    s\<lparr>warnings := warnings s @ w,
                      georef := (new_georeferencing env)
                        \<lparr>scale_denominator := scale_denominator (georef s),
                         declination := declination (georef s)\<rparr>\<rparr>)"
proof -
  define st where "st = scan_layers env data_source
                 \<lparr>no_srs = True, local_srs = None, suitable_srs = None,
                  projected_srs_spec = None, scan_warnings = []\<rparr>"
  have t: "find (transformable env) (layer_references data_source) = None"
    using assms(1) by (simp add: find_None_iff list_all_iff)
  have u: "find (usable_projected env) (layer_references data_source) = None"
    using assms(1) by (auto simp: find_None_iff list_all_iff usable_projected_def)
  have p: "projected_srs_spec st = None"
    unfolding st_def scan_layers_spec using u by simp
  have q: "suitable_srs st = None"
    unfolding st_def scan_layers_suitable using u t by simp
  have l: "local_srs st = Some l"
    unfolding st_def scan_layers_local [OF u] using assms(2) by simp
  have "importGeoreferencing env data_source s =
               Inr (LayerSrs l,
                    s\<lparr>warnings := warnings s @ scan_warnings st,
                      georef := (new_georeferencing env)
                        \<lparr>scale_denominator := scale_denominator (georef s),
                         declination := declination (georef s)\<rparr>\<rparr>)"
    using p q l by (simp add: importGeoreferencing_def st_def [symmetric] Let_def)
  then show ?thesis by blast
qed

lemma calcAverageCoords_vertices:
  "calcAverageCoords env data_source target =
     (case foldl (add_vertex env) (0, 0, 0) (transformable_vertices env data_source target) of
        (x, y, num_coords) \<Rightarrow>
          if num_coords \<noteq> 0
          then (double_div env x (of_nat num_coords), double_div env y (of_nat num_coords))
          else (0, 0))"
  by (simp add: calcAverageCoords_def AverageCoords_vertices)

lemma calcAverageCoords_exact:
  assumes "\<And>a b. double_add env a b = a + b" "\<And>a b. double_div env a b = a / b"
    and "transformable_vertices env data_source target = vs" "vs \<noteq> []" "length vs < 2 ^ 32"
  shows "calcAverageCoords env data_source target
           = (sum_list (map fst vs) / of_nat (length vs), sum_list (map snd vs) / of_nat (length vs))"
proof -
  have "foldl (add_vertex env) (0, 0, 0) vs
          = (0 + sum_list (map fst vs), 0 + sum_list (map snd vs), (0 + length vs) mod 2 ^ 32)"
    by (rule exact_sums) (simp_all add: assms(1))
  then have "foldl (add_vertex env) (0, 0, 0) vs
          = (sum_list (map fst vs), sum_list (map snd vs), length vs)"
    using assms(5) by simp
  then show ?thesis
    using assms(2,3,4) by (simp add: calcAverageCoords_vertices)
qed

text \<open>
  C1, as stated, fails. A data source with a local reference and a reference which is not
  local and cannot be transformed does not fail: the import takes the local reference.
  And a projected reference which can be transformed but not exported as a PROJ.4
  specification is not taken as the reference of the map: the map gets an orthographic
  projection of its own, with the reference point at the origin.
\<close>

theorem local_reference_prevents_failure:
  "layer_references demo_local_source = [1, 3]
   \<and> srs_is_local demo_env 1
   \<and> \<not> srs_is_local demo_env 3
   \<and> new_transformation demo_env (LayerSrs 3) OrthographicSrs = None
   \<and> result_reference (importGeoreferencing demo_env demo_local_source demo_importer)
       = Some (LayerSrs 1)
   \<and> layer_references demo_unexported_source = [1, 4]
   \<and> srs_is_projected demo_env 4
   \<and> new_transformation demo_env (LayerSrs 4) OrthographicSrs \<noteq> None
   \<and> result_reference (importGeoreferencing demo_env demo_unexported_source demo_importer)
       = Some (ProjectedSrs (''+proj=ortho +datum=WGS84 +ellps=WGS84 +units=m +lat_0=''
                              @ ''0.000000'' @ '' +lon_0='' @ ''0.000000'' @ '' +no_defs''))
   \<and> result_ref_point (importGeoreferencing demo_env demo_unexported_source demo_importer)
       = Some (0, 0)"
  by (simp add: result_reference_def result_ref_point_def importGeoreferencing_def
        demo_local_source_def demo_unexported_source_def demo_layer_of_def demo_env_def
        Let_def srsFromMap_def setProjectedCRS_def demo_georef_def)

text \<open>
  C1, amended. The import takes the first reference, in the order of the layers, which is
  not local, can be transformed to the orthographic probe, is projected and can be
  exported as a PROJ.4 specification, whatever references the other layers have: it
  returns this reference and makes it the projected reference of the map, with the
  reference point at the rounded centroid (\<^verbatim>\<open>std::round\<close> of each axis). The centroid is
  taken over the vertices of all features whose layer has a transformation to this
  reference and whose geometry is not empty and can be transformed: their coordinates
  are added up in the order of the layers and divided by their number; with exact
  addition and division it is the mean of the vertices. The import fails, and then with
  the exception for a missing geospatial reference, exactly when some layer has a
  reference and every reference is neither local nor transformable. When no reference is
  transformable and some reference is local, the import takes the first local reference.
\<close>

theorem importGeoreferencing_prefers_projected:
  "(find (usable_projected env) (layer_references data_source) = Some n \<longrightarrow>
      (\<exists>spec w.
         srs_export_to_proj4 env n = Some spec
         \<and> importGeoreferencing env data_source s =
             Inr (LayerSrs n,
                  s\<lparr>warnings := warnings s @ w,
                    georef := (setProjectedCRS ''PROJ.4'' spec (georef s))
                      \<lparr>projected_ref_point :=
                         (std_round (fst (calcAverageCoords env data_source (LayerSrs n))),
                          std_round (snd (calcAverageCoords env data_source (LayerSrs n))))\<rparr>\<rparr>)))
   \<and> calcAverageCoords env data_source target =
       (case foldl (add_vertex env) (0, 0, 0) (transformable_vertices env data_source target) of
          (x, y, num_coords) \<Rightarrow>
            if num_coords \<noteq> 0
            then (double_div env x (of_nat num_coords), double_div env y (of_nat num_coords))
            else (0, 0))
   \<and> ((\<forall>a b. double_add env a b = a + b) \<and> (\<forall>a b. double_div env a b = a / b)
        \<and> transformable_vertices env data_source target = vs \<and> vs \<noteq> []
        \<and> length vs < 2 ^ 32 \<longrightarrow>
        calcAverageCoords env data_source target
          = (sum_list (map fst vs) / of_nat (length vs), sum_list (map snd vs) / of_nat (length vs)))
   \<and> (importGeoreferencing env data_source s = Inl e
        \<longleftrightarrow> e = FileFormatException \<and> layer_references data_source \<noteq> []
            \<and> list_all (\<lambda>n. \<not> srs_is_local env n
                             \<and> new_transformation env (LayerSrs n) OrthographicSrs = None)
                (layer_references data_source))
   \<and> (list_all (\<lambda>n. \<not> transformable env n) (layer_references data_source)
        \<and> find (srs_is_local env) (layer_references data_source) = Some l \<longrightarrow>
        (\<exists>w. importGeoreferencing env data_source s =
               Inr (LayerSrs l,
                    s\<lparr>warnings := warnings s @ w,
                      georef := (new_georeferencing env)
                        \<lparr>scale_denominator := scale_denominator (georef s),
                         declination := declination (georef s)\<rparr>\<rparr>)))"
proof (intro conjI impI)
  assume "find (usable_projected env) (layer_references data_source) = Some n"
  then show "\<exists>spec w.
         srs_export_to_proj4 env n = Some spec
         \<and> importGeoreferencing env data_source s =
             Inr (LayerSrs n,
                  s\<lparr>warnings := warnings s @ w,
                    georef := (setProjectedCRS ''PROJ.4'' spec (georef s))
                      \<lparr>projected_ref_point :=
                         (std_round (fst (calcAverageCoords env data_source (LayerSrs n))),
                          std_round (snd (calcAverageCoords env data_source (LayerSrs n))))\<rparr>\<rparr>)"
    by (rule importGeoreferencing_projected)
next
  show "calcAverageCoords env data_source target =
       (case foldl (add_vertex env) (0, 0, 0) (transformable_vertices env data_source target) of
          (x, y, num_coords) \<Rightarrow>
            if num_coords \<noteq> 0
            then (double_div env x (of_nat num_coords), double_div env y (of_nat num_coords))
            else (0, 0))"
    by (rule calcAverageCoords_vertices)
next
  assume h: "(\<forall>a b. double_add env a b = a + b) \<and> (\<forall>a b. double_div env a b = a / b)
        \<and> transformable_vertices env data_source target = vs \<and> vs \<noteq> []
        \<and> length vs < 2 ^ 32"
  show "calcAverageCoords env data_source target
          = (sum_list (map fst vs) / of_nat (length vs), sum_list (map snd vs) / of_nat (length vs))"
    by (rule calcAverageCoords_exact) (use h in simp_all)
next
  show "importGeoreferencing env data_source s = Inl e
        \<longleftrightarrow> e = FileFormatException \<and> layer_references data_source \<noteq> []
            \<and> list_all (\<lambda>n. \<not> srs_is_local env n
                             \<and> new_transformation env (LayerSrs n) OrthographicSrs = None)
                (layer_references data_source)"
    by (rule importGeoreferencing_fails)
next
  assume "list_all (\<lambda>n. \<not> transformable env n) (layer_references data_source)
        \<and> find (srs_is_local env) (layer_references data_source) = Some l"
  then show "\<exists>w. importGeoreferencing env data_source s =
               Inr (LayerSrs l,
                    s\<lparr>warnings := warnings s @ w,
                      georef := (new_georeferencing env)
                        \<lparr>scale_denominator := scale_denominator (georef s),
                         declination := declination (georef s)\<rparr>\<rparr>)"
    using importGeoreferencing_local [of env data_source l s] by simp
qed


theorem importGeoreferencing_prefers_projected_witness:
  "find (usable_projected demo_env) (layer_references demo_projected_source) = Some 2
   \<and> transformable_vertices demo_env demo_projected_source (LayerSrs 2) = [(1, 2), (4, 6), (5, 5)]
   \<and> calcAverageCoords demo_env demo_projected_source (LayerSrs 2) = (10 / 3, 13 / 3)
   \<and> result_reference (importGeoreferencing demo_env demo_projected_source demo_importer)
       = Some (LayerSrs 2)
   \<and> result_ref_point (importGeoreferencing demo_env demo_projected_source demo_importer)
       = Some (3, 4)
   \<and> layer_references demo_unreachable_source = [3]
   \<and> importGeoreferencing demo_env demo_unreachable_source demo_importer = Inl FileFormatException
   \<and> find (srs_is_local demo_env) (layer_references demo_local_source) = Some 1
   \<and> result_reference (importGeoreferencing demo_env demo_local_source demo_importer)
       = Some (LayerSrs 1)"
proof -
  have r: "layer_references demo_projected_source = [1, 2]"
    by (simp add: demo_projected_source_def demo_layer_of_def)
  have f: "find (usable_projected demo_env) (layer_references demo_projected_source) = Some 2"
    unfolding r by (simp add: usable_projected_def transformable_def demo_env_def)
  have v: "transformable_vertices demo_env demo_projected_source (LayerSrs 2)
             = [(1, 2), (4, 6), (5, 5)]"
    by (simp add: transformable_vertices_def layer_vertices_def feature_vertices_def
          demo_projected_source_def demo_layer_of_def demo_point_feature_def demo_feature_def
          demo_env_def)
  define vs :: "coord list" where "vs = [(1, 2), (4, 6), (5, 5)]"
  have ea: "\<forall>a b. double_add demo_env a b = a + b"
    by (simp add: demo_env_def)
  have ed: "\<forall>a b. double_div demo_env a b = a / b"
    by (simp add: demo_env_def)
  have hyp: "(\<forall>a b. double_add demo_env a b = a + b) \<and> (\<forall>a b. double_div demo_env a b = a / b)
        \<and> transformable_vertices demo_env demo_projected_source (LayerSrs 2) = vs \<and> vs \<noteq> []
        \<and> length vs < 2 ^ 32"
    using ea ed v by (simp add: vs_def)
  have "calcAverageCoords demo_env demo_projected_source (LayerSrs 2)
          = (sum_list (map fst vs) / of_nat (length vs), sum_list (map snd vs) / of_nat (length vs))"
    by (rule importGeoreferencing_prefers_projected
          [where env = demo_env and data_source = demo_projected_source and target = "LayerSrs 2"
             and vs = vs,
           THEN conjunct2, THEN conjunct2, THEN conjunct1, rule_format])
       (rule hyp)
  then have c: "calcAverageCoords demo_env demo_projected_source (LayerSrs 2) = (10 / 3, 13 / 3)"
    by (simp add: vs_def)
  have "\<exists>spec w.
         srs_export_to_proj4 demo_env 2 = Some spec
         \<and> importGeoreferencing demo_env demo_projected_source demo_importer =
             Inr (LayerSrs 2,
                  demo_importer\<lparr>warnings := warnings demo_importer @ w,
                    georef := (setProjectedCRS ''PROJ.4'' spec (georef demo_importer))
                      \<lparr>projected_ref_point :=
                         (std_round (fst (calcAverageCoords demo_env demo_projected_source (LayerSrs 2))),
                          std_round (snd (calcAverageCoords demo_env demo_projected_source (LayerSrs 2))))\<rparr>\<rparr>)"
    by (rule importGeoreferencing_prefers_projected
          [where env = demo_env and data_source = demo_projected_source and s = demo_importer,
           THEN conjunct1, rule_format])
       (rule f)
  then obtain spec w where
    g: "importGeoreferencing demo_env demo_projected_source demo_importer =
             Inr (LayerSrs 2,
                  demo_importer\<lparr>warnings := warnings demo_importer @ w,
                    georef := (setProjectedCRS ''PROJ.4'' spec (georef demo_importer))
                      \<lparr>projected_ref_point :=
                         (std_round (fst (calcAverageCoords demo_env demo_projected_source (LayerSrs 2))),
                          std_round (snd (calcAverageCoords demo_env demo_projected_source (LayerSrs 2))))\<rparr>\<rparr>)"
    by blast
  have g1: "result_reference (importGeoreferencing demo_env demo_projected_source demo_importer)
       = Some (LayerSrs 2)"
    unfolding g by (simp add: result_reference_def)
  have fl: "\<lfloor>(23::rat) / 6\<rfloor> = 3" "\<lfloor>(29::rat) / 6\<rfloor> = 4"
    by (rule floor_unique, simp, simp)+
  have g2: "result_ref_point (importGeoreferencing demo_env demo_projected_source demo_importer)
       = Some (3, 4)"
    unfolding g c by (simp add: result_ref_point_def std_round_def fl)
  have u: "layer_references demo_unreachable_source = [3]"
    by (simp add: demo_unreachable_source_def demo_layer_of_def)
  have "importGeoreferencing demo_env demo_unreachable_source demo_importer = Inl FileFormatException
        \<longleftrightarrow> FileFormatException = FileFormatException
            \<and> layer_references demo_unreachable_source \<noteq> []
            \<and> list_all (\<lambda>n. \<not> srs_is_local demo_env n
                             \<and> new_transformation demo_env (LayerSrs n) OrthographicSrs = None)
                (layer_references demo_unreachable_source)"
    by (rule importGeoreferencing_prefers_projected
          [where env = demo_env and data_source = demo_unreachable_source and s = demo_importer
             and e = FileFormatException,
           THEN conjunct2, THEN conjunct2, THEN conjunct2, THEN conjunct1])
  then have x: "importGeoreferencing demo_env demo_unreachable_source demo_importer
                  = Inl FileFormatException"
    unfolding u by (simp add: demo_env_def)
  have lr: "layer_references demo_local_source = [1, 3]"
    by (simp add: demo_local_source_def demo_layer_of_def)
  have lf: "find (srs_is_local demo_env) (layer_references demo_local_source) = Some 1"
    unfolding lr by (simp add: demo_env_def)
  have "\<exists>w. importGeoreferencing demo_env demo_local_source demo_importer =
               Inr (LayerSrs 1,
                    demo_importer\<lparr>warnings := warnings demo_importer @ w,
                      georef := (new_georeferencing demo_env)
                        \<lparr>scale_denominator := scale_denominator (georef demo_importer),
                         declination := declination (georef demo_importer)\<rparr>\<rparr>)"
    by (rule importGeoreferencing_prefers_projected
          [where env = demo_env and data_source = demo_local_source and s = demo_importer and l = 1,
           THEN conjunct2, THEN conjunct2, THEN conjunct2, THEN conjunct2, rule_format])
       (rule conjI, simp add: lr transformable_def demo_env_def, rule lf)
  then obtain w' where
    h: "importGeoreferencing demo_env demo_local_source demo_importer =
               Inr (LayerSrs 1,
                    demo_importer\<lparr>warnings := warnings demo_importer @ w',
                      georef := (new_georeferencing demo_env)
                        \<lparr>scale_denominator := scale_denominator (georef demo_importer),
                         declination := declination (georef demo_importer)\<rparr>\<rparr>)"
    by blast
  have h1: "result_reference (importGeoreferencing demo_env demo_local_source demo_importer)
       = Some (LayerSrs 1)"
    unfolding h by (simp add: result_reference_def)
  show ?thesis
    using f v c g1 g2 u x lf h1 by (intro conjI)
qed

section \<open>The tags of an imported object\<close>

text \<open>
  C9. The import of a point with a symbol tool of angle 45 gives an object with the tag
  \<^verbatim>\<open>Rotation\<close> of value 45. When the feature has a field of the same name, \<^verbatim>\<open>importFeature\<close>
  inserts the tag of the object into the tags of the fields, where the key is present
  already: the object which is added to the map has the value of the field, and the tag
  which the object had is lost.
\<close>

theorem importFeature_field_replaces_tag:
  "map_option obj_tags (result_object (importPointGeometry demo_env rotation_feature
        (Geometry wkbPoint True [(1, 2)] []) demo_importer)) = Some [(''Rotation'', ''45'')]
   \<and> importFields (Some [''Rotation'']) rotation_feature = [(''Rotation'', ''north'')]
   \<and> imported_tags (importFeature demo_env 0 (Some [''Rotation'']) rotation_feature
         (Geometry wkbPoint True [(1, 2)] []) None demo_importer)
       = Some [[(''Rotation'', ''north'')]]"
  by (simp add: result_object_def imported_tags_def importFeature_def setSRS_def importFields_def
        OGR_F_GetFieldAsString_def object_list_def importPointGeometry_def
        rotation_feature_def demo_feature_def
        demo_eval setTag_def tags_insert_or_assign_def tags_contains_def setPosition_def
        new_object_def toMapCoord_def OGR_G_GetPoint_def tags_insert_def)

theorem importFeature_field_replaces_tag_witness:
  "imported_tags (importFeature demo_env 0 (Some [''Rotation'']) rotation_feature
         (Geometry wkbPoint True [(1, 2)] []) None demo_importer)
       = Some [[(''Rotation'', ''north'')]]
   \<and> imported_tags (importFeature demo_env 0 (Some [''Rotation'']) rotation_feature
         (Geometry wkbPoint True [(1, 2)] []) None demo_importer)
       \<noteq> Some [[(''Rotation'', ''45'')]]"
  using importFeature_field_replaces_tag by simp


end
